(* ===== verification/Prelude.thy ===== *)
theory Prelude
  imports Main
begin

text \<open>
  Shared vocabulary of the SecureShield development: the Python exceptions the code
  raises or catches, results as \<open>exn + 'a\<close>, the dictionaries the chains pass around,
  chat messages, and Python's \<open>str\<close> and \<open>repr\<close> of the values that end up in the
  status strings of the capability chains.  Everything here is executable.
\<close>

named_theorems py_simps "evaluation rules of the modelled Python built-ins"
named_theorems world_simps "frame rules of the modelled data-store operations"

section \<open>Exceptions and results\<close>

text \<open>
  The sqlite3 exceptions the chains name (\<^verbatim>\<open>sqlite3.OperationalError\<close> is caught in
  \<^verbatim>\<open>Update_Claim_Status.py\<close>; \<^verbatim>\<open>IntegrityError\<close> stands for every other
  \<^verbatim>\<open>sqlite3.DatabaseError\<close>) and the Python exceptions raised along the paths of
  \<^verbatim>\<open>bot.py\<close> and the chains.  Every one of them is an \<^verbatim>\<open>Exception\<close>, so an
  \<^verbatim>\<open>except Exception\<close> catches all of them.
\<close>

datatype db_error = OperationalError string | IntegrityError string

datatype exn =
    KeyError string
  | TypeError string
  | AttributeError string
  | ValueError string
  | NameError string
  | IndexError string
  | OutputParserException string
  | SqliteError db_error
  | IndentationError string
  | OverflowError string

type_synonym 'a result = "exn + 'a"

definition bind_res :: "exn + 'a \<Rightarrow> ('a \<Rightarrow> exn + 'b) \<Rightarrow> exn + 'b" where
  "bind_res r f = (case r of Inl e \<Rightarrow> Inl e | Inr a \<Rightarrow> f a)"

lemma bind_res_Inl [simp]: "bind_res (Inl e) f = Inl e"
  by (simp add: bind_res_def)

lemma bind_res_Inr [simp]: "bind_res (Inr a) f = f a"
  by (simp add: bind_res_def)

lemma bind_res_eq_Inr:
  "bind_res r f = Inr b \<longleftrightarrow> (\<exists>a. r = Inr a \<and> f a = Inr b)"
  by (cases r) simp_all

section \<open>Messages and dictionaries\<close>

text \<open>
  A chat message of LangChain's history (\<^verbatim>\<open>HumanMessage\<close> or \<^verbatim>\<open>AIMessage\<close>)
  and the values the chains store in their input dictionaries: strings, message
  lists (\<^verbatim>\<open>chat_history\<close>), string lists (\<^verbatim>\<open>possible_intentions\<close>), and the
  parsed \<^verbatim>\<open>ChitChatClassifier\<close> object.
\<close>

datatype role = Human | AI

record message =
  msg_role :: role
  msg_content :: string

datatype pyval =
    PStr string
  | PMessages "message list"
  | PStrList "string list"
  | PChitchatVerdict bool

type_synonym pydict = "string \<rightharpoonup> pyval"

text \<open>
  The language model behind a chain is an oracle: a deterministic function of the
  values substituted into the chain's prompt template, whose completion the chain's
  \<^verbatim>\<open>PydanticOutputParser\<close> either accepts or rejects with an exception.
  \<open>status_llm\<close> is the response step shared by the three capability chains: it reads
  \<^verbatim>\<open>user_input\<close>, \<^verbatim>\<open>chat_history\<close> and the operation status and returns the
  \<^verbatim>\<open>output\<close> field of its parsed answer.
\<close>

type_synonym status_llm = "pyval \<Rightarrow> pyval \<Rightarrow> string \<Rightarrow> exn + string"

text \<open>\<^verbatim>\<open>d[k]\<close> on a Python dict: a missing key raises \<^verbatim>\<open>KeyError(k)\<close>.\<close>

definition dict_get :: "pydict \<Rightarrow> string \<Rightarrow> exn + pyval" where
  "dict_get d k = (case d k of None \<Rightarrow> Inl (KeyError k) | Some v \<Rightarrow> Inr v)"

lemma dict_get_None [simp]: "d k = None \<Longrightarrow> dict_get d k = Inl (KeyError k)"
  by (simp add: dict_get_def)

lemma dict_get_Some [simp]: "d k = Some v \<Longrightarrow> dict_get d k = Inr v"
  by (simp add: dict_get_def)

lemma dict_get_Inr_iff: "dict_get d k = Inr v \<longleftrightarrow> d k = Some v"
  by (simp add: dict_get_def split: option.splits)

lemma dict_get_Inl_iff: "dict_get d k = Inl e \<longleftrightarrow> d k = None \<and> e = KeyError k"
  by (auto simp add: dict_get_def split: option.splits)

section \<open>Python's str and repr\<close>

text \<open>\<^verbatim>\<open>str(n)\<close> of a Python int: decimal digits, a minus sign for negatives.\<close>

fun py_str_nat :: "nat \<Rightarrow> string" where
  "py_str_nat n =
     (if n < 10 then [char_of (48 + n)]
      else py_str_nat (n div 10) @ [char_of (48 + n mod 10)])"

declare py_str_nat.simps [simp del]

definition py_str_int :: "int \<Rightarrow> string" where
  "py_str_int i = (if i < 0 then CHR ''-'' # py_str_nat (nat (- i)) else py_str_nat (nat i))"

text \<open>
  \<^verbatim>\<open>repr(s)\<close> of a Python string, for code points below 256: single quotes unless
  the string holds a single quote and no double quote; the backslash, the chosen
  quote, tab, newline and carriage return escaped; the other non-printable code
  points (controls, DEL, \<^verbatim>\<open>0x80\<close>-\<^verbatim>\<open>0xa0\<close>, the soft hyphen) as \<^verbatim>\<open>\xhh\<close>.
\<close>

definition hex_char :: "nat \<Rightarrow> char" where
  "hex_char n = (if n < 10 then char_of (48 + n) else char_of (87 + n))"

definition py_escape :: "char \<Rightarrow> char \<Rightarrow> string" where
  "py_escape q c =
     (let n = (of_char c :: nat); bs = char_of (92 :: nat) in
      if n = 92 then [bs, bs]
      else if c = q then [bs, q]
      else if n = 9 then [bs, CHR ''t'']
      else if n = 10 then [bs, CHR ''n'']
      else if n = 13 then [bs, CHR ''r'']
      else if n < 32 \<or> n = 127 \<or> (128 \<le> n \<and> n \<le> 160) \<or> n = 173
        then [bs, CHR ''x'', hex_char (n div 16), hex_char (n mod 16)]
      else [c])"

definition py_quote :: "string \<Rightarrow> char" where
  "py_quote s = (if CHR 0x27 \<in> set s \<and> CHR 0x22 \<notin> set s then CHR 0x22 else CHR 0x27)"

definition py_repr_str :: "string \<Rightarrow> string" where
  "py_repr_str s = (let q = py_quote s in q # concat (map (py_escape q) s) @ [q])"

text \<open>\<^verbatim>\<open>", ".join(xs)\<close>, used by the reprs of tuples and lists.\<close>

fun join_comma :: "string list \<Rightarrow> string" where
  "join_comma [] = []"
| "join_comma [x] = x"
| "join_comma (x # y # zs) = x @ '', '' @ join_comma (y # zs)"

text \<open>The quotes an f-string writes around a value: \<^verbatim>\<open>f"'{value}'"\<close>.\<close>

definition single_quoted :: "string \<Rightarrow> string" where
  "single_quoted s = CHR 0x27 # s @ [CHR 0x27]"

text \<open>\<^verbatim>\<open>str(e)\<close> of the exceptions: a \<^verbatim>\<open>KeyError\<close> prints the repr of its key.\<close>

fun exn_str :: "exn \<Rightarrow> string" where
  "exn_str (KeyError k) = py_repr_str k"
| "exn_str (TypeError m) = m"
| "exn_str (AttributeError m) = m"
| "exn_str (ValueError m) = m"
| "exn_str (NameError m) = m"
| "exn_str (IndexError m) = m"
| "exn_str (OutputParserException m) = m"
| "exn_str (SqliteError (OperationalError m)) = m"
| "exn_str (SqliteError (IntegrityError m)) = m"
| "exn_str (IndentationError m) = m"
| "exn_str (OverflowError m) = m"

section \<open>Generic lemmas\<close>

lemma py_str_nat_not_Nil [simp]: "py_str_nat n \<noteq> []"
  by (subst py_str_nat.simps) simp

lemma py_repr_str_not_Nil [simp]: "py_repr_str s \<noteq> []"
  by (simp add: py_repr_str_def Let_def)

lemma isl_map_sum [simp]: "isl (map_sum f g x) = isl x"
  by (cases x) simp_all

lemma hd_py_repr_str: "hd (py_repr_str s) = py_quote s"
  by (simp add: py_repr_str_def Let_def)

end
