(* ===== verification/Store.thy ===== *)
theory Store
  imports Prelude
begin

text \<open>
  The SQLite store the chains open with \<^verbatim>\<open>sqlite3.connect("SecureShield/secure_shield.db")\<close>.
  The schema is not part of the repository; the tables and columns are those the
  statements of the chains name (spec section 6: \<^verbatim>\<open>Claims\<close>, \<^verbatim>\<open>Policies\<close>,
  \<^verbatim>\<open>Clients\<close>, and \<^verbatim>\<open>Employees\<close> of \<^verbatim>\<open>Login.py\<close>), each table a list of rows
  in scan order, integer columns as \<open>int\<close> and text columns as \<open>string\<close>.
  Every statement a chain executes is a constructor of \<open>stmt\<close> carrying its bound
  parameters.  The world record is what one turn of the chatbot can observe and change:
  the tables, the number of connections opened and not explicitly closed, the log of the
  statements issued, the faults the store raises on reads and writes, and stdout.
\<close>

section \<open>Tables\<close>

datatype sqlval = VInt int | VText string

record claim_row =
  cl_claim_id :: int
  cl_policy_id :: int
  cl_user_id :: int
  cl_claim_type :: string
  cl_status :: string

record policy_row =
  po_policy_id :: int
  po_user_id :: int
  po_policy_type :: string
  po_policy_level :: string

record client_row =
  cli_client_id :: int
  cli_name :: string

record employee_row =
  emp_email :: string
  emp_password :: string
  emp_first_name :: string

record database =
  claims :: "claim_row list"
  policies :: "policy_row list"
  clients :: "client_row list"
  employees :: "employee_row list"

text \<open>The statements of the repository, with their parameters as bound by \<^verbatim>\<open>execute\<close>.\<close>

datatype stmt =
    SelectClaimIdById int
  | UpdateClaimStatus string int
  | SelectStatusById string
  | SelectClaimsByClient string
  | SelectClaimsByPolicy string
  | SelectClaimById string
  | SelectPolicyById string
  | SelectPoliciesByClient string
  | SelectPoliciesByType string
  | SelectEmailByEmail string
  | SelectEmployee string string
  | SelectFirstNameByEmail string

section \<open>SQLite comparison of an integer column with a text parameter\<close>

text \<open>
  The lookup chains bind the extracted \<^verbatim>\<open>value\<close>, a Python \<^verbatim>\<open>str\<close>, against
  integer columns (\<^verbatim>\<open>claim_id = ?\<close>).  SQLite then applies numeric affinity to the
  text: a well-formed integer literal becomes that integer and compares numerically;
  any other text never equals an integer.  Modelled: an optional sign followed by
  decimal digits.  Not modelled: surrounding blanks, real literals such as \<^verbatim>\<open>5.0\<close>,
  and literals beyond 64 bits.
\<close>

definition is_digit_char :: "char \<Rightarrow> bool" where
  "is_digit_char c = (48 \<le> (of_char c :: nat) \<and> (of_char c :: nat) \<le> 57)"

fun digits_value :: "nat \<Rightarrow> string \<Rightarrow> nat" where
  "digits_value acc [] = acc"
| "digits_value acc (c # cs) = digits_value (10 * acc + (of_char c - 48)) cs"

definition text_to_int :: "string \<Rightarrow> int option" where
  "text_to_int s =
     (case s of
        [] \<Rightarrow> None
      | c # cs \<Rightarrow>
          if c = CHR ''-'' \<or> c = CHR ''+'' then
            (if cs \<noteq> [] \<and> list_all is_digit_char cs
             then Some ((if c = CHR ''-'' then -1 else 1) * int (digits_value 0 cs))
             else None)
          else if list_all is_digit_char s then Some (int (digits_value 0 s))
          else None)"

definition int_col_eq :: "int \<Rightarrow> string \<Rightarrow> bool" where
  "int_col_eq col v = (text_to_int v = Some col)"

section \<open>Evaluation of the statements\<close>

definition claim_summary :: "claim_row \<Rightarrow> sqlval list" where
  "claim_summary c = [VInt (cl_claim_id c), VText (cl_claim_type c), VText (cl_status c)]"

definition claim_all :: "claim_row \<Rightarrow> sqlval list" where
  "claim_all c = [VInt (cl_claim_id c), VInt (cl_policy_id c), VInt (cl_user_id c),
                  VText (cl_claim_type c), VText (cl_status c)]"

definition policy_all :: "policy_row \<Rightarrow> sqlval list" where
  "policy_all p = [VInt (po_policy_id p), VInt (po_user_id p), VText (po_policy_type p),
                   VText (po_policy_level p)]"

text \<open>
  The scalar subquery \<^verbatim>\<open>(SELECT client_id FROM Clients WHERE name = ? OR client_id = ?)\<close>
  yields the first matching client's id, or NULL, which equals nothing.
\<close>

definition client_subquery :: "database \<Rightarrow> string \<Rightarrow> int option" where
  "client_subquery d v =
     map_option cli_client_id
       (find (\<lambda>c. cli_name c = v \<or> int_col_eq (cli_client_id c) v) (clients d))"

fun run_select :: "database \<Rightarrow> stmt \<Rightarrow> sqlval list list" where
  "run_select d (SelectClaimIdById i) =
     map (\<lambda>c. [VInt (cl_claim_id c)]) (filter (\<lambda>c. cl_claim_id c = i) (claims d))"
| "run_select d (SelectStatusById v) =
     map (\<lambda>c. [VText (cl_status c)]) (filter (\<lambda>c. int_col_eq (cl_claim_id c) v) (claims d))"
| "run_select d (SelectClaimsByClient v) =
     (case client_subquery d v of
        None \<Rightarrow> []
      | Some u \<Rightarrow> map claim_summary (filter (\<lambda>c. cl_user_id c = u) (claims d)))"
| "run_select d (SelectClaimsByPolicy v) =
     map claim_summary (filter (\<lambda>c. int_col_eq (cl_policy_id c) v) (claims d))"
| "run_select d (SelectClaimById v) =
     map claim_all (filter (\<lambda>c. int_col_eq (cl_claim_id c) v) (claims d))"
| "run_select d (SelectPolicyById v) =
     map policy_all (filter (\<lambda>p. int_col_eq (po_policy_id p) v) (policies d))"
| "run_select d (SelectPoliciesByClient v) =
     (case client_subquery d v of
        None \<Rightarrow> []
      | Some u \<Rightarrow>
          map (\<lambda>p. [VInt (po_policy_id p), VText (po_policy_type p), VText (po_policy_level p)])
            (filter (\<lambda>p. po_user_id p = u) (policies d)))"
| "run_select d (SelectPoliciesByType v) =
     map (\<lambda>p. [VInt (po_policy_id p), VInt (po_user_id p), VText (po_policy_level p)])
       (filter (\<lambda>p. po_policy_type p = v) (policies d))"
| "run_select d (SelectEmailByEmail e) =
     map (\<lambda>r. [VText (emp_email r)]) (filter (\<lambda>r. emp_email r = e) (employees d))"
| "run_select d (SelectEmployee e p) =
     map (\<lambda>r. [VText (emp_email r), VText (emp_password r), VText (emp_first_name r)])
       (filter (\<lambda>r. emp_email r = e \<and> emp_password r = p) (employees d))"
| "run_select d (SelectFirstNameByEmail e) =
     map (\<lambda>r. [VText (emp_first_name r)]) (filter (\<lambda>r. emp_email r = e) (employees d))"
| "run_select d (UpdateClaimStatus s i) = []"

text \<open>\<^verbatim>\<open>UPDATE Claims SET status = ? WHERE claim_id = ?\<close>.\<close>

definition set_claim_status :: "int \<Rightarrow> string \<Rightarrow> database \<Rightarrow> database" where
  "set_claim_status i s d =
     d\<lparr>claims := map (\<lambda>c. if cl_claim_id c = i then c\<lparr>cl_status := s\<rparr> else c) (claims d)\<rparr>"

fun run_update :: "database \<Rightarrow> stmt \<Rightarrow> database" where
  "run_update d (UpdateClaimStatus s i) = set_claim_status i s d"
| "run_update d _ = d"

section \<open>The world of one turn and the cursor operations\<close>

record world =
  db :: database
  conns :: nat
  sql_log :: "stmt list"
  read_fault :: "db_error option"
  write_fault :: "db_error option"
  stdout :: "string list"

definition sql_connect :: "world \<Rightarrow> world" where
  "sql_connect w = w\<lparr>conns := Suc (conns w)\<rparr>"

definition sql_close :: "world \<Rightarrow> world" where
  "sql_close w = w\<lparr>conns := conns w - 1\<rparr>"

definition py_print :: "string \<Rightarrow> world \<Rightarrow> world" where
  "py_print s w = w\<lparr>stdout := stdout w @ [s]\<rparr>"

text \<open>
  Binding the parameters: \<^verbatim>\<open>sqlite3\<close> stores a Python \<^verbatim>\<open>int\<close> as a signed 64-bit
  INTEGER and raises \<^verbatim>\<open>OverflowError\<close> for any other value, before the statement
  runs.  Python's ints are unbounded (\<open>int\<close>); the range is written out.
\<close>

definition sqlite_int64 :: "int \<Rightarrow> bool" where
  "sqlite_int64 i \<longleftrightarrow> - (2 ^ 63) \<le> i \<and> i < 2 ^ 63"

fun stmt_int_params :: "stmt \<Rightarrow> int list" where
  "stmt_int_params (SelectClaimIdById i) = [i]"
| "stmt_int_params (UpdateClaimStatus s i) = [i]"
| "stmt_int_params _ = []"

definition stmt_binds :: "stmt \<Rightarrow> bool" where
  "stmt_binds s \<longleftrightarrow> list_all sqlite_int64 (stmt_int_params s)"

definition sqlite_overflow_error :: exn where
  "sqlite_overflow_error = OverflowError ''Python int too large to convert to SQLite INTEGER''"

text \<open>
  \<^verbatim>\<open>cursor.execute(select, params)\<close> followed by \<^verbatim>\<open>fetchall()\<close>: the statement
  passed to \<^verbatim>\<open>execute\<close> is logged, its parameters are bound (an out-of-range integer
  raises), then either the store's read fault is raised or the rows come back.
\<close>

definition sql_select :: "stmt \<Rightarrow> world \<Rightarrow> (exn + sqlval list list) \<times> world" where
  "sql_select s w =
     (let w' = w\<lparr>sql_log := sql_log w @ [s]\<rparr> in
      if \<not> stmt_binds s then (Inl sqlite_overflow_error, w')
      else
        case read_fault w of
          Some e \<Rightarrow> (Inl (SqliteError e), w')
        | None \<Rightarrow> (Inr (run_select (db w) s), w'))"

definition first_row :: "sqlval list list \<Rightarrow> sqlval list option" where
  "first_row rs = (case rs of [] \<Rightarrow> None | r # _ \<Rightarrow> Some r)"

text \<open>\<^verbatim>\<open>cursor.execute(select, params)\<close> followed by \<^verbatim>\<open>fetchone()\<close>.\<close>

definition sql_fetchone :: "stmt \<Rightarrow> world \<Rightarrow> (exn + sqlval list option) \<times> world" where
  "sql_fetchone s w = (case sql_select s w of (r, w') \<Rightarrow> (map_sum id first_row r, w'))"

text \<open>
  \<^verbatim>\<open>cursor.execute(update, params)\<close>: issued, then the write fault or the change.
  The \<^verbatim>\<open>con.commit()\<close> that follows it in the code makes the change durable; the
  model applies it at once, since no path of the code rolls back.
\<close>

definition sql_update :: "stmt \<Rightarrow> world \<Rightarrow> (exn + unit) \<times> world" where
  "sql_update s w =
     (let w' = w\<lparr>sql_log := sql_log w @ [s]\<rparr> in
      if \<not> stmt_binds s then (Inl sqlite_overflow_error, w')
      else
        case write_fault w of
          Some e \<Rightarrow> (Inl (SqliteError e), w')
        | None \<Rightarrow> (Inr (), w'\<lparr>db := run_update (db w) s\<rparr>))"

section \<open>Python's view of fetched rows\<close>

text \<open>
  The chains format fetched rows into their status strings: \<^verbatim>\<open>{result[0]}\<close> is
  \<^verbatim>\<open>str\<close> of a column, \<^verbatim>\<open>{result}\<close> the repr of a row tuple (one column
  gives \<^verbatim>\<open>(x,)\<close>), \<^verbatim>\<open>{results}\<close> the repr of the list of rows.
\<close>

fun py_str_sqlval :: "sqlval \<Rightarrow> string" where
  "py_str_sqlval (VInt i) = py_str_int i"
| "py_str_sqlval (VText s) = s"

fun py_repr_sqlval :: "sqlval \<Rightarrow> string" where
  "py_repr_sqlval (VInt i) = py_str_int i"
| "py_repr_sqlval (VText s) = py_repr_str s"

definition py_repr_row :: "sqlval list \<Rightarrow> string" where
  "py_repr_row r =
     (case r of
        [x] \<Rightarrow> ''('' @ py_repr_sqlval x @ '',)''
      | _ \<Rightarrow> ''('' @ join_comma (map py_repr_sqlval r) @ '')'')"

definition py_repr_rows :: "sqlval list list \<Rightarrow> string" where
  "py_repr_rows rs = ''['' @ join_comma (map py_repr_row rs) @ '']''"

text \<open>\<^verbatim>\<open>result[0]\<close> of a fetched tuple.\<close>

definition row_item0 :: "sqlval list \<Rightarrow> exn + sqlval" where
  "row_item0 r = (case r of [] \<Rightarrow> Inl (IndexError ''tuple index out of range'') | x # _ \<Rightarrow> Inr x)"

text \<open>The statements that only read.\<close>

fun is_select :: "stmt \<Rightarrow> bool" where
  "is_select (UpdateClaimStatus s i) = False"
| "is_select _ = True"

section \<open>Well-formed tables\<close>

text \<open>The key columns are primary keys: no two rows share one; and a claim id, an SQLite
  INTEGER, fits in 64 bits.\<close>

definition db_wf :: "database \<Rightarrow> bool" where
  "db_wf d \<longleftrightarrow>
     distinct (map cl_claim_id (claims d)) \<and> distinct (map po_policy_id (policies d)) \<and>
     distinct (map cli_client_id (clients d)) \<and> list_all sqlite_int64 (map cl_claim_id (claims d))"

section \<open>A sample store\<close>

text \<open>
  The store of the spec's scenarios (section 8): claim 2 of client 7 under policy 10,
  status \<^verbatim>\<open>pending\<close>; used by the witnesses of the theorems.
\<close>

definition demo_db :: database where
  "demo_db =
     \<lparr>claims = [\<lparr>cl_claim_id = 2, cl_policy_id = 10, cl_user_id = 7, cl_claim_type = ''Car'',
                  cl_status = ''pending''\<rparr>],
      policies = [\<lparr>po_policy_id = 10, po_user_id = 7, po_policy_type = ''Car'',
                    po_policy_level = ''Gold''\<rparr>],
      clients = [\<lparr>cli_client_id = 7, cli_name = ''Ana''\<rparr>],
      employees = [\<lparr>emp_email = ''eva@secureshield.pt'', emp_password = ''pw'',
                     emp_first_name = ''Eva''\<rparr>]\<rparr>"

definition demo_world :: world where
  "demo_world =
     \<lparr>db = demo_db, conns = 0, sql_log = [], read_fault = None, write_fault = None, stdout = []\<rparr>"

section \<open>Lemmas\<close>

subsection \<open>Frame rules\<close>

lemma sql_connect_fields [world_simps]:
  "db (sql_connect w) = db w" "conns (sql_connect w) = Suc (conns w)"
  "sql_log (sql_connect w) = sql_log w" "stdout (sql_connect w) = stdout w"
  "read_fault (sql_connect w) = read_fault w" "write_fault (sql_connect w) = write_fault w"
  by (simp_all add: sql_connect_def)

lemma sql_close_fields [world_simps]:
  "db (sql_close w) = db w" "conns (sql_close w) = conns w - 1"
  "sql_log (sql_close w) = sql_log w" "stdout (sql_close w) = stdout w"
  "read_fault (sql_close w) = read_fault w" "write_fault (sql_close w) = write_fault w"
  by (simp_all add: sql_close_def)

lemma py_print_fields [world_simps]:
  "db (py_print s w) = db w" "conns (py_print s w) = conns w"
  "sql_log (py_print s w) = sql_log w" "stdout (py_print s w) = stdout w @ [s]"
  "read_fault (py_print s w) = read_fault w" "write_fault (py_print s w) = write_fault w"
  by (simp_all add: py_print_def)

lemma stmt_binds_simps [simp]:
  "stmt_binds (SelectClaimIdById i) \<longleftrightarrow> sqlite_int64 i"
  "stmt_binds (UpdateClaimStatus t i) \<longleftrightarrow> sqlite_int64 i"
  "stmt_binds (SelectStatusById v)" "stmt_binds (SelectClaimsByClient v)"
  "stmt_binds (SelectClaimsByPolicy v)" "stmt_binds (SelectClaimById v)"
  "stmt_binds (SelectPolicyById v)" "stmt_binds (SelectPoliciesByClient v)"
  "stmt_binds (SelectPoliciesByType v)" "stmt_binds (SelectEmailByEmail v)"
  "stmt_binds (SelectEmployee v v')" "stmt_binds (SelectFirstNameByEmail v)"
  by (simp_all add: stmt_binds_def)

lemma sql_select_overflow:
  "\<not> stmt_binds s \<Longrightarrow> sql_select s w = (Inl sqlite_overflow_error, w\<lparr>sql_log := sql_log w @ [s]\<rparr>)"
  by (simp add: sql_select_def Let_def)

lemma sql_fetchone_overflow:
  "\<not> stmt_binds s \<Longrightarrow> sql_fetchone s w = (Inl sqlite_overflow_error, w\<lparr>sql_log := sql_log w @ [s]\<rparr>)"
  by (simp add: sql_fetchone_def sql_select_def Let_def)

lemma sql_update_overflow:
  "\<not> stmt_binds s \<Longrightarrow> sql_update s w = (Inl sqlite_overflow_error, w\<lparr>sql_log := sql_log w @ [s]\<rparr>)"
  by (simp add: sql_update_def Let_def)

lemma sql_select_eq:
  "stmt_binds s \<Longrightarrow> sql_select s w =
     (case read_fault w of
        Some e \<Rightarrow> (Inl (SqliteError e), w\<lparr>sql_log := sql_log w @ [s]\<rparr>)
      | None \<Rightarrow> (Inr (run_select (db w) s), w\<lparr>sql_log := sql_log w @ [s]\<rparr>))"
  by (simp add: sql_select_def Let_def)

lemma sql_fetchone_eq:
  "stmt_binds s \<Longrightarrow> sql_fetchone s w =
     (case read_fault w of
        Some e \<Rightarrow> (Inl (SqliteError e), w\<lparr>sql_log := sql_log w @ [s]\<rparr>)
      | None \<Rightarrow> (Inr (first_row (run_select (db w) s)), w\<lparr>sql_log := sql_log w @ [s]\<rparr>))"
  by (simp add: sql_fetchone_def sql_select_eq split: option.splits)

lemma sql_update_eq:
  "stmt_binds s \<Longrightarrow> sql_update s w =
     (case write_fault w of
        Some e \<Rightarrow> (Inl (SqliteError e), w\<lparr>sql_log := sql_log w @ [s]\<rparr>)
      | None \<Rightarrow> (Inr (), w\<lparr>sql_log := sql_log w @ [s], db := run_update (db w) s\<rparr>))"
  by (simp add: sql_update_def Let_def)

lemma sql_select_world [world_simps]:
  "snd (sql_select s w) = w\<lparr>sql_log := sql_log w @ [s]\<rparr>"
  by (simp add: sql_select_def Let_def split: option.splits)

lemma sql_fetchone_world [world_simps]:
  "snd (sql_fetchone s w) = w\<lparr>sql_log := sql_log w @ [s]\<rparr>"
  by (simp add: sql_fetchone_def sql_select_def Let_def split: option.splits prod.splits)

subsection \<open>The text-to-integer conversion inverts Python's str\<close>

lemma digits_value_append:
  "digits_value acc (xs @ [c]) = 10 * digits_value acc xs + (of_char c - 48)"
  by (induction xs arbitrary: acc) simp_all

lemma digit_char_code: "n < 10 \<Longrightarrow> (of_char (char_of (48 + n) :: char) :: nat) = 48 + n"
  by (simp add: of_char_of)

lemma digit_char_is_digit: "k < 10 \<Longrightarrow> is_digit_char (char_of (48 + k :: nat))"
  by (simp add: is_digit_char_def digit_char_code)

lemma py_str_nat_digits: "list_all is_digit_char (py_str_nat n)"
proof (induction n rule: py_str_nat.induct)
  case (1 n)
  show ?case
  proof (cases "n < 10")
    case True
    then show ?thesis by (subst py_str_nat.simps) (simp add: digit_char_is_digit)
  next
    case False
    with "1.IH" show ?thesis by (subst py_str_nat.simps) (simp add: digit_char_is_digit)
  qed
qed

lemma digits_value_py_str_nat: "digits_value 0 (py_str_nat n) = n"
proof (induction n rule: py_str_nat.induct)
  case (1 n)
  have m: "n mod 10 < 10" by simp
  show ?case
  proof (cases "n < 10")
    case True
    then show ?thesis by (subst py_str_nat.simps) (simp add: digit_char_code)
  next
    case False
    with "1.IH" have "digits_value 0 (py_str_nat (n div 10)) = n div 10" by simp
    with False show ?thesis
      by (subst py_str_nat.simps) (simp add: digits_value_append digit_char_code [OF m])
  qed
qed

lemma py_str_nat_head:
  obtains c cs where "py_str_nat n = c # cs" "is_digit_char c"
proof -
  obtain c cs where eq: "py_str_nat n = c # cs"
    using py_str_nat_not_Nil by (cases "py_str_nat n") blast+
  with py_str_nat_digits [of n] have "is_digit_char c" by simp
  with eq show ?thesis by (rule that)
qed

lemma sign_not_digit: "\<not> is_digit_char CHR ''-''" "\<not> is_digit_char CHR ''+''"
  by (simp_all add: is_digit_char_def)

lemma text_to_int_py_str_int [simp]: "text_to_int (py_str_int i) = Some i"
proof (cases "i < 0")
  case True
  then show ?thesis
    using py_str_nat_digits [of "nat (- i)"] digits_value_py_str_nat [of "nat (- i)"]
    by (simp add: py_str_int_def text_to_int_def)
next
  case False
  obtain c cs where eq: "py_str_nat (nat i) = c # cs" and d: "is_digit_char c"
    by (rule py_str_nat_head)
  from d sign_not_digit have "c \<noteq> CHR ''-'' \<and> c \<noteq> CHR ''+''" by auto
  with False eq show ?thesis
    using py_str_nat_digits [of "nat i"] digits_value_py_str_nat [of "nat i"]
    by (simp add: py_str_int_def text_to_int_def)
qed

lemma int_col_eq_py_str_int [simp]: "int_col_eq c (py_str_int i) \<longleftrightarrow> c = i"
  by (auto simp: int_col_eq_def)

subsection \<open>Fetching\<close>

lemma first_row_map_filter_None:
  "first_row (map f (filter P xs)) = None \<longleftrightarrow> (\<forall>x\<in>set xs. \<not> P x)"
  by (induction xs) (simp_all add: first_row_def)

lemma first_row_map_filter:
  "first_row (map f (filter P xs)) = map_option f (find P xs)"
  by (induction xs) (simp_all add: first_row_def)

lemma claim_id_lookup_None:
  "first_row (run_select d (SelectClaimIdById i)) = None \<longleftrightarrow> i \<notin> cl_claim_id ` set (claims d)"
  by (auto simp: first_row_map_filter_None)

lemma find_distinct_key:
  "distinct (map f xs) \<Longrightarrow> x \<in> set xs \<Longrightarrow> find (\<lambda>y. f y = f x) xs = Some x"
  by (induction xs) (auto simp: rev_image_eqI)

subsection \<open>Updates\<close>

lemma set_claim_status_ids [simp]:
  "map cl_claim_id (claims (set_claim_status i s d)) = map cl_claim_id (claims d)"
  by (simp add: set_claim_status_def comp_def)

lemma set_claim_status_frame [simp]:
  "policies (set_claim_status i s d) = policies d"
  "clients (set_claim_status i s d) = clients d"
  "employees (set_claim_status i s d) = employees d"
  by (simp_all add: set_claim_status_def)

lemma set_claim_status_absent:
  "i \<notin> cl_claim_id ` set (claims d) \<Longrightarrow> set_claim_status i s d = d"
proof -
  assume "i \<notin> cl_claim_id ` set (claims d)"
  then have "map (\<lambda>c. if cl_claim_id c = i then c\<lparr>cl_status := s\<rparr> else c) (claims d) = claims d"
    by (intro map_idI) auto
  then show ?thesis by (simp add: set_claim_status_def)
qed

lemma db_wf_set_claim_status [intro]: "db_wf d \<Longrightarrow> db_wf (set_claim_status i s d)"
  by (simp add: db_wf_def)

lemma db_wf_claim_id_int64: "db_wf d \<Longrightarrow> i \<in> cl_claim_id ` set (claims d) \<Longrightarrow> sqlite_int64 i"
  by (auto simp add: db_wf_def list_all_iff)

lemma db_wf_run_update: "db_wf d \<Longrightarrow> db_wf (run_update d s)"
  by (cases s) auto

lemma digits_value_zeros: "digits_value 0 (replicate k (CHR ''0'') @ s) = digits_value 0 s"
  by (induction k) simp_all

lemma zero_is_digit: "is_digit_char (CHR ''0'')"
  by (simp add: is_digit_char_def)

section \<open>Properties\<close>

text \<open>
  The lookups compare an integer key with the model's text: SQLite reads back
  exactly the integer that Python's \<^verbatim>\<open>str\<close> printed, and also reads a zero-padded
  decimal as the same key, so \<^verbatim>\<open>'02'\<close> selects claim 2.
\<close>

theorem text_key_roundtrip:
  "text_to_int (py_str_int i) = Some i \<and>
   text_to_int (replicate k (CHR ''0'') @ py_str_nat n) = Some (int n)"
proof -
  obtain c cs where eq: "py_str_nat n = c # cs" and d: "is_digit_char c"
    by (rule py_str_nat_head)
  obtain x xs where hd: "replicate k (CHR ''0'') @ py_str_nat n = x # xs" and dx: "is_digit_char x"
    using eq d zero_is_digit by (cases k) auto
  from dx sign_not_digit have "x \<noteq> CHR ''-'' \<and> x \<noteq> CHR ''+''" by auto
  moreover have "list_all is_digit_char (replicate k (CHR ''0'') @ py_str_nat n)"
    using py_str_nat_digits [of n] zero_is_digit by (auto simp add: list_all_iff)
  ultimately have "text_to_int (replicate k (CHR ''0'') @ py_str_nat n) = Some (int n)"
    using hd digits_value_zeros [of k "py_str_nat n"] digits_value_py_str_nat [of n]
    by (simp add: text_to_int_def)
  then show ?thesis by simp
qed

end
