(* ===== verification/UpdateClaim.thy ===== *)
theory UpdateClaim
  imports Store
begin

text \<open>
  \<^verbatim>\<open>src/SecureShield/Chatbot/Chains/Update_Claim_Status.py\<close>: the claim-status update
  capability.  \<^verbatim>\<open>ExtractClaimToUpdate.invoke\<close> reads the input dictionary and asks the
  model for a \<^verbatim>\<open>ClaimUpdate\<close>; \<^verbatim>\<open>UpdateClaimStatusChain.invoke\<close> opens a connection,
  checks that the claim exists, writes the new status only if it does, records the
  outcome in the instance attribute \<^verbatim>\<open>self.status\<close> and asks the model to phrase it.
  The chain's state is that attribute (\<open>string option\<close>, \<open>None\<close> before the first
  call); its effects are on the world record of the Store theory.
\<close>

section \<open>Data and operations\<close>

record claim_update =
  cu_claim_id :: int
  cu_status :: string

type_synonym update_extract_llm = "pyval \<Rightarrow> pyval \<Rightarrow> exn + claim_update"

text \<open>\<^verbatim>\<open>ExtractClaimToUpdate.invoke\<close>: the dict literal reads its keys in order.\<close>

definition extract_claim_to_update :: "update_extract_llm \<Rightarrow> pydict \<Rightarrow> exn + claim_update" where
  "extract_claim_to_update llm inputs =
     bind_res (dict_get inputs ''user_input'') (\<lambda>u.
     bind_res (dict_get inputs ''chat_history'') (\<lambda>h. llm u h))"

text \<open>The response step (lines 135 to 142) for a given \<^verbatim>\<open>self.status\<close>.\<close>

definition update_respond :: "status_llm \<Rightarrow> pydict \<Rightarrow> string \<Rightarrow> exn + string" where
  "update_respond llm user_input status =
     bind_res (dict_get user_input ''user_input'') (\<lambda>u.
     bind_res (dict_get user_input ''chat_history'') (\<lambda>h. llm u h status))"

text \<open>
  \<^verbatim>\<open>UpdateClaimStatusChain.invoke\<close>.  The result is the response or the exception that
  escapes, the new \<^verbatim>\<open>self.status\<close>, and the world.  The branches follow the code:
  an extraction error escapes before any connection is opened; an error of the existence
  query escapes with the connection still open; a missing claim sets \<^verbatim>\<open>not_found\<close>
  and leaves the connection open (the \<^verbatim>\<open>finally\<close> belongs to the \<^verbatim>\<open>else\<close> branch
  only); otherwise the \<^verbatim>\<open>UPDATE\<close> runs inside \<^verbatim>\<open>try\<close>: success or a caught
  \<^verbatim>\<open>OperationalError\<close> (printed) sets the status, any other error escapes, and the
  \<^verbatim>\<open>finally\<close> closes the connection on all three.
\<close>

definition update_claim_status_invoke ::
  "update_extract_llm \<Rightarrow> status_llm \<Rightarrow> pydict \<Rightarrow> string option \<Rightarrow> world \<Rightarrow>
   (exn + string) \<times> string option \<times> world" where
  "update_claim_status_invoke ex rs user_input st w =
     (case extract_claim_to_update ex user_input of
        Inl e \<Rightarrow> (Inl e, st, w)
      | Inr ci \<Rightarrow>
          (case sql_fetchone (SelectClaimIdById (cu_claim_id ci)) (sql_connect w) of
             (Inl e, w1) \<Rightarrow> (Inl e, st, w1)
           | (Inr None, w1) \<Rightarrow>
               (update_respond rs user_input ''not_found'', Some ''not_found'', w1)
           | (Inr (Some _), w1) \<Rightarrow>
               (case sql_update (UpdateClaimStatus (cu_status ci) (cu_claim_id ci)) w1 of
                  (Inr _, w2) \<Rightarrow>
                    (update_respond rs user_input ''success'', Some ''success'', sql_close w2)
                | (Inl (SqliteError (OperationalError m)), w2) \<Rightarrow>
                    (update_respond rs user_input ''error'', Some ''error'',
                     sql_close (py_print (''Error: '' @ m) w2))
                | (Inl e, w2) \<Rightarrow> (Inl e, st, sql_close w2))))"

section \<open>Abstract specification\<close>

text \<open>
  What the capability promises (spec 4.4): one conditional write, \<open>success\<close> when the
  claim exists and its status is replaced, \<open>not_found\<close> and no change otherwise.
\<close>

datatype outcome = Success | NotFound | Failed

fun outcome_status :: "outcome \<Rightarrow> string" where
  "outcome_status Success = ''success''"
| "outcome_status NotFound = ''not_found''"
| "outcome_status Failed = ''error''"

definition update_spec :: "int \<Rightarrow> string \<Rightarrow> database \<Rightarrow> outcome \<times> database" where
  "update_spec i s d =
     (if i \<in> cl_claim_id ` set (claims d) then (Success, set_claim_status i s d)
      else (NotFound, d))"

section \<open>Lemmas\<close>

text \<open>One equation per branch, the case splits of the definition done once.\<close>

lemma update_invoke_extract_error:
  "extract_claim_to_update ex user_input = Inl e \<Longrightarrow>
   update_claim_status_invoke ex rs user_input st w = (Inl e, st, w)"
  by (simp add: update_claim_status_invoke_def)

lemma update_invoke_read_error:
  assumes "extract_claim_to_update ex user_input = Inr ci" and "sqlite_int64 (cu_claim_id ci)"
    and "read_fault w = Some e"
  shows "update_claim_status_invoke ex rs user_input st w =
    (Inl (SqliteError e), st,
     (sql_connect w)\<lparr>sql_log := sql_log w @ [SelectClaimIdById (cu_claim_id ci)]\<rparr>)"
  using assms by (simp add: update_claim_status_invoke_def sql_fetchone_eq world_simps)

lemma update_invoke_absent:
  assumes "extract_claim_to_update ex user_input = Inr ci" and "sqlite_int64 (cu_claim_id ci)"
    and "read_fault w = None" and "cu_claim_id ci \<notin> cl_claim_id ` set (claims (db w))"
  shows "update_claim_status_invoke ex rs user_input st w =
    (update_respond rs user_input ''not_found'', Some ''not_found'',
     (sql_connect w)\<lparr>sql_log := sql_log w @ [SelectClaimIdById (cu_claim_id ci)]\<rparr>)"
proof -
  have "first_row (run_select (db w) (SelectClaimIdById (cu_claim_id ci))) = None"
    using assms(4) claim_id_lookup_None by blast
  with assms(1,2,3) show ?thesis
    by (simp add: update_claim_status_invoke_def sql_fetchone_eq world_simps)
qed

lemma update_invoke_present:
  assumes "extract_claim_to_update ex user_input = Inr ci" and "sqlite_int64 (cu_claim_id ci)"
    and "read_fault w = None" and "cu_claim_id ci \<in> cl_claim_id ` set (claims (db w))"
  shows "update_claim_status_invoke ex rs user_input st w =
    (let w2 = (sql_connect w)\<lparr>sql_log := sql_log w @
                 [SelectClaimIdById (cu_claim_id ci), UpdateClaimStatus (cu_status ci) (cu_claim_id ci)]\<rparr>
     in case write_fault w of
          None \<Rightarrow> (update_respond rs user_input ''success'', Some ''success'',
                   sql_close (w2\<lparr>db := set_claim_status (cu_claim_id ci) (cu_status ci) (db w)\<rparr>))
        | Some (OperationalError m) \<Rightarrow>
            (update_respond rs user_input ''error'', Some ''error'', sql_close (py_print (''Error: '' @ m) w2))
        | Some e \<Rightarrow> (Inl (SqliteError e), st, sql_close w2))"
proof -
  obtain r where r: "first_row (run_select (db w) (SelectClaimIdById (cu_claim_id ci))) = Some r"
    using assms(4) claim_id_lookup_None by (cases "first_row (run_select (db w) (SelectClaimIdById (cu_claim_id ci)))") auto
  show ?thesis
    using assms(1,2,3) r
    by (simp add: update_claim_status_invoke_def sql_fetchone_eq sql_update_eq world_simps Let_def
                  split: option.splits db_error.splits)
qed

text \<open>
  An extracted id outside SQLite's 64-bit range: binding it at line 114 raises
  \<^verbatim>\<open>OverflowError\<close>, outside any \<^verbatim>\<open>try\<close>, with the connection open.
\<close>

lemma update_invoke_overflow:
  assumes "extract_claim_to_update ex user_input = Inr ci" and "\<not> sqlite_int64 (cu_claim_id ci)"
  shows "update_claim_status_invoke ex rs user_input st w =
    (Inl sqlite_overflow_error, st,
     (sql_connect w)\<lparr>sql_log := sql_log w @ [SelectClaimIdById (cu_claim_id ci)]\<rparr>)"
  using assms by (simp add: update_claim_status_invoke_def sql_fetchone_overflow world_simps)

lemma update_invoke_world_extract_error:
  "extract_claim_to_update ex user_input = Inl e \<Longrightarrow>
   snd (snd (update_claim_status_invoke ex rs user_input st w)) = w"
  by (simp add: update_invoke_extract_error)

lemmas update_invoke_branches =
  update_invoke_extract_error update_invoke_overflow update_invoke_read_error update_invoke_absent
  update_invoke_present

text \<open>The whole effect of one call on the world, every branch at once.\<close>

lemma update_invoke_world:
  "snd (snd (update_claim_status_invoke ex rs user_input st w)) =
     (case extract_claim_to_update ex user_input of
        Inl _ \<Rightarrow> w
      | Inr ci \<Rightarrow>
          (if read_fault w = None \<and> sqlite_int64 (cu_claim_id ci) \<and>
              cu_claim_id ci \<in> cl_claim_id ` set (claims (db w))
           then w\<lparr>sql_log := sql_log w @ [SelectClaimIdById (cu_claim_id ci),
                                          UpdateClaimStatus (cu_status ci) (cu_claim_id ci)],
                  db := (if write_fault w = None
                         then set_claim_status (cu_claim_id ci) (cu_status ci) (db w) else db w),
                  stdout := stdout w @ (case write_fault w of
                                          Some (OperationalError m) \<Rightarrow> [''Error: '' @ m]
                                        | _ \<Rightarrow> [])\<rparr>
           else w\<lparr>conns := Suc (conns w), sql_log := sql_log w @ [SelectClaimIdById (cu_claim_id ci)]\<rparr>))"
proof (cases "extract_claim_to_update ex user_input")
  case (Inl e)
  then show ?thesis by (simp add: update_invoke_extract_error)
next
  case (Inr ci)
  show ?thesis
  proof (cases "sqlite_int64 (cu_claim_id ci)")
    case False
    with Inr show ?thesis by (simp add: update_invoke_overflow sql_connect_def)
  next
    case rng: True
  show ?thesis
  proof (cases "read_fault w")
    case None
    show ?thesis
    proof (cases "cu_claim_id ci \<in> cl_claim_id ` set (claims (db w))")
      case True
      with Inr rng None show ?thesis
        by (simp add: update_invoke_present Let_def sql_close_def sql_connect_def py_print_def
                 split: option.splits db_error.splits)
    next
      case False
      with Inr rng None show ?thesis by (simp add: update_invoke_absent sql_connect_def)
    qed
  next
    case (Some e)
    with Inr rng show ?thesis by (simp add: update_invoke_read_error sql_connect_def)
  qed
  qed
qed

section \<open>Properties\<close>

text \<open>
  C2.  The update writes if and only if the existence check found the claim: once a
  \<^verbatim>\<open>ClaimUpdate\<close> is extracted, the statements issued are the existence query and,
  exactly when that query succeeded and returned the claim, one \<^verbatim>\<open>UPDATE\<close> of that
  claim; the claims table changes only by that update, and only when it succeeds.
\<close>

theorem update_write_iff_exists:
  assumes "extract_claim_to_update ex user_input = Inr ci"
  shows "sql_log (snd (snd (update_claim_status_invoke ex rs user_input st w))) =
           sql_log w @ SelectClaimIdById (cu_claim_id ci) #
             (if read_fault w = None \<and> sqlite_int64 (cu_claim_id ci) \<and>
                 cu_claim_id ci \<in> cl_claim_id ` set (claims (db w))
              then [UpdateClaimStatus (cu_status ci) (cu_claim_id ci)] else []) \<and>
         db (snd (snd (update_claim_status_invoke ex rs user_input st w))) =
           (if read_fault w = None \<and> write_fault w = None \<and> sqlite_int64 (cu_claim_id ci) \<and>
               cu_claim_id ci \<in> cl_claim_id ` set (claims (db w))
            then set_claim_status (cu_claim_id ci) (cu_status ci) (db w) else db w)"
  using assms by (simp add: update_invoke_world)

theorem update_write_iff_exists_witness:
  "extract_claim_to_update (\<lambda>u h. Inr \<lparr>cu_claim_id = 2, cu_status = ''approved''\<rparr>)
      [''user_input'' \<mapsto> PStr ''update claim 2 to approved'', ''chat_history'' \<mapsto> PMessages []] =
     Inr \<lparr>cu_claim_id = 2, cu_status = ''approved''\<rparr> \<and>
   sql_log (snd (snd (update_claim_status_invoke
      (\<lambda>u h. Inr \<lparr>cu_claim_id = 2, cu_status = ''approved''\<rparr>) (\<lambda>u h s. Inr s)
      [''user_input'' \<mapsto> PStr ''update claim 2 to approved'', ''chat_history'' \<mapsto> PMessages []]
      None demo_world))) = [SelectClaimIdById 2, UpdateClaimStatus ''approved'' 2]"
proof -
  have ex: "extract_claim_to_update (\<lambda>u h. Inr \<lparr>cu_claim_id = 2, cu_status = ''approved''\<rparr>)
      [''user_input'' \<mapsto> PStr ''update claim 2 to approved'', ''chat_history'' \<mapsto> PMessages []] =
     Inr \<lparr>cu_claim_id = 2, cu_status = ''approved''\<rparr>"
    by (simp add: extract_claim_to_update_def)
  show ?thesis
    using update_write_iff_exists [OF ex, of "\<lambda>u h s. Inr s" None demo_world] ex
    by (simp add: demo_world_def demo_db_def sqlite_int64_def)
qed

text \<open>
  C3.  Refinement of the capability's contract: with no store fault, the status the
  chain records and the claims table it leaves are those of \<open>update_spec\<close>, and the
  chain answers with the model's phrasing of that status.
\<close>

theorem update_refines_spec:
  assumes "extract_claim_to_update ex user_input = Inr ci" and "sqlite_int64 (cu_claim_id ci)"
    and "read_fault w = None" and "write_fault w = None"
    and "update_claim_status_invoke ex rs user_input st w = (r, st', w')"
  shows "st' = Some (outcome_status (fst (update_spec (cu_claim_id ci) (cu_status ci) (db w)))) \<and>
         db w' = snd (update_spec (cu_claim_id ci) (cu_status ci) (db w)) \<and>
         r = update_respond rs user_input
               (outcome_status (fst (update_spec (cu_claim_id ci) (cu_status ci) (db w))))"
proof (cases "cu_claim_id ci \<in> cl_claim_id ` set (claims (db w))")
  case True
  with assms show ?thesis by (auto simp add: update_invoke_present update_spec_def world_simps)
next
  case False
  with assms show ?thesis by (auto simp add: update_invoke_absent update_spec_def world_simps)
qed

theorem update_refines_spec_witness:
  "update_claim_status_invoke
      (\<lambda>u h. Inr \<lparr>cu_claim_id = 999, cu_status = ''approved''\<rparr>) (\<lambda>u h s. Inr s)
      [''user_input'' \<mapsto> PStr ''update claim 999 to approved'', ''chat_history'' \<mapsto> PMessages []]
      None demo_world = (Inr ''not_found'', Some ''not_found'',
        demo_world\<lparr>conns := 1, sql_log := [SelectClaimIdById 999]\<rparr>) \<and>
   fst (update_spec 999 ''approved'' demo_db) = NotFound"
proof -
  let ?ex = "\<lambda>u h. Inr \<lparr>cu_claim_id = 999, cu_status = ''approved''\<rparr>"
  let ?d = "[''user_input'' \<mapsto> PStr ''update claim 999 to approved'', ''chat_history'' \<mapsto> PMessages []]"
  have ex: "extract_claim_to_update ?ex ?d = Inr \<lparr>cu_claim_id = 999, cu_status = ''approved''\<rparr>"
    by (simp add: extract_claim_to_update_def)
  have run: "update_claim_status_invoke ?ex (\<lambda>u h s. Inr s) ?d None demo_world =
      (Inr ''not_found'', Some ''not_found'', demo_world\<lparr>conns := 1, sql_log := [SelectClaimIdById 999]\<rparr>)"
    using ex
    by (simp add: update_invoke_absent update_respond_def demo_world_def demo_db_def sql_connect_def
                  sqlite_int64_def)
  have "fst (update_spec 999 ''approved'' demo_db) = NotFound \<and>
        Inr ''not_found'' = update_respond (\<lambda>u h s. Inr s) ?d
           (outcome_status (fst (update_spec 999 ''approved'' demo_db)))"
    using update_refines_spec [OF ex _ _ _ run] by (simp add: demo_world_def demo_db_def update_spec_def sqlite_int64_def)
  with run show ?thesis by simp
qed

text \<open>
  C13.  Connection accounting: the chain closes the connection it opened on the update
  paths (success, caught error, escaping error) but not when the existence query raises
  or finds no claim, where the connection is left to the garbage collector.
\<close>

theorem update_connection_release:
  assumes "extract_claim_to_update ex user_input = Inr ci"
  shows "conns (snd (snd (update_claim_status_invoke ex rs user_input st w))) =
           (if read_fault w = None \<and> sqlite_int64 (cu_claim_id ci) \<and>
               cu_claim_id ci \<in> cl_claim_id ` set (claims (db w))
            then conns w else Suc (conns w))"
  using assms by (simp add: update_invoke_world)

theorem update_connection_release_witness:
  "conns (snd (snd (update_claim_status_invoke
      (\<lambda>u h. Inr \<lparr>cu_claim_id = 999, cu_status = ''approved''\<rparr>) (\<lambda>u h s. Inr s)
      [''user_input'' \<mapsto> PStr ''update claim 999 to approved'', ''chat_history'' \<mapsto> PMessages []]
      None demo_world))) = 1"
proof -
  have ex: "extract_claim_to_update (\<lambda>u h. Inr \<lparr>cu_claim_id = 999, cu_status = ''approved''\<rparr>)
      [''user_input'' \<mapsto> PStr ''update claim 999 to approved'', ''chat_history'' \<mapsto> PMessages []] =
      Inr \<lparr>cu_claim_id = 999, cu_status = ''approved''\<rparr>"
    by (simp add: extract_claim_to_update_def)
  show ?thesis
    using update_connection_release [OF ex, of "\<lambda>u h s. Inr s" None demo_world]
    by (simp add: demo_world_def demo_db_def sqlite_int64_def)
qed

text \<open>
  C11.  A write that fails with \<^verbatim>\<open>sqlite3.OperationalError\<close> is caught: the chain
  prints the error, records \<^verbatim>\<open>error\<close>, closes the connection, leaves the table as it
  was, and answers with the model's phrasing of \<^verbatim>\<open>error\<close> (the raw text goes to
  stdout only).
\<close>

theorem update_operational_error_caught:
  assumes "extract_claim_to_update ex user_input = Inr ci" and "sqlite_int64 (cu_claim_id ci)"
    and "read_fault w = None" and "cu_claim_id ci \<in> cl_claim_id ` set (claims (db w))"
    and "write_fault w = Some (OperationalError m)"
  shows "update_claim_status_invoke ex rs user_input st w =
    (update_respond rs user_input ''error'', Some ''error'',
     w\<lparr>sql_log := sql_log w @ [SelectClaimIdById (cu_claim_id ci),
                                UpdateClaimStatus (cu_status ci) (cu_claim_id ci)],
       stdout := stdout w @ [''Error: '' @ m]\<rparr>)"
  using assms by (simp add: update_invoke_present sql_close_def py_print_def sql_connect_def)

theorem update_operational_error_caught_witness:
  "update_claim_status_invoke
      (\<lambda>u h. Inr \<lparr>cu_claim_id = 2, cu_status = ''approved''\<rparr>) (\<lambda>u h s. Inr s)
      [''user_input'' \<mapsto> PStr ''update claim 2 to approved'', ''chat_history'' \<mapsto> PMessages []]
      None (demo_world\<lparr>write_fault := Some (OperationalError ''database is locked'')\<rparr>) =
    (Inr ''error'', Some ''error'',
     demo_world\<lparr>write_fault := Some (OperationalError ''database is locked''),
       sql_log := [SelectClaimIdById 2, UpdateClaimStatus ''approved'' 2],
       stdout := [''Error: database is locked'']\<rparr>)"
proof -
  let ?ex = "\<lambda>u h. Inr \<lparr>cu_claim_id = 2, cu_status = ''approved''\<rparr>"
  let ?d = "[''user_input'' \<mapsto> PStr ''update claim 2 to approved'', ''chat_history'' \<mapsto> PMessages []]"
  let ?w = "demo_world\<lparr>write_fault := Some (OperationalError ''database is locked'')\<rparr>"
  have ex: "extract_claim_to_update ?ex ?d = Inr \<lparr>cu_claim_id = 2, cu_status = ''approved''\<rparr>"
    by (simp add: extract_claim_to_update_def)
  show ?thesis
    using update_operational_error_caught [OF ex, of ?w "''database is locked''" "\<lambda>u h s. Inr s" None]
    by (simp add: demo_world_def demo_db_def update_respond_def sqlite_int64_def)
qed

text \<open>
  C12.  Any other error of the write escapes \<^verbatim>\<open>invoke\<close>: the \<^verbatim>\<open>finally\<close> still
  closes the connection, the table is unchanged, and \<^verbatim>\<open>self.status\<close> keeps its
  previous value.
\<close>

theorem update_other_error_escapes:
  assumes "extract_claim_to_update ex user_input = Inr ci" and "sqlite_int64 (cu_claim_id ci)"
    and "read_fault w = None" and "cu_claim_id ci \<in> cl_claim_id ` set (claims (db w))"
    and "write_fault w = Some (IntegrityError m)"
  shows "update_claim_status_invoke ex rs user_input st w =
    (Inl (SqliteError (IntegrityError m)), st,
     w\<lparr>sql_log := sql_log w @ [SelectClaimIdById (cu_claim_id ci),
                                UpdateClaimStatus (cu_status ci) (cu_claim_id ci)]\<rparr>)"
  using assms by (simp add: update_invoke_present sql_close_def sql_connect_def)

theorem update_other_error_escapes_witness:
  "update_claim_status_invoke
      (\<lambda>u h. Inr \<lparr>cu_claim_id = 2, cu_status = ''approved''\<rparr>) (\<lambda>u h s. Inr s)
      [''user_input'' \<mapsto> PStr ''update claim 2 to approved'', ''chat_history'' \<mapsto> PMessages []]
      (Some ''success'') (demo_world\<lparr>write_fault := Some (IntegrityError ''constraint failed'')\<rparr>) =
    (Inl (SqliteError (IntegrityError ''constraint failed'')), Some ''success'',
     demo_world\<lparr>write_fault := Some (IntegrityError ''constraint failed''),
       sql_log := [SelectClaimIdById 2, UpdateClaimStatus ''approved'' 2]\<rparr>)"
proof -
  let ?ex = "\<lambda>u h. Inr \<lparr>cu_claim_id = 2, cu_status = ''approved''\<rparr>"
  let ?d = "[''user_input'' \<mapsto> PStr ''update claim 2 to approved'', ''chat_history'' \<mapsto> PMessages []]"
  have ex: "extract_claim_to_update ?ex ?d = Inr \<lparr>cu_claim_id = 2, cu_status = ''approved''\<rparr>"
    by (simp add: extract_claim_to_update_def)
  show ?thesis
    using update_other_error_escapes [OF ex, of "demo_world\<lparr>write_fault := Some (IntegrityError ''constraint failed'')\<rparr>"
        "''constraint failed''" "\<lambda>u h s. Inr s" "Some ''success''"]
    by (simp add: demo_world_def demo_db_def sqlite_int64_def)
qed

text \<open>
  C18.  An extracted claim id outside SQLite's signed 64-bit range (the extraction's
  \<^verbatim>\<open>claim_id: int\<close> is unbounded): binding it to the existence query at line 114
  raises \<^verbatim>\<open>OverflowError\<close>, which no \<^verbatim>\<open>try\<close> covers.  The call raises instead
  of answering \<^verbatim>\<open>not_found\<close>, keeps the previous status, writes nothing, and leaves
  its connection open.
\<close>

theorem update_overflow_escapes:
  assumes "extract_claim_to_update ex user_input = Inr ci" and "\<not> sqlite_int64 (cu_claim_id ci)"
  shows "update_claim_status_invoke ex rs user_input st w =
    (Inl (OverflowError ''Python int too large to convert to SQLite INTEGER''), st,
     w\<lparr>conns := Suc (conns w), sql_log := sql_log w @ [SelectClaimIdById (cu_claim_id ci)]\<rparr>)"
  using update_invoke_overflow [OF assms] by (simp add: sqlite_overflow_error_def sql_connect_def)

theorem update_overflow_escapes_witness:
  "\<not> sqlite_int64 9223372036854775808 \<and>
   update_claim_status_invoke
      (\<lambda>u h. Inr \<lparr>cu_claim_id = 9223372036854775808, cu_status = ''approved''\<rparr>) (\<lambda>u h s. Inr s)
      [''user_input'' \<mapsto> PStr ''update claim 9223372036854775808 to approved'', ''chat_history'' \<mapsto> PMessages []]
      None demo_world =
    (Inl (OverflowError ''Python int too large to convert to SQLite INTEGER''), None,
     demo_world\<lparr>conns := 1, sql_log := [SelectClaimIdById 9223372036854775808]\<rparr>)"
proof -
  let ?ex = "\<lambda>u h. Inr \<lparr>cu_claim_id = 9223372036854775808, cu_status = ''approved''\<rparr>"
  let ?d = "[''user_input'' \<mapsto> PStr ''update claim 9223372036854775808 to approved'',
             ''chat_history'' \<mapsto> PMessages []]"
  have ex: "extract_claim_to_update ?ex ?d = Inr \<lparr>cu_claim_id = 9223372036854775808, cu_status = ''approved''\<rparr>"
    by (simp add: extract_claim_to_update_def)
  have big: "\<not> sqlite_int64 (cu_claim_id \<lparr>cu_claim_id = 9223372036854775808, cu_status = ''approved''\<rparr>)"
    by (simp add: sqlite_int64_def)
  show ?thesis
    using update_overflow_escapes [OF ex big, of "\<lambda>u h s. Inr s" None demo_world] big
    by (simp add: demo_world_def)
qed

text \<open>
  No stale state: the response and the world a call produces do not depend on the
  \<^verbatim>\<open>self.status\<close> left by an earlier call, since every path that reads the attribute
  writes it first.
\<close>

theorem update_independent_of_prior_status:
  "fst (update_claim_status_invoke ex rs user_input st1 w) =
     fst (update_claim_status_invoke ex rs user_input st2 w) \<and>
   snd (snd (update_claim_status_invoke ex rs user_input st1 w)) =
     snd (snd (update_claim_status_invoke ex rs user_input st2 w))"
proof (cases "extract_claim_to_update ex user_input")
  case (Inl e)
  then show ?thesis by (simp add: update_invoke_extract_error)
next
  case (Inr ci)
  show ?thesis
  proof (cases "sqlite_int64 (cu_claim_id ci)")
    case False
    with Inr show ?thesis by (simp add: update_invoke_overflow)
  next
    case rng: True
    show ?thesis
    proof (cases "read_fault w = None \<and> cu_claim_id ci \<in> cl_claim_id ` set (claims (db w))")
      case True
      with Inr rng show ?thesis
        by (simp add: update_invoke_present Let_def split: option.splits db_error.splits)
    next
      case False
      with Inr rng show ?thesis
        by (cases "read_fault w") (auto simp add: update_invoke_absent update_invoke_read_error)
    qed
  qed
qed

text \<open>
  The chain keeps the store well formed: the update changes only the status column,
  so the key columns stay distinct.
\<close>

theorem update_preserves_db_wf:
  "db_wf (db w) \<Longrightarrow> db_wf (db (snd (snd (update_claim_status_invoke ex rs user_input st w))))"
  by (auto simp add: update_invoke_world split: sum.splits)

theorem update_preserves_db_wf_witness:
  "db_wf (db demo_world) \<and>
   db_wf (db (snd (snd (update_claim_status_invoke
      (\<lambda>u h. Inr \<lparr>cu_claim_id = 2, cu_status = ''approved''\<rparr>) (\<lambda>u h s. Inr s)
      [''user_input'' \<mapsto> PStr ''update claim 2 to approved'', ''chat_history'' \<mapsto> PMessages []]
      None demo_world))))"
proof -
  have wf: "db_wf (db demo_world)" by (simp add: demo_world_def demo_db_def db_wf_def sqlite_int64_def)
  show ?thesis using wf update_preserves_db_wf [OF wf] by simp
qed

end
