(* ===== verification/ClaimInfo.thy ===== *)
theory ClaimInfo
  imports Store
begin

text \<open>
  \<^verbatim>\<open>src/SecureShield/Chatbot/Chains/Get_Claim_Info.py\<close>: the claim lookup capability.
  \<^verbatim>\<open>ExtractClaimQuery.invoke\<close> asks the model for a \<^verbatim>\<open>ClaimQueryType\<close>;
  \<^verbatim>\<open>GetClaimInfoChain.invoke\<close> opens a connection (and never closes it), dispatches on
  \<^verbatim>\<open>query_type\<close> with a closed \<^verbatim>\<open>if\<close>/\<^verbatim>\<open>elif\<close> chain over four read-only
  queries, turns any exception of the extraction or of the query into the status
  \<^verbatim>\<open>"Error: " + str(e)\<close>, stores the status in \<^verbatim>\<open>self.status\<close> and asks the model
  to phrase it.
\<close>

section \<open>Data and operations\<close>

record claim_query =
  cq_query_type :: string
  cq_value :: string
  cq_num_results :: int

type_synonym claim_extract_llm = "pyval \<Rightarrow> pyval \<Rightarrow> exn + claim_query"

definition extract_claim_query :: "claim_extract_llm \<Rightarrow> pydict \<Rightarrow> exn + claim_query" where
  "extract_claim_query llm inputs =
     bind_res (dict_get inputs ''user_input'') (\<lambda>u.
     bind_res (dict_get inputs ''chat_history'') (\<lambda>h. llm u h))"

text \<open>The \<^verbatim>\<open>if\<close>/\<^verbatim>\<open>elif\<close> chain on \<^verbatim>\<open>query_type\<close> (lines 118 to 155).\<close>

definition claim_query_status :: "claim_query \<Rightarrow> world \<Rightarrow> (exn + string) \<times> world" where
  "claim_query_status q w =
     (let v = cq_value q in
      if cq_query_type q = ''claim_status'' then
        (case sql_fetchone (SelectStatusById v) w of
           (Inl e, w') \<Rightarrow> (Inl e, w')
         | (Inr None, w') \<Rightarrow> (Inr (''Claim '' @ v @ '' not found in the database.''), w')
         | (Inr (Some r), w') \<Rightarrow>
             (bind_res (row_item0 r) (\<lambda>x. Inr (''The status of claim '' @ v @ '' is: '' @ py_str_sqlval x)), w'))
      else if cq_query_type q = ''claims_by_client'' then
        (case sql_select (SelectClaimsByClient v) w of
           (Inl e, w') \<Rightarrow> (Inl e, w')
         | (Inr [], w') \<Rightarrow> (Inr (''No claims found for client '' @ single_quoted v @ ''.''), w')
         | (Inr rs, w') \<Rightarrow> (Inr (''Claims for client '' @ single_quoted v @ '': '' @ py_repr_rows rs), w'))
      else if cq_query_type q = ''claims_by_policy'' then
        (case sql_select (SelectClaimsByPolicy v) w of
           (Inl e, w') \<Rightarrow> (Inl e, w')
         | (Inr [], w') \<Rightarrow> (Inr (''No claims found for policy '' @ v @ ''.''), w')
         | (Inr rs, w') \<Rightarrow> (Inr (''Claims for policy '' @ v @ '': '' @ py_repr_rows rs), w'))
      else if cq_query_type q = ''claim_details'' then
        (case sql_fetchone (SelectClaimById v) w of
           (Inl e, w') \<Rightarrow> (Inl e, w')
         | (Inr None, w') \<Rightarrow> (Inr (''No details found for claim '' @ v @ ''.''), w')
         | (Inr (Some r), w') \<Rightarrow> (Inr (''Claim details for claim_id '' @ v @ '': '' @ py_repr_row r), w'))
      else (Inr ''Invalid query type.'', w))"

text \<open>The \<^verbatim>\<open>try\<close>/\<^verbatim>\<open>except Exception\<close> block (lines 112 to 158).\<close>

definition claim_info_status :: "claim_extract_llm \<Rightarrow> pydict \<Rightarrow> world \<Rightarrow> string \<times> world" where
  "claim_info_status ex user_input w =
     (case extract_claim_query ex user_input of
        Inl e \<Rightarrow> (''Error: '' @ exn_str e, w)
      | Inr q \<Rightarrow>
          (case claim_query_status q w of
             (Inl e, w') \<Rightarrow> (''Error: '' @ exn_str e, w')
           | (Inr s, w') \<Rightarrow> (s, w')))"

definition claim_info_respond :: "status_llm \<Rightarrow> pydict \<Rightarrow> string \<Rightarrow> exn + string" where
  "claim_info_respond llm user_input status =
     bind_res (dict_get user_input ''user_input'') (\<lambda>u.
     bind_res (dict_get user_input ''chat_history'') (\<lambda>h. llm u h status))"

text \<open>\<^verbatim>\<open>GetClaimInfoChain.invoke\<close>: connect, the \<^verbatim>\<open>try\<close> block, the response.\<close>

definition get_claim_info_invoke ::
  "claim_extract_llm \<Rightarrow> status_llm \<Rightarrow> pydict \<Rightarrow> string option \<Rightarrow> world \<Rightarrow>
   (exn + string) \<times> string option \<times> world" where
  "get_claim_info_invoke ex rs user_input st w =
     (case claim_info_status ex user_input (sql_connect w) of
        (status, w') \<Rightarrow> (claim_info_respond rs user_input status, Some status, w'))"

section \<open>Lemmas\<close>

text \<open>The statements the dispatch issues, by query type.\<close>

definition claim_query_stmts :: "claim_query \<Rightarrow> stmt list" where
  "claim_query_stmts q =
     (let v = cq_value q in
      if cq_query_type q = ''claim_status'' then [SelectStatusById v]
      else if cq_query_type q = ''claims_by_client'' then [SelectClaimsByClient v]
      else if cq_query_type q = ''claims_by_policy'' then [SelectClaimsByPolicy v]
      else if cq_query_type q = ''claim_details'' then [SelectClaimById v]
      else [])"

lemma claim_query_status_world:
  "snd (claim_query_status q w) = w\<lparr>sql_log := sql_log w @ claim_query_stmts q\<rparr>"
  by (simp add: claim_query_status_def claim_query_stmts_def Let_def sql_fetchone_eq sql_select_eq
           split: option.splits list.splits sum.splits prod.splits)

lemma claim_info_status_world:
  "snd (claim_info_status ex user_input w) =
     (case extract_claim_query ex user_input of
        Inl _ \<Rightarrow> w
      | Inr q \<Rightarrow> w\<lparr>sql_log := sql_log w @ claim_query_stmts q\<rparr>)"
proof (cases "extract_claim_query ex user_input")
  case (Inl e)
  then show ?thesis by (simp add: claim_info_status_def)
next
  case (Inr q)
  obtain r w' where eq: "claim_query_status q w = (r, w')"
    by (cases "claim_query_status q w")
  with claim_query_status_world [of q w] have "w' = w\<lparr>sql_log := sql_log w @ claim_query_stmts q\<rparr>"
    by simp
  with Inr eq show ?thesis by (cases r) (simp_all add: claim_info_status_def)
qed

lemma get_claim_info_invoke_eq:
  "get_claim_info_invoke ex rs user_input st w =
     (claim_info_respond rs user_input (fst (claim_info_status ex user_input (sql_connect w))),
      Some (fst (claim_info_status ex user_input (sql_connect w))),
      snd (claim_info_status ex user_input (sql_connect w)))"
  by (simp add: get_claim_info_invoke_def split: prod.splits)

lemma claim_query_status_fst:
  "db w = db w' \<Longrightarrow> read_fault w = read_fault w' \<Longrightarrow>
   fst (claim_query_status q w) = fst (claim_query_status q w')"
  by (simp add: claim_query_status_def Let_def sql_fetchone_eq sql_select_eq
           split: option.splits list.splits sum.splits prod.splits)

lemma fst_claim_info_status:
  "fst (claim_info_status ex user_input w) =
     (case extract_claim_query ex user_input of
        Inl e \<Rightarrow> ''Error: '' @ exn_str e
      | Inr q \<Rightarrow> (case fst (claim_query_status q w) of
                   Inl e \<Rightarrow> ''Error: '' @ exn_str e
                 | Inr s \<Rightarrow> s))"
proof (cases "extract_claim_query ex user_input")
  case (Inl e)
  then show ?thesis by (simp add: claim_info_status_def)
next
  case (Inr q)
  obtain r w' where eq: "claim_query_status q w = (r, w')"
    by (cases "claim_query_status q w")
  with Inr show ?thesis by (cases r) (simp_all add: claim_info_status_def)
qed

lemma claim_info_status_fst:
  "db w = db w' \<Longrightarrow> read_fault w = read_fault w' \<Longrightarrow>
   fst (claim_info_status ex user_input w) = fst (claim_info_status ex user_input w')"
  using claim_query_status_fst [of w w'] by (simp add: fst_claim_info_status split: sum.splits)

lemma claim_query_stmts_select: "list_all is_select (claim_query_stmts q)"
  by (simp add: claim_query_stmts_def Let_def)

lemma get_claim_info_db [simp]:
  "db (snd (snd (get_claim_info_invoke ex rs user_input st w))) = db w"
  by (simp add: get_claim_info_invoke_eq claim_info_status_world world_simps split: sum.splits)

lemma claim_status_query_found:
  assumes "db_wf (db w)" and "read_fault w = None" and "c \<in> set (claims (db w))"
    and "cq_query_type q = ''claim_status''" and "cq_value q = py_str_int (cl_claim_id c)"
  shows "fst (claim_query_status q w) =
           Inr (''The status of claim '' @ py_str_int (cl_claim_id c) @ '' is: '' @ cl_status c)"
proof -
  have "distinct (map cl_claim_id (claims (db w)))" using assms(1) by (simp add: db_wf_def)
  then have "find (\<lambda>y. cl_claim_id y = cl_claim_id c) (claims (db w)) = Some c"
    using assms(3) by (rule find_distinct_key)
  then have "first_row (run_select (db w) (SelectStatusById (py_str_int (cl_claim_id c)))) =
               Some [VText (cl_status c)]"
    by (simp add: first_row_map_filter)
  with assms(2,4,5) show ?thesis
    by (simp add: claim_query_status_def Let_def sql_fetchone_eq row_item0_def)
qed

section \<open>Properties\<close>

text \<open>
  C5.  The claim lookup is read-only: whatever the model extracts and whatever the store
  raises, the tables are unchanged and every statement issued is a \<^verbatim>\<open>SELECT\<close>.
\<close>

theorem claim_info_read_only:
  "db (snd (snd (get_claim_info_invoke ex rs user_input st w))) = db w \<and>
   (\<exists>new. sql_log (snd (snd (get_claim_info_invoke ex rs user_input st w))) = sql_log w @ new \<and>
          list_all is_select new)"
  by (auto simp add: get_claim_info_invoke_eq claim_info_status_world world_simps
                     claim_query_stmts_select split: sum.splits)

text \<open>
  A \<^verbatim>\<open>query_type\<close> outside the four the chain knows (the spec's scenario: the
  model returns \<^verbatim>\<open>claim_history\<close>) yields the status \<^verbatim>\<open>Invalid query type.\<close>
  without issuing any statement.
\<close>

theorem claim_info_invalid_type:
  assumes "extract_claim_query ex user_input = Inr q"
    and "cq_query_type q \<notin> {''claim_status'', ''claims_by_client'', ''claims_by_policy'', ''claim_details''}"
  shows "get_claim_info_invoke ex rs user_input st w =
           (claim_info_respond rs user_input ''Invalid query type.'', Some ''Invalid query type.'',
            sql_connect w)"
  using assms by (simp add: get_claim_info_invoke_def claim_info_status_def claim_query_status_def)

theorem claim_info_invalid_type_witness:
  "get_claim_info_invoke
      (\<lambda>u h. Inr \<lparr>cq_query_type = ''claim_history'', cq_value = ''2'', cq_num_results = 5\<rparr>)
      (\<lambda>u h s. Inr s)
      [''user_input'' \<mapsto> PStr ''history of claim 2'', ''chat_history'' \<mapsto> PMessages []]
      None demo_world =
    (Inr ''Invalid query type.'', Some ''Invalid query type.'', demo_world\<lparr>conns := 1\<rparr>)"
proof -
  let ?ex = "\<lambda>u h. Inr \<lparr>cq_query_type = ''claim_history'', cq_value = ''2'', cq_num_results = 5\<rparr>"
  let ?d = "[''user_input'' \<mapsto> PStr ''history of claim 2'', ''chat_history'' \<mapsto> PMessages []]"
  have ex: "extract_claim_query ?ex ?d =
      Inr \<lparr>cq_query_type = ''claim_history'', cq_value = ''2'', cq_num_results = 5\<rparr>"
    by (simp add: extract_claim_query_def)
  show ?thesis
    using claim_info_invalid_type [OF ex, of "\<lambda>u h s. Inr s" None demo_world]
    by (simp add: claim_info_respond_def demo_world_def sql_connect_def)
qed

text \<open>
  Idempotence: invoking the lookup a second time with the same input, on the
  state the first call left, gives the same response and the same status.
\<close>

theorem claim_info_idempotent:
  "let (r1, s1, w1) = get_claim_info_invoke ex rs user_input st w;
       (r2, s2, w2) = get_claim_info_invoke ex rs user_input s1 w1
   in r2 = r1 \<and> s2 = s1"
proof -
  let ?w1 = "snd (snd (get_claim_info_invoke ex rs user_input st w))"
  have "db (sql_connect ?w1) = db (sql_connect w)" "read_fault (sql_connect ?w1) = read_fault (sql_connect w)"
    by (auto simp add: get_claim_info_invoke_eq claim_info_status_world world_simps split: sum.splits)
  then have "fst (claim_info_status ex user_input (sql_connect ?w1)) =
             fst (claim_info_status ex user_input (sql_connect w))"
    by (rule claim_info_status_fst)
  then show ?thesis by (simp add: get_claim_info_invoke_eq)
qed

text \<open>
  C17.  Looking a claim up by the decimal text of its id finds it: in a well-formed
  store, the \<^verbatim>\<open>claim_status\<close> query with value \<^verbatim>\<open>str(claim_id)\<close> reports that
  claim's status (SQLite converts the text parameter back to the integer key).
\<close>

theorem claim_status_lookup:
  assumes "db_wf (db w)" and "read_fault w = None" and "c \<in> set (claims (db w))"
    and "extract_claim_query ex user_input = Inr q"
    and "cq_query_type q = ''claim_status''" and "cq_value q = py_str_int (cl_claim_id c)"
  shows "fst (snd (get_claim_info_invoke ex rs user_input st w)) =
           Some (''The status of claim '' @ py_str_int (cl_claim_id c) @ '' is: '' @ cl_status c)"
proof -
  have "fst (claim_query_status q (sql_connect w)) =
          Inr (''The status of claim '' @ py_str_int (cl_claim_id c) @ '' is: '' @ cl_status c)"
    using assms(1-3,5,6) by (intro claim_status_query_found) (simp_all add: world_simps)
  with assms(4) show ?thesis by (simp add: get_claim_info_invoke_eq fst_claim_info_status)
qed

theorem claim_status_lookup_witness:
  "fst (snd (get_claim_info_invoke
      (\<lambda>u h. Inr \<lparr>cq_query_type = ''claim_status'', cq_value = ''2'', cq_num_results = 5\<rparr>)
      (\<lambda>u h s. Inr s)
      [''user_input'' \<mapsto> PStr ''What is the status of claim 2?'', ''chat_history'' \<mapsto> PMessages []]
      None demo_world)) = Some ''The status of claim 2 is: pending''"
proof -
  let ?c = "\<lparr>cl_claim_id = 2, cl_policy_id = 10, cl_user_id = 7, cl_claim_type = ''Car'',
              cl_status = ''pending''\<rparr>"
  let ?ex = "\<lambda>u h. Inr \<lparr>cq_query_type = ''claim_status'', cq_value = ''2'', cq_num_results = 5\<rparr>"
  let ?d = "[''user_input'' \<mapsto> PStr ''What is the status of claim 2?'', ''chat_history'' \<mapsto> PMessages []]"
  have wf: "db_wf (db demo_world)" by (simp add: demo_world_def demo_db_def db_wf_def sqlite_int64_def)
  have rf: "read_fault demo_world = None" by (simp add: demo_world_def)
  have c: "?c \<in> set (claims (db demo_world))" by (simp add: demo_world_def demo_db_def)
  have s2: "py_str_int 2 = ''2''" by code_simp
  have ex: "extract_claim_query ?ex ?d =
      Inr \<lparr>cq_query_type = ''claim_status'', cq_value = ''2'', cq_num_results = 5\<rparr>"
    by (simp add: extract_claim_query_def)
  show ?thesis
    using claim_status_lookup [OF wf rf c ex, of "\<lambda>u h s. Inr s" None] s2 by simp
qed

text \<open>
  C15.  The store's error text reaches the status verbatim: when a known query raises,
  the status handed to the model is \<^verbatim>\<open>"Error: "\<close> followed by \<^verbatim>\<open>str(e)\<close> (the
  spec asks for a masked message).
\<close>

theorem claim_info_echoes_store_error:
  assumes "extract_claim_query ex user_input = Inr q" and "read_fault w = Some err"
    and "cq_query_type q \<in> {''claim_status'', ''claims_by_client'', ''claims_by_policy'', ''claim_details''}"
  shows "fst (snd (get_claim_info_invoke ex rs user_input st w)) =
           Some (''Error: '' @ exn_str (SqliteError err))"
  using assms
  by (auto simp add: get_claim_info_invoke_eq claim_info_status_def claim_query_status_def
                     sql_fetchone_eq sql_select_eq world_simps)

theorem claim_info_echoes_store_error_witness:
  "fst (snd (get_claim_info_invoke
      (\<lambda>u h. Inr \<lparr>cq_query_type = ''claim_status'', cq_value = ''2'', cq_num_results = 5\<rparr>)
      (\<lambda>u h s. Inr s)
      [''user_input'' \<mapsto> PStr ''What is the status of claim 2?'', ''chat_history'' \<mapsto> PMessages []]
      None (demo_world\<lparr>read_fault := Some (OperationalError ''no such table: Claims'')\<rparr>))) =
    Some ''Error: no such table: Claims''"
proof -
  let ?ex = "\<lambda>u h. Inr \<lparr>cq_query_type = ''claim_status'', cq_value = ''2'', cq_num_results = 5\<rparr>"
  let ?d = "[''user_input'' \<mapsto> PStr ''What is the status of claim 2?'', ''chat_history'' \<mapsto> PMessages []]"
  have ex: "extract_claim_query ?ex ?d =
      Inr \<lparr>cq_query_type = ''claim_status'', cq_value = ''2'', cq_num_results = 5\<rparr>"
    by (simp add: extract_claim_query_def)
  show ?thesis
    using claim_info_echoes_store_error [OF ex,
        of "demo_world\<lparr>read_fault := Some (OperationalError ''no such table: Claims'')\<rparr>"
           "OperationalError ''no such table: Claims''" "\<lambda>u h s. Inr s" None]
    by simp
qed

text \<open>
  C14.  The lookup never closes its connection: every call leaves one more connection
  open than it found.
\<close>

theorem claim_info_leaks_connection:
  "conns (snd (snd (get_claim_info_invoke ex rs user_input st w))) = Suc (conns w)"
  by (simp add: get_claim_info_invoke_eq claim_info_status_world world_simps split: sum.splits)

end
