(* ===== verification/PolicyInfo.thy ===== *)
theory PolicyInfo
  imports Store
begin

text \<open>
  \<^verbatim>\<open>src/SecureShield/Chatbot/Chains/Get_Policy_Info.py\<close>: the policy lookup capability,
  built like the claim lookup: \<^verbatim>\<open>ExtractPolicyQuery.invoke\<close> asks the model for a
  \<^verbatim>\<open>PolicyQueryType\<close>; \<^verbatim>\<open>GetPolicyInfoChain.invoke\<close> opens a connection it never
  closes, dispatches on three read-only query types, turns exceptions into
  \<^verbatim>\<open>"Error: " + str(e)\<close>, stores the status in \<^verbatim>\<open>self.status\<close> and asks the model
  to phrase it.
\<close>

section \<open>Data and operations\<close>

record policy_query =
  pq_query_type :: string
  pq_value :: string
  pq_num_results :: int

type_synonym policy_extract_llm = "pyval \<Rightarrow> pyval \<Rightarrow> exn + policy_query"

definition extract_policy_query :: "policy_extract_llm \<Rightarrow> pydict \<Rightarrow> exn + policy_query" where
  "extract_policy_query llm inputs =
     bind_res (dict_get inputs ''user_input'') (\<lambda>u.
     bind_res (dict_get inputs ''chat_history'') (\<lambda>h. llm u h))"

text \<open>The \<^verbatim>\<open>if\<close>/\<^verbatim>\<open>elif\<close> chain on \<^verbatim>\<open>query_type\<close> (lines 116 to 144).\<close>

definition policy_query_status :: "policy_query \<Rightarrow> world \<Rightarrow> (exn + string) \<times> world" where
  "policy_query_status q w =
     (let v = pq_value q in
      if pq_query_type q = ''policy_details'' then
        (case sql_fetchone (SelectPolicyById v) w of
           (Inl e, w') \<Rightarrow> (Inl e, w')
         | (Inr None, w') \<Rightarrow> (Inr (''No details found for policy '' @ v @ ''.''), w')
         | (Inr (Some r), w') \<Rightarrow> (Inr (''Policy details for policy_id '' @ v @ '': '' @ py_repr_row r), w'))
      else if pq_query_type q = ''policies_by_client'' then
        (case sql_select (SelectPoliciesByClient v) w of
           (Inl e, w') \<Rightarrow> (Inl e, w')
         | (Inr [], w') \<Rightarrow> (Inr (''No policies found for client '' @ single_quoted v @ ''.''), w')
         | (Inr rs, w') \<Rightarrow> (Inr (''Policies for client '' @ single_quoted v @ '': '' @ py_repr_rows rs), w'))
      else if pq_query_type q = ''policies_by_type'' then
        (case sql_select (SelectPoliciesByType v) w of
           (Inl e, w') \<Rightarrow> (Inl e, w')
         | (Inr [], w') \<Rightarrow> (Inr (''No policies found for type '' @ single_quoted v @ ''.''), w')
         | (Inr rs, w') \<Rightarrow> (Inr (''Policies of type '' @ single_quoted v @ '': '' @ py_repr_rows rs), w'))
      else (Inr ''Invalid query type.'', w))"

text \<open>The \<^verbatim>\<open>try\<close>/\<^verbatim>\<open>except Exception\<close> block (lines 110 to 147).\<close>

definition policy_info_status :: "policy_extract_llm \<Rightarrow> pydict \<Rightarrow> world \<Rightarrow> string \<times> world" where
  "policy_info_status ex user_input w =
     (case extract_policy_query ex user_input of
        Inl e \<Rightarrow> (''Error: '' @ exn_str e, w)
      | Inr q \<Rightarrow>
          (case policy_query_status q w of
             (Inl e, w') \<Rightarrow> (''Error: '' @ exn_str e, w')
           | (Inr s, w') \<Rightarrow> (s, w')))"

definition policy_info_respond :: "status_llm \<Rightarrow> pydict \<Rightarrow> string \<Rightarrow> exn + string" where
  "policy_info_respond llm user_input status =
     bind_res (dict_get user_input ''user_input'') (\<lambda>u.
     bind_res (dict_get user_input ''chat_history'') (\<lambda>h. llm u h status))"

definition get_policy_info_invoke ::
  "policy_extract_llm \<Rightarrow> status_llm \<Rightarrow> pydict \<Rightarrow> string option \<Rightarrow> world \<Rightarrow>
   (exn + string) \<times> string option \<times> world" where
  "get_policy_info_invoke ex rs user_input st w =
     (case policy_info_status ex user_input (sql_connect w) of
        (status, w') \<Rightarrow> (policy_info_respond rs user_input status, Some status, w'))"

section \<open>Lemmas\<close>

definition policy_query_stmts :: "policy_query \<Rightarrow> stmt list" where
  "policy_query_stmts q =
     (let v = pq_value q in
      if pq_query_type q = ''policy_details'' then [SelectPolicyById v]
      else if pq_query_type q = ''policies_by_client'' then [SelectPoliciesByClient v]
      else if pq_query_type q = ''policies_by_type'' then [SelectPoliciesByType v]
      else [])"

lemma policy_query_status_world:
  "snd (policy_query_status q w) = w\<lparr>sql_log := sql_log w @ policy_query_stmts q\<rparr>"
  by (simp add: policy_query_status_def policy_query_stmts_def Let_def sql_fetchone_eq sql_select_eq
           split: option.splits list.splits sum.splits prod.splits)

lemma policy_info_status_eq:
  "policy_info_status ex user_input w =
     (case extract_policy_query ex user_input of
        Inl e \<Rightarrow> (''Error: '' @ exn_str e, w)
      | Inr q \<Rightarrow> ((case fst (policy_query_status q w) of
                    Inl e \<Rightarrow> ''Error: '' @ exn_str e
                  | Inr s \<Rightarrow> s),
                  w\<lparr>sql_log := sql_log w @ policy_query_stmts q\<rparr>))"
proof (cases "extract_policy_query ex user_input")
  case (Inl e)
  then show ?thesis by (simp add: policy_info_status_def)
next
  case (Inr q)
  obtain r w' where eq: "policy_query_status q w = (r, w')"
    by (cases "policy_query_status q w")
  with policy_query_status_world [of q w] have "w' = w\<lparr>sql_log := sql_log w @ policy_query_stmts q\<rparr>"
    by simp
  with Inr eq show ?thesis by (cases r) (simp_all add: policy_info_status_def)
qed

lemma get_policy_info_invoke_eq:
  "get_policy_info_invoke ex rs user_input st w =
     (policy_info_respond rs user_input (fst (policy_info_status ex user_input (sql_connect w))),
      Some (fst (policy_info_status ex user_input (sql_connect w))),
      snd (policy_info_status ex user_input (sql_connect w)))"
  by (simp add: get_policy_info_invoke_def split: prod.splits)

lemma policy_query_stmts_select: "list_all is_select (policy_query_stmts q)"
  by (simp add: policy_query_stmts_def Let_def)

lemma get_policy_info_db [simp]:
  "db (snd (snd (get_policy_info_invoke ex rs user_input st w))) = db w"
  by (simp add: get_policy_info_invoke_eq policy_info_status_eq world_simps split: sum.splits)

section \<open>Properties\<close>

text \<open>
  The policy lookup is read-only: the tables never change and every statement
  issued is a \<^verbatim>\<open>SELECT\<close>.
\<close>

theorem policy_info_read_only:
  "db (snd (snd (get_policy_info_invoke ex rs user_input st w))) = db w \<and>
   (\<exists>new. sql_log (snd (snd (get_policy_info_invoke ex rs user_input st w))) = sql_log w @ new \<and>
          list_all is_select new)"
  by (auto simp add: get_policy_info_invoke_eq policy_info_status_eq world_simps
                     policy_query_stmts_select split: sum.splits)

text \<open>
  C19.  \<^verbatim>\<open>policies_by_client\<close> resolves the client with the scalar subquery
  \<^verbatim>\<open>SELECT client_id FROM Clients WHERE name = ? OR client_id = ?\<close>: only the first
  client whose name or id matches counts, and the status lists exactly that client's
  policies, in table order, as the repr of the fetched rows.
\<close>

theorem policies_by_client_first_match:
  assumes "extract_policy_query ex user_input = Inr q" and "read_fault w = None"
    and "pq_query_type q = ''policies_by_client''"
    and "find (\<lambda>c. cli_name c = pq_value q \<or> int_col_eq (cli_client_id c) (pq_value q)) (clients (db w)) = Some c"
    and "ps = filter (\<lambda>p. po_user_id p = cli_client_id c) (policies (db w))" and "ps \<noteq> []"
  shows "fst (snd (get_policy_info_invoke ex rs user_input st w)) =
           Some (''Policies for client '' @ single_quoted (pq_value q) @ '': '' @
                 py_repr_rows (map (\<lambda>p. [VInt (po_policy_id p), VText (po_policy_type p),
                                         VText (po_policy_level p)]) ps))"
proof -
  have "client_subquery (db w) (pq_value q) = Some (cli_client_id c)"
    using assms(4) by (simp add: client_subquery_def)
  with assms(1-3,5,6) show ?thesis
    by (auto simp add: get_policy_info_invoke_eq policy_info_status_eq policy_query_status_def Let_def
                       sql_select_eq world_simps split: list.splits)
qed

theorem policies_by_client_first_match_witness:
  "fst (snd (get_policy_info_invoke
      (\<lambda>u h. Inr \<lparr>pq_query_type = ''policies_by_client'', pq_value = ''Ana'', pq_num_results = 5\<rparr>)
      (\<lambda>u h s. Inr s)
      [''user_input'' \<mapsto> PStr ''Which policies does Ana have?'', ''chat_history'' \<mapsto> PMessages []]
      None (demo_world\<lparr>db := demo_db\<lparr>clients := clients demo_db @ [\<lparr>cli_client_id = 8, cli_name = ''Ana''\<rparr>],
                                       policies := policies demo_db @
                                         [\<lparr>po_policy_id = 11, po_user_id = 8, po_policy_type = ''Health'',
                                           po_policy_level = ''Basic''\<rparr>]\<rparr>\<rparr>))) =
    Some (''Policies for client '' @ single_quoted ''Ana'' @ '': '' @
          py_repr_rows [[VInt 10, VText ''Car'', VText ''Gold'']])"
proof -
  let ?q = "\<lparr>pq_query_type = ''policies_by_client'', pq_value = ''Ana'', pq_num_results = 5\<rparr>"
  let ?ex = "\<lambda>(u::pyval) (h::pyval). (Inr ?q :: exn + policy_query)"
  let ?d = "[''user_input'' \<mapsto> PStr ''Which policies does Ana have?'', ''chat_history'' \<mapsto> PMessages []]"
  let ?w = "demo_world\<lparr>db := demo_db\<lparr>clients := clients demo_db @ [\<lparr>cli_client_id = 8, cli_name = ''Ana''\<rparr>],
                                       policies := policies demo_db @
                                         [\<lparr>po_policy_id = 11, po_user_id = 8, po_policy_type = ''Health'',
                                           po_policy_level = ''Basic''\<rparr>]\<rparr>\<rparr>"
  let ?c = "\<lparr>cli_client_id = 7, cli_name = ''Ana''\<rparr>"
  let ?ps = "[\<lparr>po_policy_id = 10, po_user_id = 7, po_policy_type = ''Car'', po_policy_level = ''Gold''\<rparr>]"
  have ex: "extract_policy_query ?ex ?d = Inr ?q" by (simp add: extract_policy_query_def)
  have rf: "read_fault ?w = None" by (simp add: demo_world_def)
  have ty: "pq_query_type ?q = ''policies_by_client''" by simp
  have fd: "find (\<lambda>c. cli_name c = pq_value ?q \<or> int_col_eq (cli_client_id c) (pq_value ?q)) (clients (db ?w)) =
              Some ?c"
    by (simp add: demo_world_def demo_db_def)
  have ps: "?ps = filter (\<lambda>p. po_user_id p = cli_client_id ?c) (policies (db ?w))"
    by (simp add: demo_world_def demo_db_def)
  have ne: "?ps \<noteq> []" by simp
  from policies_by_client_first_match [OF ex rf ty fd ps ne, of "\<lambda>u h s. Inr s" None]
  show ?thesis by simp
qed

text \<open>
  C32.  Looking a policy up by the decimal text of its id finds it: in a well-formed
  store, \<^verbatim>\<open>policy_details\<close> with value \<^verbatim>\<open>str(policy_id)\<close> reports the repr of
  that policy's row.
\<close>

theorem policy_details_lookup:
  assumes "db_wf (db w)" and "read_fault w = None" and "p \<in> set (policies (db w))"
    and "extract_policy_query ex user_input = Inr q"
    and "pq_query_type q = ''policy_details''" and "pq_value q = py_str_int (po_policy_id p)"
  shows "fst (snd (get_policy_info_invoke ex rs user_input st w)) =
           Some (''Policy details for policy_id '' @ py_str_int (po_policy_id p) @ '': '' @
                 py_repr_row (policy_all p))"
proof -
  have "distinct (map po_policy_id (policies (db w)))" using assms(1) by (simp add: db_wf_def)
  then have "find (\<lambda>y. po_policy_id y = po_policy_id p) (policies (db w)) = Some p"
    using assms(3) by (rule find_distinct_key)
  then have "first_row (run_select (db w) (SelectPolicyById (py_str_int (po_policy_id p)))) =
               Some (policy_all p)"
    by (simp add: first_row_map_filter)
  with assms(2,4-6) show ?thesis
    by (simp add: get_policy_info_invoke_eq policy_info_status_eq policy_query_status_def Let_def
                  sql_fetchone_eq world_simps)
qed

theorem policy_details_lookup_witness:
  "fst (snd (get_policy_info_invoke
      (\<lambda>u h. Inr \<lparr>pq_query_type = ''policy_details'', pq_value = ''10'', pq_num_results = 5\<rparr>)
      (\<lambda>u h s. Inr s)
      [''user_input'' \<mapsto> PStr ''Show policy 10'', ''chat_history'' \<mapsto> PMessages []]
      None demo_world)) =
   Some (''Policy details for policy_id 10: '' @
         py_repr_row [VInt 10, VInt 7, VText ''Car'', VText ''Gold''])"
proof -
  let ?p = "\<lparr>po_policy_id = 10, po_user_id = 7, po_policy_type = ''Car'', po_policy_level = ''Gold''\<rparr>"
  let ?ex = "\<lambda>u h. Inr \<lparr>pq_query_type = ''policy_details'', pq_value = ''10'', pq_num_results = 5\<rparr>"
  let ?d = "[''user_input'' \<mapsto> PStr ''Show policy 10'', ''chat_history'' \<mapsto> PMessages []]"
  have wf: "db_wf (db demo_world)" by (simp add: demo_world_def demo_db_def db_wf_def sqlite_int64_def)
  have rf: "read_fault demo_world = None" by (simp add: demo_world_def)
  have p: "?p \<in> set (policies (db demo_world))" by (simp add: demo_world_def demo_db_def)
  have s10: "py_str_int 10 = ''10''" by code_simp
  have ex: "extract_policy_query ?ex ?d =
      Inr \<lparr>pq_query_type = ''policy_details'', pq_value = ''10'', pq_num_results = 5\<rparr>"
    by (simp add: extract_policy_query_def)
  show ?thesis
    using policy_details_lookup [OF wf rf p ex, of "\<lambda>u h s. Inr s" None] s10
    by (simp add: policy_all_def)
qed

end
