(* ===== verification/Guard.thy ===== *)
theory Guard
  imports Prelude
begin

text \<open>
  \<^verbatim>\<open>src/SecureShield/Chatbot/Chains/Prompt_Injection_Tolerance.py\<close>: the prompt-injection
  guard.  \<^verbatim>\<open>IsPromptInjection.invoke\<close> substitutes \<^verbatim>\<open>inputs["user_input"]\<close> into
  its template (no chat history) and parses the completion into a \<^verbatim>\<open>Format\<close> whose
  only field is \<^verbatim>\<open>is_prompt_injection\<close>.  The model is an oracle from the input value
  to that field or to the parser's exception.
\<close>

type_synonym guard_llm = "pyval \<Rightarrow> exn + bool"

definition is_prompt_injection_invoke :: "guard_llm \<Rightarrow> pydict \<Rightarrow> exn + bool" where
  "is_prompt_injection_invoke llm inputs = bind_res (dict_get inputs ''user_input'') llm"

lemma is_prompt_injection_invoke_Inr:
  "is_prompt_injection_invoke llm inputs = Inr b \<longleftrightarrow>
   (\<exists>u. inputs ''user_input'' = Some u \<and> llm u = Inr b)"
  by (auto simp add: is_prompt_injection_invoke_def bind_res_eq_Inr dict_get_Inr_iff)

end
