(* ===== verification/Chitchat.thy ===== *)
theory Chitchat
  imports Prelude
begin

text \<open>
  \<^verbatim>\<open>src/SecureShield/Chatbot/Chains/Chitchat.py\<close>: the chit-chat chains.
  \<^verbatim>\<open>ChitChatResponseChain.invoke\<close> passes its input dict to a prompt with the variable
  \<^verbatim>\<open>customer_input\<close> and a chat-history placeholder and returns the model's text;
  \<^verbatim>\<open>ChitChatClassifierChain.invoke\<close> reads \<^verbatim>\<open>customer_input\<close> and
  \<^verbatim>\<open>chat_history\<close> and returns the parsed \<^verbatim>\<open>chitchat\<close> verdict.  A prompt variable
  missing from the dict raises \<^verbatim>\<open>KeyError\<close>, as the dict reads do.  Both constructors
  take a required \<^verbatim>\<open>llm\<close> argument (lines 10 and 69), which matters to
  \<^verbatim>\<open>MainChatbot.__init__\<close>.
\<close>

type_synonym chitchat_llm = "pyval \<Rightarrow> pyval \<Rightarrow> exn + string"
type_synonym chitchat_class_llm = "pyval \<Rightarrow> pyval \<Rightarrow> exn + bool"

definition chitchat_response_invoke :: "chitchat_llm \<Rightarrow> pydict \<Rightarrow> exn + string" where
  "chitchat_response_invoke llm input =
     bind_res (dict_get input ''customer_input'') (\<lambda>ci.
     bind_res (dict_get input ''chat_history'') (\<lambda>h. llm ci h))"

definition chitchat_classifier_invoke :: "chitchat_class_llm \<Rightarrow> pydict \<Rightarrow> exn + bool" where
  "chitchat_classifier_invoke llm input =
     bind_res (dict_get input ''customer_input'') (\<lambda>ci.
     bind_res (dict_get input ''chat_history'') (\<lambda>h. llm ci h))"

end
