(* ===== verification/Memory.thy ===== *)
theory Memory
  imports Prelude "HOL-Library.Sublist"
begin

text \<open>
  Session memory.  \<^verbatim>\<open>bot.py\<close> imports \<^verbatim>\<open>MemoryManager\<close> from a module
  (\<^verbatim>\<open>Chatbot/memory.py\<close>) that is not in the repository, and wraps chains in
  LangChain's \<^verbatim>\<open>RunnableWithMessageHistory\<close>; both are modelled from the spec
  (section 6, the session store) and from the wrapper's documented behaviour.  The store
  maps a \<^verbatim>\<open>(user_id, conversation_id)\<close> key to its message list, created empty on
  first access.  The wrapper loads the key's history into the input's
  \<^verbatim>\<open>chat_history\<close>, runs the chain, and when the chain returns appends the input
  message (from \<^verbatim>\<open>user_input\<close>) and the output message to the key's history.
\<close>

type_synonym session_key = "string \<times> string"
type_synonym sessions = "session_key \<Rightarrow> message list"

definition empty_sessions :: sessions where
  "empty_sessions = (\<lambda>_. [])"

definition get_session_history :: "sessions \<Rightarrow> session_key \<Rightarrow> message list" where
  "get_session_history s k = s k"

definition add_messages :: "sessions \<Rightarrow> session_key \<Rightarrow> message list \<Rightarrow> sessions" where
  "add_messages s k ms = s(k := s k @ ms)"

text \<open>The messages the wrapper derives from the input value and the output value.\<close>

definition input_messages :: "pydict \<Rightarrow> exn + message list" where
  "input_messages d =
     bind_res (dict_get d ''user_input'') (\<lambda>v.
       case v of
         PStr s \<Rightarrow> Inr [\<lparr>msg_role = Human, msg_content = s\<rparr>]
       | PMessages ms \<Rightarrow> Inr ms
       | _ \<Rightarrow> Inl (ValueError ''Expected str, BaseMessage, List[BaseMessage], or Tuple[BaseMessage]''))"

definition output_messages :: "pyval \<Rightarrow> exn + message list" where
  "output_messages v =
     (case v of
        PStr s \<Rightarrow> Inr [\<lparr>msg_role = AI, msg_content = s\<rparr>]
      | PMessages ms \<Rightarrow> Inr ms
      | _ \<Rightarrow> Inl (ValueError ''Expected str, BaseMessage, List[BaseMessage], or Tuple[BaseMessage]''))"

text \<open>The session store only grows: every key's history is a prefix of its later history.\<close>

definition sessions_extend :: "sessions \<Rightarrow> sessions \<Rightarrow> bool" where
  "sessions_extend s s' \<longleftrightarrow> (\<forall>k. prefix (s k) (s' k))"

lemma sessions_extend_refl [simp]: "sessions_extend s s"
  by (simp add: sessions_extend_def)

lemma sessions_extend_trans [trans]:
  "sessions_extend s1 s2 \<Longrightarrow> sessions_extend s2 s3 \<Longrightarrow> sessions_extend s1 s3"
  by (meson prefix_order.order_trans sessions_extend_def)

lemma sessions_extend_add [simp]: "sessions_extend s (add_messages s k ms)"
  by (simp add: sessions_extend_def add_messages_def)

lemma add_messages_other [simp]: "k' \<noteq> k \<Longrightarrow> add_messages s k ms k' = s k'"
  by (simp add: add_messages_def)

lemma add_messages_same [simp]: "add_messages s k ms k = s k @ ms"
  by (simp add: add_messages_def)

end
