(* ===== verification/Bot.thy ===== *)
theory Bot
  imports UpdateClaim ClaimInfo PolicyInfo Guard Chitchat Memory
begin

text \<open>
  \<^verbatim>\<open>src/SecureShield/Chatbot/bot.py\<close>: \<^verbatim>\<open>MainChatbot\<close>, the per-turn dispatcher.
  Its state is the record \<open>bot\<close>: the chain table \<^verbatim>\<open>chain_map\<close> (intent name to a
  chain, wrapped with session history or bare), the handler table
  \<^verbatim>\<open>intent_handlers\<close>, the login attributes set by \<^verbatim>\<open>user_login\<close>, the session
  memory, and the \<^verbatim>\<open>self.status\<close> attributes of the three capability chains it owns.
  The language model is one record \<open>llm\<close> of oracles, one per chain.  A turn is
  \<^verbatim>\<open>process_user_input\<close>: guard, classify, dispatch to a handler or to
  \<^verbatim>\<open>handle_unknown_intent\<close>.  Every exception that escapes a chain escapes the turn.
\<close>

section \<open>State\<close>

datatype chain_ref =
    UpdateClaimStatusChain
  | GetClaimInfoChain
  | GetPolicyInfoChain
  | ChitChatResponseChain
  | ChitChatClassifierChain

text \<open>
  An entry of \<^verbatim>\<open>chain_map\<close>: \<^verbatim>\<open>add_memory_to_runnable(c)\<close> (a
  \<^verbatim>\<open>RunnableWithMessageHistory\<close> bound with \<^verbatim>\<open>with_config\<close>) or the bare chain.
\<close>

datatype chain_entry = WithHistory chain_ref | Bare chain_ref

text \<open>The bound methods \<^verbatim>\<open>intent_handlers\<close> refers to (lines 45 to 50).\<close>

datatype handler =
    HandleUpdateClaimInfo
  | HandleGetClaimInfo
  | HandleGetPolicyInfo
  | HandleChitchatIntent

text \<open>The \<^verbatim>\<open>name\<close> of a route returned by the intention classifier.\<close>

datatype route_name = RouteStr string | RouteNone | RouteOther string

record llm =
  guard_model :: guard_llm
  route_model :: "pyval \<Rightarrow> route_name list"
  update_extract_model :: update_extract_llm
  update_respond_model :: status_llm
  claim_extract_model :: claim_extract_llm
  claim_respond_model :: status_llm
  policy_extract_model :: policy_extract_llm
  policy_respond_model :: status_llm
  chitchat_model :: chitchat_llm
  chitchat_class_model :: chitchat_class_llm

record bot =
  chain_map :: "string \<rightharpoonup> chain_entry"
  intent_handlers :: "string option \<rightharpoonup> handler"
  login :: "session_key option"
  sessions :: sessions
  update_chain_status :: "string option"
  claim_chain_status :: "string option"
  policy_chain_status :: "string option"

type_synonym 'a turn = "(exn + 'a) \<times> bot \<times> world"

section \<open>Construction\<close>

text \<open>
  The constructors of the chains: the two chit-chat chains require an \<^verbatim>\<open>llm\<close>
  argument that \<^verbatim>\<open>__init__\<close> does not pass.
\<close>

fun chain_class_name :: "chain_ref \<Rightarrow> string" where
  "chain_class_name UpdateClaimStatusChain = ''UpdateClaimStatusChain''"
| "chain_class_name GetClaimInfoChain = ''GetClaimInfoChain''"
| "chain_class_name GetPolicyInfoChain = ''GetPolicyInfoChain''"
| "chain_class_name ChitChatResponseChain = ''ChitChatResponseChain''"
| "chain_class_name ChitChatClassifierChain = ''ChitChatClassifierChain''"

definition construct_chain :: "chain_ref \<Rightarrow> exn + unit" where
  "construct_chain c =
     (if c = ChitChatResponseChain \<or> c = ChitChatClassifierChain
      then Inl (TypeError (chain_class_name c @ ''.__init__() missing 1 required positional argument: ''
                           @ single_quoted ''llm''))
      else Inr ())"

fun entry_chain :: "chain_entry \<Rightarrow> chain_ref" where
  "entry_chain (WithHistory c) = c"
| "entry_chain (Bare c) = c"

text \<open>The dict literal of lines 35 to 41, its values evaluated in order.\<close>

definition init_chain_entries :: "(string \<times> chain_entry) list" where
  "init_chain_entries =
     [(''Update_Claim_Status'', WithHistory UpdateClaimStatusChain),
      (''Get_Claim_Info'', WithHistory GetClaimInfoChain),
      (''Get_Policy_Info'', WithHistory GetPolicyInfoChain),
      (''chitchat'', WithHistory ChitChatResponseChain),
      (''chitchat_class'', Bare ChitChatClassifierChain)]"

fun build_chain_map :: "(string \<times> chain_entry) list \<Rightarrow> exn + (string \<rightharpoonup> chain_entry)" where
  "build_chain_map [] = Inr Map.empty"
| "build_chain_map ((k, e) # es) =
     bind_res (construct_chain (entry_chain e)) (\<lambda>_.
     bind_res (build_chain_map es) (\<lambda>m. Inr (m(k \<mapsto> e))))"

text \<open>
  The dict literal of lines 45 to 50: evaluating \<^verbatim>\<open>self.handle_get_policy_info\<close>
  raises, since the class defines no such method.
\<close>

definition init_handler_entries :: "(string option \<times> handler) list" where
  "init_handler_entries =
     [(Some ''Update_Claim_Status'', HandleUpdateClaimInfo),
      (Some ''Get_Claim_Info'', HandleGetClaimInfo),
      (Some ''Get_Policy_Info'', HandleGetPolicyInfo),
      (Some ''Chitchat'', HandleChitchatIntent)]"

definition missing_method :: "string \<Rightarrow> exn" where
  "missing_method m = AttributeError (single_quoted ''MainChatbot'' @ '' object has no attribute '' @ single_quoted m)"

definition bound_method :: "handler \<Rightarrow> exn + handler" where
  "bound_method h = (if h = HandleGetPolicyInfo then Inl (missing_method ''handle_get_policy_info'') else Inr h)"

fun build_handlers :: "(string option \<times> handler) list \<Rightarrow> exn + (string option \<rightharpoonup> handler)" where
  "build_handlers [] = Inr Map.empty"
| "build_handlers ((k, h) # hs) =
     bind_res (bound_method h) (\<lambda>h'.
     bind_res (build_handlers hs) (\<lambda>m. Inr (m(k \<mapsto> h'))))"

text \<open>\<^verbatim>\<open>MainChatbot.__init__\<close> (lines 29 to 53).\<close>

definition main_chatbot_init :: "exn + bot" where
  "main_chatbot_init =
     bind_res (build_chain_map init_chain_entries) (\<lambda>cm.
     bind_res (build_handlers init_handler_entries) (\<lambda>ih.
       Inr \<lparr>chain_map = cm, intent_handlers = ih, login = None, sessions = empty_sessions,
            update_chain_status = None, claim_chain_status = None, policy_chain_status = None\<rparr>))"

text \<open>\<^verbatim>\<open>user_login\<close> (lines 55 to 69) sets the user, the conversation and the config.\<close>

definition user_login :: "string \<Rightarrow> string \<Rightarrow> bot \<Rightarrow> bot" where
  "user_login username conversation_id b = b\<lparr>login := Some (username, conversation_id)\<rparr>"

section \<open>Chains and handlers\<close>

definition get_chain :: "bot \<Rightarrow> string \<Rightarrow> exn + chain_entry" where
  "get_chain b intent = (case chain_map b intent of None \<Rightarrow> Inl (KeyError intent) | Some c \<Rightarrow> Inr c)"

text \<open>\<^verbatim>\<open>chain.invoke(input, config)\<close> of each chain, with its \<^verbatim>\<open>self.status\<close>.\<close>

definition run_chain :: "llm \<Rightarrow> chain_ref \<Rightarrow> pydict \<Rightarrow> bot \<Rightarrow> world \<Rightarrow> pyval turn" where
  "run_chain L c d b w =
     (case c of
        UpdateClaimStatusChain \<Rightarrow>
          (case update_claim_status_invoke (update_extract_model L) (update_respond_model L) d
                  (update_chain_status b) w of
             (r, st, w') \<Rightarrow> (map_sum id PStr r, b\<lparr>update_chain_status := st\<rparr>, w'))
      | GetClaimInfoChain \<Rightarrow>
          (case get_claim_info_invoke (claim_extract_model L) (claim_respond_model L) d
                  (claim_chain_status b) w of
             (r, st, w') \<Rightarrow> (map_sum id PStr r, b\<lparr>claim_chain_status := st\<rparr>, w'))
      | GetPolicyInfoChain \<Rightarrow>
          (case get_policy_info_invoke (policy_extract_model L) (policy_respond_model L) d
                  (policy_chain_status b) w of
             (r, st, w') \<Rightarrow> (map_sum id PStr r, b\<lparr>policy_chain_status := st\<rparr>, w'))
      | ChitChatResponseChain \<Rightarrow> (map_sum id PStr (chitchat_response_invoke (chitchat_model L) d), b, w)
      | ChitChatClassifierChain \<Rightarrow>
          (map_sum id PChitchatVerdict (chitchat_classifier_invoke (chitchat_class_model L) d), b, w))"

text \<open>
  \<^verbatim>\<open>entry.invoke(input, config=self.memory_config)\<close>: a wrapped chain sees the
  session's history as \<^verbatim>\<open>chat_history\<close> and, when it returns, the turn's input and
  output messages are appended to that session.
\<close>

definition invoke_entry :: "llm \<Rightarrow> chain_entry \<Rightarrow> pydict \<Rightarrow> session_key \<Rightarrow> bot \<Rightarrow> world \<Rightarrow> pyval turn" where
  "invoke_entry L e d key b w =
     (case e of
        Bare c \<Rightarrow> run_chain L c d b w
      | WithHistory c \<Rightarrow>
          (case run_chain L c (d(''chat_history'' \<mapsto> PMessages (get_session_history (sessions b) key))) b w of
             (Inl ex, b', w') \<Rightarrow> (Inl ex, b', w')
           | (Inr out, b', w') \<Rightarrow>
               (case bind_res (input_messages d) (\<lambda>ins. bind_res (output_messages out) (\<lambda>outs. Inr (ins @ outs))) of
                  Inl ex \<Rightarrow> (Inl ex, b', w')
                | Inr ms \<Rightarrow> (Inr out, b'\<lparr>sessions := add_messages (sessions b') key ms\<rparr>, w'))))"

definition no_login_error :: exn where
  "no_login_error = missing_method ''username''"

text \<open>
  \<^verbatim>\<open>save_memory\<close> (lines 250 to 252): the memory module's
  \<^verbatim>\<open>save_session_history\<close>, absent from the repository, is a parameter; before
  \<^verbatim>\<open>user_login\<close> the read of \<^verbatim>\<open>self.username\<close> raises.  No code calls it.
\<close>

definition save_memory :: "(sessions \<Rightarrow> session_key \<Rightarrow> exn + unit) \<Rightarrow> bot \<Rightarrow> exn + unit" where
  "save_memory save_session_history b =
     (case login b of
        None \<Rightarrow> Inl no_login_error
      | Some key \<Rightarrow> save_session_history (sessions b) key)"

text \<open>\<^verbatim>\<open>handle_update_claim_info\<close> (lines 138 to 155).\<close>

definition handle_update_claim_info :: "llm \<Rightarrow> pydict \<Rightarrow> bot \<Rightarrow> world \<Rightarrow> pyval turn" where
  "handle_update_claim_info L user_input b w =
     (case get_chain b ''Update_Claim_Status'' of
        Inl e \<Rightarrow> (Inl e, b, w)
      | Inr chain \<Rightarrow>
          (case login b of
             None \<Rightarrow> (Inl no_login_error, b, w)
           | Some key \<Rightarrow>
               invoke_entry L chain
                 (user_input(''chat_history'' \<mapsto> PMessages (get_session_history (sessions b) key))) key b w))"

text \<open>\<^verbatim>\<open>handle_get_claim_info\<close> (lines 157 to 174).\<close>

definition handle_get_claim_info :: "llm \<Rightarrow> pydict \<Rightarrow> bot \<Rightarrow> world \<Rightarrow> pyval turn" where
  "handle_get_claim_info L user_input b w =
     (case get_chain b ''Get_Claim_Info'' of
        Inl e \<Rightarrow> (Inl e, b, w)
      | Inr chain \<Rightarrow>
          (case login b of
             None \<Rightarrow> (Inl no_login_error, b, w)
           | Some key \<Rightarrow>
               invoke_entry L chain
                 (user_input(''chat_history'' \<mapsto> PMessages (get_session_history (sessions b) key))) key b w))"

text \<open>\<^verbatim>\<open>handle_chitchat_intent\<close> (lines 193 to 208) looks up the key \<^verbatim>\<open>"Chitchat"\<close>.\<close>

definition handle_chitchat_intent :: "llm \<Rightarrow> pydict \<Rightarrow> bot \<Rightarrow> world \<Rightarrow> pyval turn" where
  "handle_chitchat_intent L user_input b w =
     (case get_chain b ''Chitchat'' of
        Inl e \<Rightarrow> (Inl e, b, w)
      | Inr chain \<Rightarrow>
          (case login b of
             None \<Rightarrow> (Inl no_login_error, b, w)
           | Some key \<Rightarrow> invoke_entry L chain user_input key b w))"

text \<open>
  \<^verbatim>\<open>chitchat_reasoning_chain, _ = self.get_chain("chitchat")\<close> (line 227) unpacks a
  chain object into two names.  A wrapped entry is a pydantic model, whose iteration
  yields its six fields; a bare chain is not iterable.  Either way the unpacking raises,
  so the rest of \<^verbatim>\<open>handle_unknown_intent\<close> (lines 229 to 248) never runs.
\<close>

definition unpack_pair_error :: "chain_entry \<Rightarrow> exn" where
  "unpack_pair_error e =
     (case e of
        WithHistory _ \<Rightarrow> ValueError ''too many values to unpack (expected 2)''
      | Bare c \<Rightarrow> TypeError (''cannot unpack non-iterable '' @ chain_class_name c @ '' object''))"

definition possible_intention :: "string list" where
  "possible_intention = [''Product Information'', ''Create Order'', ''Order Status'',
                         ''Support Information'', ''Chitchat'']"

definition handle_unknown_intent :: "llm \<Rightarrow> pydict \<Rightarrow> bot \<Rightarrow> world \<Rightarrow> pyval turn" where
  "handle_unknown_intent L user_input b w =
     (case get_chain b ''chitchat'' of
        Inl e \<Rightarrow> (Inl e, b, w)
      | Inr chain \<Rightarrow> (Inl (unpack_pair_error chain), b, w))"

text \<open>Calling a bound method of \<^verbatim>\<open>intent_handlers\<close>.\<close>

fun run_handler :: "llm \<Rightarrow> handler \<Rightarrow> pydict \<Rightarrow> bot \<Rightarrow> world \<Rightarrow> pyval turn" where
  "run_handler L HandleUpdateClaimInfo d b w = handle_update_claim_info L d b w"
| "run_handler L HandleGetClaimInfo d b w = handle_get_claim_info L d b w"
| "run_handler L HandleGetPolicyInfo d b w = (Inl (missing_method ''handle_get_policy_info''), b, w)"
| "run_handler L HandleChitchatIntent d b w = handle_chitchat_intent L d b w"

section \<open>Classification and the turn\<close>

definition not_understood_message :: "string \<Rightarrow> string" where
  "not_understood_message ty =
     ''I'' @ [CHR 0x27] @ ''m sorry, I didn'' @ [CHR 0x27] @ ''t understand that. The intention type is ''
     @ ty @ ''.''"

text \<open>\<^verbatim>\<open>get_user_intent\<close> (lines 104 to 135): the first route's name, if a string.\<close>

definition get_user_intent :: "llm \<Rightarrow> pydict \<Rightarrow> world \<Rightarrow> (exn + string option) \<times> world" where
  "get_user_intent L user_input w =
     (case dict_get user_input ''customer_input'' of
        Inl e \<Rightarrow> (Inl e, w)
      | Inr ci \<Rightarrow>
          (case route_model L ci of
             [] \<Rightarrow> (Inr None, w)
           | r # _ \<Rightarrow>
               (case r of
                  RouteNone \<Rightarrow> (Inr None, w)
                | RouteStr s \<Rightarrow> (Inr (Some s), w)
                | RouteOther ty \<Rightarrow> (Inr None, py_print (not_understood_message ty) w))))"

definition refusal_message :: string where
  "refusal_message = ''It was detected prompt injection risks or malicious content in your input.''"

text \<open>\<^verbatim>\<open>process_user_input\<close> (lines 254 to 275).\<close>

definition process_user_input :: "llm \<Rightarrow> pydict \<Rightarrow> bot \<Rightarrow> world \<Rightarrow> pyval turn" where
  "process_user_input L user_input b w =
     (case is_prompt_injection_invoke (guard_model L) user_input of
        Inl e \<Rightarrow> (Inl e, b, w)
      | Inr True \<Rightarrow> (Inr (PStr refusal_message), b, w)
      | Inr False \<Rightarrow>
          (case get_user_intent L user_input w of
             (Inl e, w1) \<Rightarrow> (Inl e, b, w1)
           | (Inr intention, w1) \<Rightarrow>
               (case intent_handlers b intention of
                  None \<Rightarrow> handle_unknown_intent L user_input b w1
                | Some h \<Rightarrow> run_handler L h user_input b w1)))"

section \<open>Lemmas\<close>

subsection \<open>What the chains leave of the bot\<close>

lemma run_chain_bot [simp]:
  "sessions (fst (snd (run_chain L c d b w))) = sessions b"
  "login (fst (snd (run_chain L c d b w))) = login b"
  by (cases c; simp add: run_chain_def split: prod.splits)+

lemma invoke_entry_frame:
  "login (fst (snd (invoke_entry L e d key b w))) = login b \<and>
   (sessions (fst (snd (invoke_entry L e d key b w))) = sessions b \<or>
    (\<exists>ms. sessions (fst (snd (invoke_entry L e d key b w))) = add_messages (sessions b) key ms))"
proof (cases e)
  case (Bare c)
  then show ?thesis by (simp add: invoke_entry_def)
next
  case (WithHistory c)
  let ?d = "d(''chat_history'' \<mapsto> PMessages (get_session_history (sessions b) key))"
  obtain r b' w' where run: "run_chain L c ?d b w = (r, b', w')"
    by (cases "run_chain L c ?d b w")
  then have "sessions b' = sessions b" "login b' = login b"
    using run_chain_bot [of L c ?d b w] by simp_all
  with WithHistory run show ?thesis
    by (auto simp add: invoke_entry_def split: sum.splits)
qed

text \<open>
  A handler changes the session memory at most by appending to the logged-in
  session: the shape every turn keeps.
\<close>

definition appends_to_login :: "bot \<Rightarrow> bot \<Rightarrow> bool" where
  "appends_to_login b b' \<longleftrightarrow>
     sessions b' = sessions b \<or> (\<exists>k ms. login b = Some k \<and> sessions b' = add_messages (sessions b) k ms)"

lemma appends_to_login_refl [simp]: "appends_to_login b b"
  by (simp add: appends_to_login_def)

lemma appends_to_login_invoke:
  "login b = Some key \<Longrightarrow> appends_to_login b (fst (snd (invoke_entry L e d key b w)))"
  using invoke_entry_frame [of L e d key b w] by (auto simp add: appends_to_login_def)

lemma appends_to_login_run_handler:
  "appends_to_login b (fst (snd (run_handler L h d b w)))"
  by (cases h)
     (auto simp add: handle_update_claim_info_def handle_get_claim_info_def handle_chitchat_intent_def
                     appends_to_login_invoke split: sum.splits option.splits)

lemma appends_to_login_unknown:
  "fst (snd (handle_unknown_intent L d b w)) = b"
  by (simp add: handle_unknown_intent_def split: sum.splits)

lemma appends_to_login_process:
  "appends_to_login b (fst (snd (process_user_input L d b w)))"
  by (simp add: process_user_input_def appends_to_login_unknown appends_to_login_run_handler
           split: sum.splits bool.splits prod.splits option.splits)

lemma appends_to_login_extend:
  "appends_to_login b b' \<Longrightarrow> sessions_extend (sessions b) (sessions b')"
  by (auto simp add: appends_to_login_def)

lemma appends_to_login_other:
  "appends_to_login b b' \<Longrightarrow> login b \<noteq> Some k \<Longrightarrow> sessions b' k = sessions b k"
  by (auto simp add: appends_to_login_def add_messages_def)

subsection \<open>What the chains do to the tables\<close>

lemma run_chain_db:
  "c \<noteq> UpdateClaimStatusChain \<Longrightarrow> db (snd (snd (run_chain L c d b w))) = db w"
  by (cases c) (simp_all add: run_chain_def prod.case_eq_if)

lemma invoke_entry_db:
  "entry_chain e \<noteq> UpdateClaimStatusChain \<Longrightarrow> db (snd (snd (invoke_entry L e d key b w))) = db w"
proof (cases e)
  case (Bare c)
  with run_chain_db show "entry_chain e \<noteq> UpdateClaimStatusChain \<Longrightarrow> ?thesis"
    by (simp add: invoke_entry_def)
next
  case (WithHistory c)
  let ?d = "d(''chat_history'' \<mapsto> PMessages (get_session_history (sessions b) key))"
  assume ne: "entry_chain e \<noteq> UpdateClaimStatusChain"
  obtain r b' w' where run: "run_chain L c ?d b w = (r, b', w')"
    by (cases "run_chain L c ?d b w")
  with ne WithHistory run_chain_db [of c L ?d b w] have "db w' = db w" by simp
  with WithHistory run show ?thesis
    by (auto simp add: invoke_entry_def split: sum.splits)
qed

lemma invoke_entry_history_Inr:
  assumes "invoke_entry L (WithHistory c) d key b w = (Inr out, b', w')"
  shows "\<exists>ins outs. input_messages d = Inr ins \<and> output_messages out = Inr outs \<and>
                   sessions b' = add_messages (sessions b) key (ins @ outs)"
proof -
  let ?d = "d(''chat_history'' \<mapsto> PMessages (get_session_history (sessions b) key))"
  obtain r b0 w0 where run: "run_chain L c ?d b w = (r, b0, w0)"
    by (cases "run_chain L c ?d b w")
  then have s0: "sessions b0 = sessions b" using run_chain_bot [of L c ?d b w] by simp
  from assms run show ?thesis
    by (auto simp add: invoke_entry_def s0 bind_res_eq_Inr split: sum.splits)
qed

subsection \<open>Which handlers can write\<close>

lemma get_user_intent_world:
  "db (snd (get_user_intent L d w)) = db w"
  by (simp add: get_user_intent_def py_print_def split: sum.splits list.splits route_name.splits)

lemma run_handler_db:
  assumes "h \<noteq> HandleUpdateClaimInfo" and "chain_map b = map_of init_chain_entries"
  shows "db (snd (snd (run_handler L h d b w))) = db w"
proof (cases h)
  case HandleGetClaimInfo
  have "chain_map b ''Get_Claim_Info'' = Some (WithHistory GetClaimInfoChain)"
    using assms(2) by (simp add: init_chain_entries_def)
  with HandleGetClaimInfo show ?thesis
    by (simp add: handle_get_claim_info_def get_chain_def invoke_entry_db split: option.splits)
next
  case HandleChitchatIntent
  have "chain_map b ''Chitchat'' = None"
    using assms(2) by (simp add: init_chain_entries_def)
  with HandleChitchatIntent show ?thesis by (simp add: handle_chitchat_intent_def get_chain_def)
qed (use assms in simp_all)

section \<open>Properties\<close>

text \<open>
  The chatbot cannot be constructed: evaluating the \<^verbatim>\<open>chain_map\<close> literal
  calls \<^verbatim>\<open>ChitChatResponseChain()\<close> without its required \<^verbatim>\<open>llm\<close> argument and
  raises \<^verbatim>\<open>TypeError\<close>; and were that fixed, the \<^verbatim>\<open>intent_handlers\<close> literal
  would raise \<^verbatim>\<open>AttributeError\<close> on \<^verbatim>\<open>self.handle_get_policy_info\<close>.
\<close>

theorem main_chatbot_init_fails:
  "main_chatbot_init =
     Inl (TypeError (''ChitChatResponseChain.__init__() missing 1 required positional argument: ''
                     @ single_quoted ''llm'')) \<and>
   build_handlers init_handler_entries = Inl (missing_method ''handle_get_policy_info'')"
  by (simp add: main_chatbot_init_def init_chain_entries_def construct_chain_def
                init_handler_entries_def bound_method_def)

text \<open>
  C23.  \<^verbatim>\<open>handle_chitchat_intent\<close> asks \<^verbatim>\<open>chain_map\<close> for the key
  \<^verbatim>\<open>"Chitchat"\<close>, but the table built in \<^verbatim>\<open>__init__\<close> has \<^verbatim>\<open>"chitchat"\<close>:
  with the keys of that table the handler raises \<^verbatim>\<open>KeyError('Chitchat')\<close> and does
  nothing else.
\<close>

theorem chitchat_handler_key_error:
  assumes "dom (chain_map b) = fst ` set init_chain_entries"
  shows "handle_chitchat_intent L user_input b w = (Inl (KeyError ''Chitchat''), b, w)"
proof -
  have "''Chitchat'' \<notin> fst ` set init_chain_entries"
    by (simp add: init_chain_entries_def)
  then have "''Chitchat'' \<notin> dom (chain_map b)" by (subst assms)
  then have "chain_map b ''Chitchat'' = None" by blast
  then show ?thesis by (simp add: handle_chitchat_intent_def get_chain_def)
qed

theorem chitchat_handler_key_error_witness:
  "dom (chain_map (\<lparr>chain_map = map_of init_chain_entries, intent_handlers = Map.empty,
                    login = Some (''eva'', ''c1''), sessions = empty_sessions, update_chain_status = None,
                    claim_chain_status = None, policy_chain_status = None\<rparr> :: bot))
     = fst ` set init_chain_entries \<and>
   handle_chitchat_intent (undefined :: llm) [''user_input'' \<mapsto> PStr ''hello'']
     \<lparr>chain_map = map_of init_chain_entries, intent_handlers = Map.empty,
      login = Some (''eva'', ''c1''), sessions = empty_sessions, update_chain_status = None,
      claim_chain_status = None, policy_chain_status = None\<rparr> demo_world =
   (Inl (KeyError ''Chitchat''),
    \<lparr>chain_map = map_of init_chain_entries, intent_handlers = Map.empty,
     login = Some (''eva'', ''c1''), sessions = empty_sessions, update_chain_status = None,
     claim_chain_status = None, policy_chain_status = None\<rparr>, demo_world)"
proof -
  let ?b = "\<lparr>chain_map = map_of init_chain_entries, intent_handlers = Map.empty,
             login = Some (''eva'', ''c1''), sessions = empty_sessions, update_chain_status = None,
             claim_chain_status = None, policy_chain_status = None\<rparr> :: bot"
  have dom: "dom (chain_map ?b) = fst ` set init_chain_entries"
    by (simp add: dom_map_of_conv_image_fst)
  show ?thesis by (rule conjI [OF dom chitchat_handler_key_error [OF dom]])
qed

text \<open>
  The fallback never answers: \<^verbatim>\<open>handle_unknown_intent\<close> always raises (a missing
  \<^verbatim>\<open>"chitchat"\<close> key, or the unpacking of a chain object into two names) and leaves
  the bot and the world as they were, so the second-pass classification of lines 229 to
  248 is never reached.
\<close>

theorem unknown_intent_never_answers:
  "isl (fst (handle_unknown_intent L user_input b w)) \<and>
   snd (handle_unknown_intent L user_input b w) = (b, w)"
  by (simp add: handle_unknown_intent_def get_chain_def split: option.splits)

end
