(* ===== verification/Conversation.thy ===== *)
theory Conversation
  imports Bot
begin

text \<open>
  A conversation: the turns \<^verbatim>\<open>MainChatbot.process_user_input\<close> runs one after the
  other on the same bot and the same store, each with its own model answers and input.
  It is given twice: as the step relation \<open>conversation\<close>, whose states are the pairs of
  bot and world a conversation can reach, and as the executable driver
  \<open>run_conversation\<close> over a list of turns.  The theory also names what the store and
  the session memory keep across turns: \<open>logged_step\<close> (every change of the tables
  is one logged \<^verbatim>\<open>UPDATE\<close>), \<open>same_but_status\<close> (only the status column
  changes) and \<open>status_of\<close> (the status a lookup by id sees).
\<close>

section \<open>What a turn may do to the store\<close>

definition claim_skeleton :: "claim_row \<Rightarrow> int \<times> int \<times> int \<times> string" where
  "claim_skeleton c = (cl_claim_id c, cl_policy_id c, cl_user_id c, cl_claim_type c)"

text \<open>Two stores that differ at most in the \<^verbatim>\<open>status\<close> column of \<^verbatim>\<open>Claims\<close>.\<close>

definition same_but_status :: "database \<Rightarrow> database \<Rightarrow> bool" where
  "same_but_status d d' \<longleftrightarrow>
     map claim_skeleton (claims d') = map claim_skeleton (claims d) \<and>
     policies d' = policies d \<and> clients d' = clients d \<and> employees d' = employees d"

text \<open>The status of a claim as \<^verbatim>\<open>SELECT status FROM Claims WHERE claim_id = ?\<close> sees it.\<close>

definition status_of :: "database \<Rightarrow> int \<Rightarrow> string option" where
  "status_of d i = map_option cl_status (find (\<lambda>c. cl_claim_id c = i) (claims d))"

text \<open>
  One step of the world is logged when its statements are appended to the log, at most
  one of them writes, the tables are either unchanged or changed by the one
  \<^verbatim>\<open>UPDATE\<close> among those statements, and it leaves at most one more connection
  open than it found.
\<close>

definition logged_step :: "world \<Rightarrow> world \<Rightarrow> bool" where
  "logged_step w w' \<longleftrightarrow>
     (\<exists>new. sql_log w' = sql_log w @ new \<and> length (filter (\<lambda>s. \<not> is_select s) new) \<le> 1 \<and>
            (db w' = db w \<or> (\<exists>s i. UpdateClaimStatus s i \<in> set new \<and> db w' = set_claim_status i s (db w)))) \<and>
     conns w \<le> conns w' \<and> conns w' \<le> Suc (conns w)"

section \<open>Conversations\<close>

text \<open>The bot and world \<open>(b', w')\<close> are reached from \<open>(b, w)\<close> by a sequence of turns.\<close>

inductive conversation :: "bot \<Rightarrow> world \<Rightarrow> bot \<Rightarrow> world \<Rightarrow> bool" where
  finish: "conversation b w b w"
| turn: "process_user_input L d b w = (r, b1, w1) \<Longrightarrow> conversation b1 w1 b' w' \<Longrightarrow>
         conversation b w b' w'"

text \<open>The driver: run the turns in order and collect their results.\<close>

fun run_conversation :: "(llm \<times> pydict) list \<Rightarrow> bot \<Rightarrow> world \<Rightarrow> (exn + pyval) list \<times> bot \<times> world" where
  "run_conversation [] b w = ([], b, w)"
| "run_conversation ((L, d) # ts) b w =
     (case process_user_input L d b w of
        (r, b1, w1) \<Rightarrow> (case run_conversation ts b1 w1 of (rs, b', w') \<Rightarrow> (r # rs, b', w')))"

inductive_cases conversation_turnE: "conversation b w b' w'"

section \<open>Lemmas\<close>

subsection \<open>The store\<close>

lemma same_but_status_refl [simp]: "same_but_status d d"
  by (simp add: same_but_status_def)

lemma same_but_status_trans:
  "same_but_status d1 d2 \<Longrightarrow> same_but_status d2 d3 \<Longrightarrow> same_but_status d1 d3"
  by (simp add: same_but_status_def)

lemma same_but_status_set [simp]: "same_but_status d (set_claim_status i s d)"
  by (simp add: same_but_status_def set_claim_status_def comp_def claim_skeleton_def)

lemma same_but_status_db_wf:
  assumes "same_but_status d d'" and "db_wf d"
  shows "db_wf d'"
proof -
  have "map cl_claim_id (claims d') = map cl_claim_id (claims d)"
  proof -
    have ids: "map cl_claim_id xs = map fst (map claim_skeleton xs)" for xs
      by (simp add: claim_skeleton_def comp_def)
    from assms(1) have "map fst (map claim_skeleton (claims d')) = map fst (map claim_skeleton (claims d))"
      by (simp add: same_but_status_def)
    then show ?thesis by (simp only: ids)
  qed
  with assms show ?thesis by (simp add: same_but_status_def db_wf_def)
qed

lemma find_set_status_other:
  "j \<noteq> i \<Longrightarrow>
   find (\<lambda>c. cl_claim_id c = i) (map (\<lambda>c. if cl_claim_id c = j then c\<lparr>cl_status := s\<rparr> else c) cs) =
   find (\<lambda>c. cl_claim_id c = i) cs"
  by (induction cs) auto

lemma find_set_status_same:
  "map_option cl_status
     (find (\<lambda>c. cl_claim_id c = i) (map (\<lambda>c. if cl_claim_id c = i then c\<lparr>cl_status := s\<rparr> else c) cs)) =
   map_option (\<lambda>_. s) (find (\<lambda>c. cl_claim_id c = i) cs)"
  by (induction cs) auto

lemma status_of_set_other [simp]:
  "j \<noteq> i \<Longrightarrow> status_of (set_claim_status j s d) i = status_of d i"
  by (simp add: status_of_def set_claim_status_def find_set_status_other)

lemma status_of_set_same:
  "status_of (set_claim_status i s d) i = map_option (\<lambda>_. s) (status_of d i)"
  by (simp add: status_of_def set_claim_status_def find_set_status_same option.map_comp comp_def)

lemma logged_step_refl [simp]: "logged_step w w"
  by (auto simp add: logged_step_def)

lemma logged_step_frame:
  "sql_log w1 = sql_log w \<Longrightarrow> db w1 = db w \<Longrightarrow> conns w1 = conns w \<Longrightarrow> logged_step w1 w2 \<Longrightarrow>
   logged_step w w2"
  by (simp add: logged_step_def)

lemma logged_step_log: "logged_step w w' \<Longrightarrow> prefix (sql_log w) (sql_log w')"
  by (auto simp add: logged_step_def)

lemma logged_step_conns: "logged_step w w' \<Longrightarrow> conns w \<le> conns w' \<and> conns w' \<le> Suc (conns w)"
  by (simp add: logged_step_def)

lemma logged_step_same_but_status: "logged_step w w' \<Longrightarrow> same_but_status (db w) (db w')"
  by (auto simp add: logged_step_def)

subsection \<open>One turn\<close>

lemma selects_no_write: "list_all is_select xs \<Longrightarrow> filter (\<lambda>s. \<not> is_select s) xs = []"
  by (induction xs) auto

lemma logged_step_update_invoke:
  "logged_step w (snd (snd (update_claim_status_invoke ex rs d st w)))"
  by (auto simp add: logged_step_def update_invoke_world split: sum.splits)

lemma logged_step_claim_info:
  "logged_step w (snd (snd (get_claim_info_invoke ex rs d st w)))"
  by (auto simp add: logged_step_def get_claim_info_invoke_eq claim_info_status_world world_simps
                     selects_no_write [OF claim_query_stmts_select] split: sum.splits)

lemma logged_step_policy_info:
  "logged_step w (snd (snd (get_policy_info_invoke ex rs d st w)))"
  by (auto simp add: logged_step_def get_policy_info_invoke_eq policy_info_status_eq world_simps
                     selects_no_write [OF policy_query_stmts_select] split: sum.splits)

lemma logged_step_run_chain:
  "logged_step w (snd (snd (run_chain L c d b w)))"
  by (cases c)
     (simp_all add: run_chain_def prod.case_eq_if logged_step_update_invoke logged_step_claim_info
                    logged_step_policy_info)

lemma invoke_entry_world:
  "\<exists>d'. snd (snd (invoke_entry L e d key b w)) = snd (snd (run_chain L (entry_chain e) d' b w))"
proof (cases e)
  case (Bare c)
  then show ?thesis by (auto simp add: invoke_entry_def)
next
  case (WithHistory c)
  let ?d = "d(''chat_history'' \<mapsto> PMessages (get_session_history (sessions b) key))"
  obtain r b' w' where run: "run_chain L c ?d b w = (r, b', w')"
    by (cases "run_chain L c ?d b w")
  with WithHistory have "snd (snd (invoke_entry L e d key b w)) = snd (snd (run_chain L c ?d b w))"
    by (auto simp add: invoke_entry_def split: sum.splits)
  with WithHistory show ?thesis by auto
qed

lemma logged_step_invoke_entry:
  "logged_step w (snd (snd (invoke_entry L e d key b w)))"
  using invoke_entry_world [of L e d key b w] logged_step_run_chain by metis

lemma logged_step_run_handler:
  "logged_step w (snd (snd (run_handler L h d b w)))"
  by (cases h)
     (auto simp add: handle_update_claim_info_def handle_get_claim_info_def handle_chitchat_intent_def
                     logged_step_invoke_entry split: sum.splits option.splits)

lemma get_user_intent_log_db:
  "sql_log (snd (get_user_intent L d w)) = sql_log w \<and> db (snd (get_user_intent L d w)) = db w \<and>
   conns (snd (get_user_intent L d w)) = conns w"
  by (simp add: get_user_intent_def py_print_def split: sum.splits list.splits route_name.splits)

lemma logged_step_process:
  "logged_step w (snd (snd (process_user_input L d b w)))"
proof -
  obtain r w1 where gi: "get_user_intent L d w = (r, w1)" by (cases "get_user_intent L d w")
  then have "sql_log w1 = sql_log w" "db w1 = db w" "conns w1 = conns w"
    using get_user_intent_log_db [of L d w] by simp_all
  moreover have "logged_step w1 (snd (snd (run_handler L h d b w1)))" for h
    by (rule logged_step_run_handler)
  moreover have "logged_step w1 (snd (snd (handle_unknown_intent L d b w1)))"
    by (simp add: handle_unknown_intent_def split: sum.splits)
  ultimately show ?thesis
    using gi by (auto simp add: process_user_input_def intro: logged_step_frame
                      split: sum.splits bool.splits option.splits)
qed

lemma login_run_handler:
  "login (fst (snd (run_handler L h d b w))) = login b"
  by (cases h)
     (auto simp add: handle_update_claim_info_def handle_get_claim_info_def handle_chitchat_intent_def
                     invoke_entry_frame split: sum.splits option.splits)

lemma login_process:
  "login (fst (snd (process_user_input L d b w))) = login b"
  by (simp add: process_user_input_def login_run_handler appends_to_login_unknown
           split: sum.splits bool.splits prod.splits option.splits)

lemma logged_step_status_change:
  assumes "logged_step w w1" and "status_of (db w1) i \<noteq> status_of (db w) i"
  shows "\<exists>s new. sql_log w1 = sql_log w @ new \<and> status_of (db w1) i = Some s \<and> UpdateClaimStatus s i \<in> set new"
proof -
  obtain new where log: "sql_log w1 = sql_log w @ new"
    and wr: "db w1 = db w \<or> (\<exists>s j. UpdateClaimStatus s j \<in> set new \<and> db w1 = set_claim_status j s (db w))"
    using assms(1) by (auto simp add: logged_step_def)
  from wr assms(2) obtain s j where u: "UpdateClaimStatus s j \<in> set new"
    and d: "db w1 = set_claim_status j s (db w)" by auto
  with assms(2) have "j = i" by (cases "j = i") auto
  with d assms(2) have "status_of (db w1) i = Some s"
    by (cases "status_of (db w) i") (simp_all add: status_of_set_same)
  with log u \<open>j = i\<close> show ?thesis by blast
qed

subsection \<open>What a turn returns\<close>

lemma map_sum_PStr: "map_sum id PStr r = Inr v \<Longrightarrow> \<exists>s. v = PStr s"
  by (cases r) auto

lemma run_chain_str:
  "c \<noteq> ChitChatClassifierChain \<Longrightarrow> fst (run_chain L c d b w) = Inr v \<Longrightarrow> \<exists>s. v = PStr s"
  by (cases c) (auto simp add: run_chain_def prod.case_eq_if dest: map_sum_PStr)

lemma invoke_entry_str:
  assumes "fst (invoke_entry L e d key b w) = Inr v" and "entry_chain e \<noteq> ChitChatClassifierChain"
  shows "\<exists>s. v = PStr s"
proof (cases e)
  case (Bare c)
  with assms show ?thesis by (simp add: invoke_entry_def run_chain_str)
next
  case (WithHistory c)
  let ?d = "d(''chat_history'' \<mapsto> PMessages (get_session_history (sessions b) key))"
  obtain r b' w' where run: "run_chain L c ?d b w = (r, b', w')" by (cases "run_chain L c ?d b w")
  with WithHistory assms(1) have "r = Inr v"
    by (auto simp add: invoke_entry_def split: sum.splits)
  with run WithHistory assms(2) show ?thesis using run_chain_str [of c L ?d b w v] by simp
qed

lemma run_handler_str:
  assumes "chain_map b = map_of init_chain_entries" and "fst (run_handler L h d b w) = Inr v"
  shows "\<exists>s. v = PStr s"
proof (cases h)
  case HandleUpdateClaimInfo
  with assms show ?thesis
    by (auto simp add: handle_update_claim_info_def get_chain_def init_chain_entries_def
             dest: invoke_entry_str split: option.splits)
next
  case HandleGetClaimInfo
  with assms show ?thesis
    by (auto simp add: handle_get_claim_info_def get_chain_def init_chain_entries_def
             dest: invoke_entry_str split: option.splits)
next
  case HandleGetPolicyInfo
  with assms show ?thesis by simp
next
  case HandleChitchatIntent
  with assms show ?thesis
    by (simp add: handle_chitchat_intent_def get_chain_def init_chain_entries_def)
qed

subsection \<open>Conversations\<close>

lemma conversation_log_prefix:
  "conversation b w b' w' \<Longrightarrow> prefix (sql_log w) (sql_log w')"
proof (induction rule: conversation.induct)
  case (turn L d b w r b1 w1 b' w')
  then have "prefix (sql_log w) (sql_log w1)"
    using logged_step_process [of w L d b] logged_step_log by simp
  with turn.IH show ?case by (meson prefix_order.order_trans)
qed simp

lemma conversation_step:
  "process_user_input L d b w = (r, b1, w1) \<Longrightarrow> conversation b w b1 w1"
  by (blast intro: conversation.turn conversation.finish)

lemma run_conversation_conversation:
  "conversation b w (fst (snd (run_conversation ts b w))) (snd (snd (run_conversation ts b w)))"
proof (induction ts arbitrary: b w)
  case Nil
  then show ?case by (simp add: conversation.finish)
next
  case (Cons t ts)
  obtain L d where t: "t = (L, d)" by (cases t)
  obtain r b1 w1 where p: "process_user_input L d b w = (r, b1, w1)"
    by (cases "process_user_input L d b w")
  from Cons.IH [of b1 w1] p t show ?case
    by (auto simp add: prod.case_eq_if intro: conversation.turn)
qed

lemma conversation_run_conversation:
  "conversation b w b' w' \<Longrightarrow> \<exists>ts. snd (run_conversation ts b w) = (b', w')"
proof (induction rule: conversation.induct)
  case (finish b w)
  have "snd (run_conversation [] b w) = (b, w)" by simp
  then show ?case by blast
next
  case (turn L d b w r b1 w1 b' w')
  then obtain ts where "snd (run_conversation ts b1 w1) = (b', w')" by blast
  with turn.hyps have "snd (run_conversation ((L, d) # ts) b w) = (b', w')"
    by (simp add: prod.case_eq_if)
  then show ?case by blast
qed

end
