(* ===== verification/Login.thy ===== *)
theory Login
  imports Store
begin

text \<open>
  \<^verbatim>\<open>src/SecureShield/app_pages/Login.py\<close>: the login page.  Its three helpers read the
  \<^verbatim>\<open>Employees\<close> table through the module-level connection (\<open>check_if_email_exists\<close>,
  \<open>verify_user\<close>, \<open>get_username_by_email\<close>); the form handler \<open>login_submit\<close> checks
  the fields, the e-mail and the password in that order and writes Streamlit's
  \<^verbatim>\<open>session_state\<close>, modelled by the record \<open>page_state\<close>.  The module itself
  never loads: line 6 calls \<^verbatim>\<open>sqlite3.connect\<close> but the file imports
  \<^verbatim>\<open>sqlitecloud\<close>, not \<^verbatim>\<open>sqlite3\<close> (\<open>login_page_load\<close>).  The handler is
  modelled as if the connection existed, to show what the form would do.
\<close>

section \<open>Page state\<close>

datatype notice = StError string | StSuccess string

record page_state =
  ps_logged_in :: "bool option"
  ps_username :: "sqlval option option"
  ps_user_email :: "string option"
  ps_notices :: "notice list"
  ps_page :: "string option"

section \<open>The module and its helpers\<close>

text \<open>Lines 1 to 7: \<^verbatim>\<open>sqlite3\<close> is not a name of the module.\<close>

definition login_page_load :: "exn + unit" where
  "login_page_load = Inl (NameError (''name '' @ single_quoted ''sqlite3'' @ '' is not defined''))"

definition check_if_email_exists :: "string \<Rightarrow> world \<Rightarrow> (exn + bool) \<times> world" where
  "check_if_email_exists email w =
     (case sql_fetchone (SelectEmailByEmail email) w of
        (Inl e, w') \<Rightarrow> (Inl e, w')
      | (Inr r, w') \<Rightarrow> (Inr (r \<noteq> None), w'))"

definition verify_user :: "string \<Rightarrow> string \<Rightarrow> world \<Rightarrow> (exn + sqlval list option) \<times> world" where
  "verify_user email password w = sql_fetchone (SelectEmployee email password) w"

text \<open>\<^verbatim>\<open>result[0] if result else None\<close>: an empty tuple is false.\<close>

definition get_username_by_email :: "string \<Rightarrow> world \<Rightarrow> (exn + sqlval option) \<times> world" where
  "get_username_by_email email w =
     (case sql_fetchone (SelectFirstNameByEmail email) w of
        (Inl e, w') \<Rightarrow> (Inl e, w')
      | (Inr None, w') \<Rightarrow> (Inr None, w')
      | (Inr (Some []), w') \<Rightarrow> (Inr None, w')
      | (Inr (Some (x # _)), w') \<Rightarrow> (Inr (Some x), w'))"

text \<open>Python's truth value of a fetched row.\<close>

definition py_truthy_row :: "sqlval list option \<Rightarrow> bool" where
  "py_truthy_row r = (case r of None \<Rightarrow> False | Some xs \<Rightarrow> xs \<noteq> [])"

definition py_str_username :: "sqlval option \<Rightarrow> string" where
  "py_str_username u = (case u of None \<Rightarrow> ''None'' | Some x \<Rightarrow> py_str_sqlval x)"

definition login_failed :: "string \<Rightarrow> page_state \<Rightarrow> page_state" where
  "login_failed msg ss = ss\<lparr>ps_notices := ps_notices ss @ [StError msg], ps_logged_in := Some False\<rparr>"

text \<open>
  The submitted form (lines 34 to 57).  On success the handler stores the user and then
  calls \<^verbatim>\<open>update_user_conversation_id\<close>, which no module defines: it raises before
  \<^verbatim>\<open>st.switch_page\<close>.
\<close>

definition login_submit :: "string \<Rightarrow> string \<Rightarrow> page_state \<Rightarrow> world \<Rightarrow> (exn + unit) \<times> page_state \<times> world" where
  "login_submit email password ss w =
     (if email = [] \<or> password = [] then (Inr (), login_failed ''Please fill all fields'' ss, w)
      else
        (case check_if_email_exists email w of
           (Inl e, w1) \<Rightarrow> (Inl e, ss, w1)
         | (Inr False, w1) \<Rightarrow> (Inr (), login_failed ''Email not registered'' ss, w1)
         | (Inr True, w1) \<Rightarrow>
             (case verify_user email password w1 of
                (Inl e, w2) \<Rightarrow> (Inl e, ss, w2)
              | (Inr user, w2) \<Rightarrow>
                  if py_truthy_row user then
                    (case get_username_by_email email w2 of
                       (Inl e, w3) \<Rightarrow> (Inl e, ss, w3)
                     | (Inr u, w3) \<Rightarrow>
                         (Inl (NameError (''name '' @ single_quoted ''update_user_conversation_id''
                                          @ '' is not defined'')),
                          ss\<lparr>ps_username := Some u, ps_user_email := Some email, ps_logged_in := Some True,
                             ps_notices := ps_notices ss @ [StSuccess (''Welcome, '' @ py_str_username u @ ''!'')]\<rparr>,
                          w3))
                  else (Inr (), login_failed ''Incorrect password'' ss, w2))))"

definition empty_page_state :: page_state where
  "empty_page_state = \<lparr>ps_logged_in = None, ps_username = None, ps_user_email = None, ps_notices = [],
                        ps_page = None\<rparr>"

section \<open>Lemmas\<close>

lemma find_Some_mem: "find P xs = Some x \<Longrightarrow> x \<in> set xs \<and> P x"
  by (induction xs) (auto split: if_splits)

lemma verify_user_truthy:
  "fst (verify_user e p w) = Inr u \<Longrightarrow> py_truthy_row u \<Longrightarrow>
   \<exists>r\<in>set (employees (db w)). emp_email r = e \<and> emp_password r = p"
  by (cases "read_fault w")
     (auto simp add: verify_user_def sql_fetchone_eq first_row_map_filter py_truthy_row_def
           split: option.splits dest!: find_Some_mem)

lemma check_if_email_exists_world:
  "snd (check_if_email_exists e w) = w\<lparr>sql_log := sql_log w @ [SelectEmailByEmail e]\<rparr>"
  by (simp add: check_if_email_exists_def sql_fetchone_eq split: option.splits)

lemma verify_user_world:
  "snd (verify_user e p w) = w\<lparr>sql_log := sql_log w @ [SelectEmployee e p]\<rparr>"
  by (simp add: verify_user_def sql_fetchone_eq split: option.splits)

lemma get_username_by_email_world:
  "snd (get_username_by_email e w) = w\<lparr>sql_log := sql_log w @ [SelectFirstNameByEmail e]\<rparr>"
  by (simp add: get_username_by_email_def sql_fetchone_eq split: option.splits list.splits)

lemmas login_helper_world = check_if_email_exists_world verify_user_world get_username_by_email_world

lemma login_submit_db:
  "db (snd (snd (login_submit e p ss w))) = db w"
  by (simp add: login_submit_def prod.case_eq_if login_helper_world split: sum.split bool.split)

lemma login_submit_logged_in:
  assumes "ps_logged_in (fst (snd (login_submit email password ss w))) = Some True"
    and "ps_logged_in ss \<noteq> Some True"
  shows "\<exists>u. fst (verify_user email password (snd (check_if_email_exists email w))) = Inr u \<and> py_truthy_row u"
proof -
  obtain c w1 where c: "check_if_email_exists email w = (c, w1)" by (cases "check_if_email_exists email w")
  obtain v w2 where v: "verify_user email password w1 = (v, w2)" by (cases "verify_user email password w1")
  obtain g w3 where g: "get_username_by_email email w2 = (g, w3)" by (cases "get_username_by_email email w2")
  from assms c v g show ?thesis
    by (auto simp add: login_submit_def login_failed_def split: if_splits sum.splits bool.splits)
qed

lemma login_submit_logged_in_email:
  assumes "ps_logged_in (fst (snd (login_submit email password ss w))) = Some True"
    and "ps_logged_in ss \<noteq> Some True"
  shows "ps_user_email (fst (snd (login_submit email password ss w))) = Some email"
proof -
  obtain c w1 where c: "check_if_email_exists email w = (c, w1)" by (cases "check_if_email_exists email w")
  obtain v w2 where v: "verify_user email password w1 = (v, w2)" by (cases "verify_user email password w1")
  obtain g w3 where g: "get_username_by_email email w2 = (g, w3)" by (cases "get_username_by_email email w2")
  from assms c v g show ?thesis
    by (auto simp add: login_submit_def login_failed_def split: if_splits sum.splits bool.splits)
qed

lemma login_submit_read_fault:
  "read_fault (snd (snd (login_submit e p ss w))) = read_fault w"
  by (simp add: login_submit_def prod.case_eq_if login_helper_world split: sum.split bool.split)

lemma login_submit_success_logged_in:
  assumes "read_fault w = None" and "email \<noteq> []" and "password \<noteq> []"
    and "r \<in> set (employees (db w))" and "emp_email r = email" and "emp_password r = password"
  shows "ps_logged_in (fst (snd (login_submit email password ss w))) = Some True"
proof -
  have "find (\<lambda>r. emp_email r = email \<and> emp_password r = password) (employees (db w)) \<noteq> None"
    "find (\<lambda>r. emp_email r = email) (employees (db w)) \<noteq> None"
    using assms(4-6) by (auto simp add: find_None_iff)
  with assms(1-3) show ?thesis
    by (auto simp add: login_submit_def check_if_email_exists_def verify_user_def get_username_by_email_def
                       sql_fetchone_eq first_row_map_filter py_truthy_row_def split: option.splits list.splits)
qed

section \<open>Properties\<close>

text \<open>
  C27.  The form logs a user in only with credentials of the \<^verbatim>\<open>Employees\<close> table: if a
  submission sets \<^verbatim>\<open>logged_in\<close> to true, some employee row has exactly the submitted
  e-mail and password.
\<close>

theorem login_only_with_credentials:
  assumes "login_submit email password ss w = (r, ss', w')"
    and "ps_logged_in ss' = Some True" and "ps_logged_in ss \<noteq> Some True"
  shows "\<exists>e\<in>set (employees (db w)). emp_email e = email \<and> emp_password e = password"
proof -
  from assms obtain u where "fst (verify_user email password (snd (check_if_email_exists email w))) = Inr u"
      and "py_truthy_row u"
    using login_submit_logged_in [of email password ss w] by auto
  then have "\<exists>e\<in>set (employees (db (snd (check_if_email_exists email w)))).
               emp_email e = email \<and> emp_password e = password"
    by (rule verify_user_truthy)
  then show ?thesis by (simp add: check_if_email_exists_world)
qed

theorem login_only_with_credentials_witness:
  "ps_logged_in (fst (snd (login_submit ''eva@secureshield.pt'' ''pw'' empty_page_state demo_world))) = Some True \<and>
   ps_logged_in empty_page_state \<noteq> Some True \<and>
   (\<exists>e\<in>set (employees (db demo_world)). emp_email e = ''eva@secureshield.pt'' \<and> emp_password e = ''pw'')"
proof -
  let ?l = "login_submit ''eva@secureshield.pt'' ''pw'' empty_page_state demo_world"
  have l: "?l = (fst ?l, fst (snd ?l), snd (snd ?l))" by simp
  have t: "ps_logged_in (fst (snd ?l)) = Some True"
    by (simp add: login_submit_def check_if_email_exists_def verify_user_def get_username_by_email_def
                  sql_fetchone_eq first_row_def demo_world_def demo_db_def py_truthy_row_def)
  have e: "ps_logged_in empty_page_state \<noteq> Some True" by (simp add: empty_page_state_def)
  from t e login_only_with_credentials [OF l t e] show ?thesis by blast
qed

text \<open>
  C28.  With a matching employee row and a store that does not fail, a submission reads
  the three queries in order, stores the first name of the first row with that e-mail,
  the e-mail and \<^verbatim>\<open>logged_in\<close>, shows the welcome, and then raises
  \<^verbatim>\<open>NameError\<close> on \<^verbatim>\<open>update_user_conversation_id\<close>: the page never reaches
  \<^verbatim>\<open>st.switch_page\<close>.
\<close>

theorem login_success_raises_name_error:
  assumes "read_fault w = None" and "email \<noteq> []" and "password \<noteq> []"
    and "find (\<lambda>r. emp_email r = email \<and> emp_password r = password) (employees (db w)) \<noteq> None"
    and "find (\<lambda>r. emp_email r = email) (employees (db w)) = Some f"
  shows "login_submit email password ss w =
           (Inl (NameError (''name '' @ single_quoted ''update_user_conversation_id'' @ '' is not defined'')),
            ss\<lparr>ps_username := Some (Some (VText (emp_first_name f))), ps_user_email := Some email,
               ps_logged_in := Some True,
               ps_notices := ps_notices ss @ [StSuccess (''Welcome, '' @ emp_first_name f @ ''!'')]\<rparr>,
            w\<lparr>sql_log := sql_log w @ [SelectEmailByEmail email, SelectEmployee email password,
                                     SelectFirstNameByEmail email]\<rparr>)"
  using assms
  by (auto simp add: login_submit_def check_if_email_exists_def verify_user_def get_username_by_email_def
                     sql_fetchone_eq first_row_map_filter py_truthy_row_def py_str_username_def)

theorem login_success_raises_name_error_witness:
  "login_submit ''eva@secureshield.pt'' ''pw'' empty_page_state demo_world =
     (Inl (NameError (''name '' @ single_quoted ''update_user_conversation_id'' @ '' is not defined'')),
      empty_page_state\<lparr>ps_username := Some (Some (VText ''Eva'')), ps_user_email := Some ''eva@secureshield.pt'',
                        ps_logged_in := Some True, ps_notices := [StSuccess ''Welcome, Eva!'']\<rparr>,
      demo_world\<lparr>sql_log := [SelectEmailByEmail ''eva@secureshield.pt'', SelectEmployee ''eva@secureshield.pt'' ''pw'',
                             SelectFirstNameByEmail ''eva@secureshield.pt'']\<rparr>)"
proof -
  let ?f = "\<lparr>emp_email = ''eva@secureshield.pt'', emp_password = ''pw'', emp_first_name = ''Eva''\<rparr>"
  have r: "read_fault demo_world = None" by (simp add: demo_world_def)
  have m: "find (\<lambda>r. emp_email r = ''eva@secureshield.pt'' \<and> emp_password r = ''pw'') (employees (db demo_world)) \<noteq> None"
    by (simp add: demo_world_def demo_db_def)
  have f: "find (\<lambda>r. emp_email r = ''eva@secureshield.pt'') (employees (db demo_world)) = Some ?f"
    by (simp add: demo_world_def demo_db_def)
  show ?thesis
    using login_success_raises_name_error [OF r _ _ m f, of empty_page_state]
    by (simp add: empty_page_state_def demo_world_def)
qed

text \<open>
  Whatever is submitted and whatever the store does, the form never changes the
  tables and never switches to the chat page.
\<close>

theorem login_never_switches_page:
  "db (snd (snd (login_submit email password ss w))) = db w \<and>
   ps_page (fst (snd (login_submit email password ss w))) = ps_page ss"
  by (rule conjI [OF login_submit_db])
     (simp add: login_submit_def prod.case_eq_if login_failed_def split: sum.split bool.split)

end
