(* ===== verification/App.thy ===== *)
theory App
  imports Login
begin

text \<open>
  \<^verbatim>\<open>src/app.py\<close>: the Streamlit entry point, run again on every interaction.  It
  sets \<^verbatim>\<open>logged_in\<close> to false when the key is missing, offers the chat page alone to a
  logged-in user and the chat and login pages otherwise, runs the selected page, and
  then draws the sidebar, whose logout button clears \<^verbatim>\<open>logged_in\<close> and
  \<^verbatim>\<open>username\<close>.  The session state is the record \<open>page_state\<close> of the login page;
  it survives a page that raises, with the assignments made before the exception.

  The pages are scripts: \<open>run_page\<close> runs the login page, whose module load is a
  parameter (\<open>login_page_load\<close> as shipped, \<open>Inr ()\<close> with its import fixed), and
  the chat page, which does not compile (\<^verbatim>\<open>app_pages/Chatbot.py\<close> line 41).  The
  interactions of a session are the inductive \<open>ui_reachable\<close>.
\<close>

section \<open>Pages and one run of the app\<close>

datatype page = ChatbotPage | LoginPage

text \<open>What the user does during one run: the page picked in the navigation, the login
  form if it is submitted, and whether the logout button is clicked.\<close>

record ui_input =
  ui_page :: page
  ui_form :: "(string \<times> string) option"
  ui_logout :: bool

text \<open>\<^verbatim>\<open>check_auth\<close> of \<^verbatim>\<open>app_pages/Chatbot.py\<close>, lines 9 and 10.\<close>

definition check_auth :: "page_state \<Rightarrow> bool" where
  "check_auth ss \<longleftrightarrow> ps_logged_in ss = Some True"

text \<open>Lines 19 to 21.\<close>

definition init_logged_in :: "page_state \<Rightarrow> page_state" where
  "init_logged_in ss = (if ps_logged_in ss = None then ss\<lparr>ps_logged_in := Some False\<rparr> else ss)"

text \<open>Lines 24 to 38.\<close>

definition app_pages :: "page_state \<Rightarrow> page list" where
  "app_pages ss = (if ps_logged_in ss = Some True then [ChatbotPage] else [ChatbotPage, LoginPage])"

text \<open>\<^verbatim>\<open>st.navigation(pages)\<close>: the page asked for when it is offered, else the first.\<close>

definition selected_page :: "page list \<Rightarrow> page \<Rightarrow> page" where
  "selected_page pages p = (if p \<in> set pages then p else hd pages)"

text \<open>The chat page does not compile: \<^verbatim>\<open>load_dotenv()\<close> on line 41 is indented by five
  spaces, after a block at twelve, which matches none of the enclosing levels (0, 4, 8).\<close>

definition chatbot_page_run :: "page_state \<Rightarrow> world \<Rightarrow> (exn + unit) \<times> page_state \<times> world" where
  "chatbot_page_run ss w =
     (Inl (IndentationError ''unindent does not match any outer indentation level''), ss, w)"

text \<open>The login page: its module body, then the form if it was submitted.\<close>

definition login_page_run ::
  "exn + unit \<Rightarrow> ui_input \<Rightarrow> page_state \<Rightarrow> world \<Rightarrow> (exn + unit) \<times> page_state \<times> world" where
  "login_page_run load inp ss w =
     (case load of
        Inl e \<Rightarrow> (Inl e, ss, w)
      | Inr _ \<Rightarrow>
          (case ui_form inp of
             None \<Rightarrow> (Inr (), ss, w)
           | Some (email, password) \<Rightarrow> login_submit email password ss w))"

fun run_page :: "exn + unit \<Rightarrow> page \<Rightarrow> ui_input \<Rightarrow> page_state \<Rightarrow> world \<Rightarrow> (exn + unit) \<times> page_state \<times> world" where
  "run_page load ChatbotPage inp ss w = chatbot_page_run ss w"
| "run_page load LoginPage inp ss w = login_page_run load inp ss w"

text \<open>The sidebar, lines 47 to 56: drawn only when the page returned.\<close>

definition sidebar_logout :: "ui_input \<Rightarrow> page_state \<Rightarrow> page_state" where
  "sidebar_logout inp ss =
     (if ps_logged_in ss = Some True \<and> ui_logout inp
      then ss\<lparr>ps_logged_in := Some False, ps_username := Some None\<rparr> else ss)"

definition app_run :: "exn + unit \<Rightarrow> ui_input \<Rightarrow> page_state \<Rightarrow> world \<Rightarrow> (exn + unit) \<times> page_state \<times> world" where
  "app_run load inp ss w =
     (let ss1 = init_logged_in ss;
          pg = selected_page (app_pages ss1) (ui_page inp)
      in case run_page load pg inp ss1 w of
           (Inl e, ss2, w2) \<Rightarrow> (Inl e, ss2, w2)
         | (Inr u, ss2, w2) \<Rightarrow> (Inr u, sidebar_logout inp ss2, w2))"

section \<open>A session\<close>

text \<open>The session states reachable from a fresh session on the store \<open>w0\<close>.\<close>

inductive ui_reachable :: "exn + unit \<Rightarrow> world \<Rightarrow> page_state \<times> world \<Rightarrow> bool"
  for load :: "exn + unit" and w0 :: world where
  start: "ui_reachable load w0 (empty_page_state, w0)"
| run: "ui_reachable load w0 (ss, w) \<Longrightarrow> app_run load inp ss w = (r, ss', w') \<Longrightarrow>
        ui_reachable load w0 (ss', w')"

text \<open>
  What a session keeps with the login import fixed: the tables and the read fault of the
  store, and a logged-in session carries the e-mail of an employee row.
\<close>

definition session_inv :: "world \<Rightarrow> page_state \<times> world \<Rightarrow> bool" where
  "session_inv w0 s \<longleftrightarrow>
     db (snd s) = db w0 \<and> read_fault (snd s) = read_fault w0 \<and>
     (check_auth (fst s) \<longrightarrow> (\<exists>e\<in>set (employees (db w0)). ps_user_email (fst s) = Some (emp_email e)))"

section \<open>Lemmas\<close>

lemma init_logged_in_auth [simp]: "ps_logged_in (init_logged_in ss) = Some True \<longleftrightarrow> ps_logged_in ss = Some True"
  by (simp add: init_logged_in_def)

lemma init_logged_in_email [simp]: "ps_user_email (init_logged_in ss) = ps_user_email ss"
  by (simp add: init_logged_in_def)

lemma sidebar_logout_auth:
  "ps_logged_in (sidebar_logout inp ss) = Some True \<Longrightarrow> ps_logged_in ss = Some True \<and>
   ps_user_email (sidebar_logout inp ss) = ps_user_email ss"
  by (simp add: sidebar_logout_def split: if_splits)

text \<open>A logged-in user is only offered the chat page, which raises: nothing changes.\<close>

lemma app_run_logged_in:
  "ps_logged_in ss = Some True \<Longrightarrow> app_run load inp ss w = (Inl (IndentationError ''unindent does not match any outer indentation level''), ss, w)"
  by (simp add: app_run_def app_pages_def selected_page_def init_logged_in_def chatbot_page_run_def)

lemma app_run_not_logged_in:
  assumes "ps_logged_in ss \<noteq> Some True"
  shows "app_run (Inr ()) inp ss w =
    (case ui_page inp of
       ChatbotPage \<Rightarrow> (Inl (IndentationError ''unindent does not match any outer indentation level''), init_logged_in ss, w)
     | LoginPage \<Rightarrow>
         (case ui_form inp of
            None \<Rightarrow> (Inr (), sidebar_logout inp (init_logged_in ss), w)
          | Some (email, password) \<Rightarrow>
              (case login_submit email password (init_logged_in ss) w of
                 (Inl e, ss2, w2) \<Rightarrow> (Inl e, ss2, w2)
               | (Inr u, ss2, w2) \<Rightarrow> (Inr u, sidebar_logout inp ss2, w2))))"
  using assms
  by (cases "ui_page inp")
     (simp_all add: app_run_def Let_def app_pages_def selected_page_def chatbot_page_run_def
                    login_page_run_def split: option.split)

lemma session_inv_start: "session_inv w0 (empty_page_state, w0)"
  by (simp add: session_inv_def check_auth_def empty_page_state_def)

lemma session_inv_login:
  assumes inv: "session_inv w0 (ss, w)" and ne: "ps_logged_in ss \<noteq> Some True"
    and run: "login_submit email password (init_logged_in ss) w = (r, ss2, w2)"
  shows "session_inv w0 (ss2, w2)"
proof -
  have dbw: "db w2 = db w0" and rf: "read_fault w2 = read_fault w0"
    using inv login_submit_db [of email password "init_logged_in ss" w]
          login_submit_read_fault [of email password "init_logged_in ss" w] run
    by (simp_all add: session_inv_def)
  have "\<exists>e\<in>set (employees (db w0)). ps_user_email ss2 = Some (emp_email e)" if auth: "check_auth ss2"
  proof -
    have li: "ps_logged_in (fst (snd (login_submit email password (init_logged_in ss) w))) = Some True"
      using auth run by (simp add: check_auth_def)
    have ne1: "ps_logged_in (init_logged_in ss) \<noteq> Some True" using ne by simp
    obtain u where u: "fst (verify_user email password (snd (check_if_email_exists email w))) = Inr u"
        and t: "py_truthy_row u"
      using login_submit_logged_in [OF li ne1] by blast
    have "\<exists>e\<in>set (employees (db (snd (check_if_email_exists email w)))).
            emp_email e = email \<and> emp_password e = password"
      using u t by (rule verify_user_truthy)
    then obtain e where "e \<in> set (employees (db w))" "emp_email e = email"
      by (auto simp add: check_if_email_exists_world)
    moreover have "ps_user_email ss2 = Some email"
      using login_submit_logged_in_email [OF li ne1] run by simp
    ultimately show ?thesis using inv by (auto simp add: session_inv_def)
  qed
  with dbw rf show ?thesis by (simp add: session_inv_def)
qed

lemma session_inv_step:
  assumes inv: "session_inv w0 (ss, w)" and run: "app_run (Inr ()) inp ss w = (r, ss', w')"
  shows "session_inv w0 (ss', w')"
proof (cases "ps_logged_in ss = Some True")
  case True
  with inv run show ?thesis by (simp add: app_run_logged_in)
next
  case ne: False
  have i1: "session_inv w0 (init_logged_in ss, w)"
    using inv ne by (simp add: session_inv_def check_auth_def)
  have side: "session_inv w0 (sidebar_logout inp ss2, w2)" if "session_inv w0 (ss2, w2)" for ss2 w2
    using that sidebar_logout_auth [of inp ss2] by (auto simp add: session_inv_def check_auth_def)
  show ?thesis
  proof (cases "ui_page inp")
    case ChatbotPage
    with run i1 show ?thesis by (simp add: app_run_not_logged_in [OF ne])
  next
    case LoginPage
    show ?thesis
    proof (cases "ui_form inp")
      case None
      with LoginPage run side [OF i1] show ?thesis by (simp add: app_run_not_logged_in [OF ne])
    next
      case (Some f)
      obtain email password where f: "f = (email, password)" by (cases f)
      obtain r2 ss2 w2 where l: "login_submit email password (init_logged_in ss) w = (r2, ss2, w2)"
        by (cases "login_submit email password (init_logged_in ss) w")
      have s2: "session_inv w0 (ss2, w2)" using session_inv_login [OF inv ne l] .
      from LoginPage Some f l run have
        "(ss', w') = (case r2 of Inl e \<Rightarrow> (ss2, w2) | Inr u \<Rightarrow> (sidebar_logout inp ss2, w2))"
        by (auto simp add: app_run_not_logged_in [OF ne] split: sum.splits)
      with s2 side show ?thesis by (auto split: sum.splits)
    qed
  qed
qed

lemma ui_reachable_session_inv: "ui_reachable (Inr ()) w0 s \<Longrightarrow> session_inv w0 s"
proof (induction rule: ui_reachable.induct)
  case start
  show ?case by (rule session_inv_start)
next
  case (run ss w inp r ss' w')
  then show ?case by (blast intro: session_inv_step)
qed

lemma app_run_shipped:
  assumes "ps_logged_in ss \<noteq> Some True"
  shows "app_run login_page_load inp ss w =
           (Inl (case ui_page inp of
                   ChatbotPage \<Rightarrow> IndentationError ''unindent does not match any outer indentation level''
                 | LoginPage \<Rightarrow> NameError (''name '' @ single_quoted ''sqlite3'' @ '' is not defined'')),
            init_logged_in ss, w)"
  using assms
  by (cases "ui_page inp")
     (simp_all add: app_run_def Let_def app_pages_def selected_page_def chatbot_page_run_def
                    login_page_run_def login_page_load_def)

section \<open>Properties\<close>

text \<open>
  C34.  As shipped, the web interface never logs anyone in and never touches the store:
  in every state a session can reach, \<^verbatim>\<open>check_auth\<close> is false and the store is the one
  the session started with, because the login page raises \<^verbatim>\<open>NameError\<close> when it loads
  and the chat page does not compile.
\<close>

theorem shipped_ui_never_authenticates:
  assumes "ui_reachable login_page_load w0 s"
  shows "\<not> check_auth (fst s) \<and> snd s = w0"
  using assms
proof (induction rule: ui_reachable.induct)
  case start
  show ?case by (simp add: check_auth_def empty_page_state_def)
next
  case (run ss w inp r ss' w')
  then have "ps_logged_in ss \<noteq> Some True" by (simp add: check_auth_def)
  with run show ?case by (auto simp add: app_run_shipped check_auth_def)
qed

theorem shipped_ui_never_authenticates_witness:
  "ui_reachable login_page_load demo_world (init_logged_in empty_page_state, demo_world) \<and>
   \<not> check_auth (init_logged_in empty_page_state)"
proof -
  let ?inp = "\<lparr>ui_page = LoginPage, ui_form = Some (''eva@secureshield.pt'', ''pw''), ui_logout = False\<rparr>"
  have "app_run login_page_load ?inp empty_page_state demo_world =
          (Inl (NameError (''name '' @ single_quoted ''sqlite3'' @ '' is not defined'')),
           init_logged_in empty_page_state, demo_world)"
    by (simp add: app_run_shipped empty_page_state_def)
  then have r: "ui_reachable login_page_load demo_world (init_logged_in empty_page_state, demo_world)"
    by (rule ui_reachable.run [OF ui_reachable.start])
  from r shipped_ui_never_authenticates [OF r] show ?thesis by simp
qed

text \<open>
  C35.  With the login page's import fixed, every state a session can reach keeps the
  tables, and a session that \<^verbatim>\<open>check_auth\<close> accepts carries the e-mail of an
  employee row: only a real account is ever logged in.
\<close>

theorem login_session_authenticated:
  assumes "ui_reachable (Inr ()) w0 s"
  shows "db (snd s) = db w0 \<and>
         (check_auth (fst s) \<longrightarrow> (\<exists>e\<in>set (employees (db w0)). ps_user_email (fst s) = Some (emp_email e)))"
  using ui_reachable_session_inv [OF assms] by (simp add: session_inv_def)

theorem login_session_authenticated_witness:
  "check_auth (fst (snd (app_run (Inr ())
      \<lparr>ui_page = LoginPage, ui_form = Some (''eva@secureshield.pt'', ''pw''), ui_logout = False\<rparr>
      empty_page_state demo_world))) \<and>
   (\<exists>e\<in>set (employees (db demo_world)).
      ps_user_email (fst (snd (app_run (Inr ())
        \<lparr>ui_page = LoginPage, ui_form = Some (''eva@secureshield.pt'', ''pw''), ui_logout = False\<rparr>
        empty_page_state demo_world))) = Some (emp_email e))"
proof -
  let ?a = "app_run (Inr ())
      \<lparr>ui_page = LoginPage, ui_form = Some (''eva@secureshield.pt'', ''pw''), ui_logout = False\<rparr>
      empty_page_state demo_world"
  have "?a = (fst ?a, fst (snd ?a), snd (snd ?a))" by simp
  then have r: "ui_reachable (Inr ()) demo_world (fst (snd ?a), snd (snd ?a))"
    by (rule ui_reachable.run [OF ui_reachable.start])
  have ne: "ps_logged_in empty_page_state \<noteq> Some True" by (simp add: empty_page_state_def)
  have c: "check_auth (fst (snd ?a))"
    by (simp add: app_run_not_logged_in [OF ne] login_submit_def check_if_email_exists_def verify_user_def
                  get_username_by_email_def sql_fetchone_eq first_row_def demo_world_def demo_db_def
                  py_truthy_row_def check_auth_def)
  from c login_session_authenticated [OF r] show ?thesis by simp
qed

text \<open>
  C36.  With the login page's import fixed, logging in is always possible: from every
  state a session can reach, if the store has an employee row with a non-empty e-mail
  and password and reads do not fail, one run of the app on the login page with those
  credentials leaves \<^verbatim>\<open>check_auth\<close> true (even though the handler then raises).
\<close>

theorem login_always_possible:
  assumes "ui_reachable (Inr ()) w0 s" and "read_fault w0 = None"
    and "e \<in> set (employees (db w0))" and "emp_email e \<noteq> []" and "emp_password e \<noteq> []"
  shows "check_auth (fst s) \<or>
         check_auth (fst (snd (app_run (Inr ())
           \<lparr>ui_page = LoginPage, ui_form = Some (emp_email e, emp_password e), ui_logout = False\<rparr> (fst s) (snd s))))"
proof (cases "check_auth (fst s)")
  case False
  obtain ss w where s: "s = (ss, w)" by (cases s)
  have inv: "db w = db w0" "read_fault w = read_fault w0"
    using ui_reachable_session_inv [OF assms(1)] s by (simp_all add: session_inv_def)
  have ne: "ps_logged_in ss \<noteq> Some True" using False s by (simp add: check_auth_def)
  let ?inp = "\<lparr>ui_page = LoginPage, ui_form = Some (emp_email e, emp_password e), ui_logout = False\<rparr>"
  obtain r2 ss2 w2 where l: "login_submit (emp_email e) (emp_password e) (init_logged_in ss) w = (r2, ss2, w2)"
    by (cases "login_submit (emp_email e) (emp_password e) (init_logged_in ss) w")
  have "ps_logged_in (fst (snd (login_submit (emp_email e) (emp_password e) (init_logged_in ss) w))) = Some True"
    using assms(2-5) inv by (intro login_submit_success_logged_in) simp_all
  with l have "ps_logged_in ss2 = Some True" by simp
  then have "check_auth (fst (snd (app_run (Inr ()) ?inp ss w)))"
    using l by (cases r2) (simp_all add: app_run_not_logged_in [OF ne] sidebar_logout_def check_auth_def)
  with s show ?thesis by simp
qed simp

theorem login_always_possible_witness:
  "check_auth (fst (snd (app_run (Inr ())
      \<lparr>ui_page = LoginPage, ui_form = Some (''eva@secureshield.pt'', ''pw''), ui_logout = False\<rparr>
      empty_page_state demo_world)))"
proof -
  let ?e = "\<lparr>emp_email = ''eva@secureshield.pt'', emp_password = ''pw'', emp_first_name = ''Eva''\<rparr>"
  have rf: "read_fault demo_world = None" by (simp add: demo_world_def)
  have e: "?e \<in> set (employees (db demo_world))" by (simp add: demo_world_def demo_db_def)
  have n1: "emp_email ?e \<noteq> []" and n2: "emp_password ?e \<noteq> []" by simp_all
  have ne: "\<not> check_auth empty_page_state" by (simp add: check_auth_def empty_page_state_def)
  from login_always_possible [OF ui_reachable.start rf e n1 n2] ne show ?thesis by simp
qed

end
