(* ===== verification/Streaming.thy ===== *)
theory Streaming
  imports Prelude
begin

text \<open>
  \<^verbatim>\<open>src/SecureShield/app_pages/Chatbot.py\<close>, lines 13 to 22: the generator
  \<^verbatim>\<open>simulate_streaming\<close>, which cuts an answer into chunks at each space and newline,
  strips each chunk and ends it with a space or \<^verbatim>\<open><br>\<close>.  The generator is the list
  of the chunks it yields; the \<^verbatim>\<open>time.sleep\<close> pauses are not modelled.  Python's
  \<^verbatim>\<open>str.strip()\<close> removes the characters \<^verbatim>\<open>str.isspace\<close> accepts; on the
  8-bit characters of the model those are the code points 9 to 13, 28 to 32, 133 and 160.
\<close>

definition py_isspace :: "char \<Rightarrow> bool" where
  "py_isspace c \<longleftrightarrow>
     (let n = (of_char c :: nat) in (9 \<le> n \<and> n \<le> 13) \<or> (28 \<le> n \<and> n \<le> 32) \<or> n = 133 \<or> n = 160)"

definition py_strip :: "string \<Rightarrow> string" where
  "py_strip s = rev (dropWhile py_isspace (rev (dropWhile py_isspace s)))"

definition stream_sep :: "char \<Rightarrow> bool" where
  "stream_sep c \<longleftrightarrow> c = CHR '' '' \<or> c = CHR 0x0A"

text \<open>The loop body, with the buffer as an accumulator.\<close>

fun simulate_streaming_from :: "string \<Rightarrow> string \<Rightarrow> string list" where
  "simulate_streaming_from buffer [] = (if buffer = [] then [] else [buffer])"
| "simulate_streaming_from buffer (c # cs) =
     (let buffer' = buffer @ [c] in
      if stream_sep c
      then (py_strip buffer' @ (if c = CHR 0x0A then ''<br>'' else '' '')) # simulate_streaming_from [] cs
      else simulate_streaming_from buffer' cs)"

definition simulate_streaming :: "string \<Rightarrow> string list" where
  "simulate_streaming message = simulate_streaming_from [] message"

text \<open>What the chunks render to when no whitespace is lost: newlines become \<^verbatim>\<open><br>\<close>.\<close>

definition render_newlines :: "string \<Rightarrow> string" where
  "render_newlines m = concat (map (\<lambda>c. if c = CHR 0x0A then ''<br>'' else [c]) m)"

section \<open>Lemmas\<close>

lemma stream_sep_space: "stream_sep c \<Longrightarrow> py_isspace c"
  by (auto simp add: stream_sep_def py_isspace_def)

lemma dropWhile_no_space:
  "list_all (\<lambda>x. \<not> py_isspace x) buf \<Longrightarrow> py_isspace c \<Longrightarrow>
   dropWhile py_isspace (buf @ [c]) = (if buf = [] then [] else buf @ [c])"
  by (cases buf) simp_all

lemma py_strip_word_sep:
  assumes "list_all (\<lambda>x. \<not> py_isspace x) buf" and "py_isspace c"
  shows "py_strip (buf @ [c]) = buf"
proof (cases "buf = []")
  case True
  with assms show ?thesis by (simp add: py_strip_def)
next
  case False
  have "dropWhile py_isspace (rev buf) = rev buf"
    using False assms(1) by (cases "rev buf") (auto simp add: list_all_iff)
  with False assms show ?thesis by (simp add: py_strip_def dropWhile_no_space)
qed

lemma render_newlines_Cons [simp]:
  "render_newlines (c # cs) = (if c = CHR 0x0A then ''<br>'' else [c]) @ render_newlines cs"
  by (simp add: render_newlines_def)

lemma render_newlines_Nil [simp]: "render_newlines [] = []"
  by (simp add: render_newlines_def)

lemma simulate_streaming_from_concat:
  "list_all (\<lambda>x. \<not> py_isspace x) buf \<Longrightarrow> list_all (\<lambda>c. py_isspace c \<longrightarrow> stream_sep c) m \<Longrightarrow>
   concat (simulate_streaming_from buf m) = buf @ render_newlines m"
proof (induction buf m rule: simulate_streaming_from.induct)
  case (2 buffer c cs)
  show ?case
  proof (cases "stream_sep c")
    case True
    then have "py_strip (buffer @ [c]) = buffer"
      using "2.prems"(1) stream_sep_space by (blast intro: py_strip_word_sep)
    with True "2.IH"(1) "2.prems" show ?thesis
      by (auto simp add: stream_sep_def)
  next
    case False
    with "2.prems" have "\<not> py_isspace c" by simp
    with False "2.IH"(2) "2.prems" show ?thesis by (auto simp add: stream_sep_def)
  qed
qed simp

lemma simulate_streaming_from_nonempty:
  "ch \<in> set (simulate_streaming_from buf m) \<Longrightarrow> ch \<noteq> []"
  by (induction buf m rule: simulate_streaming_from.induct) (auto simp add: Let_def split: if_splits)

section \<open>Properties\<close>

text \<open>
  C30.  When the answer has no whitespace other than spaces and newlines, the streamed
  chunks are all non-empty and together render the answer exactly, each newline as
  \<^verbatim>\<open><br>\<close>: nothing is lost or reordered.
\<close>

theorem streaming_renders_message:
  assumes "list_all (\<lambda>c. py_isspace c \<longrightarrow> stream_sep c) m"
  shows "concat (simulate_streaming m) = render_newlines m \<and> (\<forall>ch\<in>set (simulate_streaming m). ch \<noteq> [])"
  using simulate_streaming_from_concat [of "[]" m] simulate_streaming_from_nonempty [of _ "[]" m] assms
  by (simp add: simulate_streaming_def)

theorem streaming_renders_message_witness:
  "simulate_streaming (''no '' @ [CHR 0x0A] @ ''way'') = [''no '', ''<br>'', ''way''] \<and>
   concat (simulate_streaming (''no '' @ [CHR 0x0A] @ ''way'')) = ''no <br>way''"
proof -
  have a: "list_all (\<lambda>c. py_isspace c \<longrightarrow> stream_sep c) (''no '' @ [CHR 0x0A] @ ''way'')"
    by code_simp
  have r: "render_newlines (''no '' @ [CHR 0x0A] @ ''way'') = ''no <br>way''" by simp
  have s: "simulate_streaming (''no '' @ [CHR 0x0A] @ ''way'') = [''no '', ''<br>'', ''way'']"
    by code_simp
  show ?thesis using streaming_renders_message [OF a] r s by simp
qed

end
