(* ===== verification/Rag.thy ===== *)
theory Rag
  imports Bot
begin

text \<open>
  \<^verbatim>\<open>src/SecureShield/Chatbot/rag.py\<close> and \<^verbatim>\<open>MainChatbot.handle_rag\<close>
  (\<^verbatim>\<open>bot.py\<close>, lines 176 to 191): retrieval-augmented answers.  The constructor of
  \<^verbatim>\<open>RagChain\<close> builds the Pinecone retriever and the model (external services, whose
  construction is the parameter \<open>setup\<close>: it succeeds or raises), opens a connection
  to the store that it never uses or closes, and then reads \<^verbatim>\<open>self.template\<close>, an
  attribute no code sets: the constructor always raises once the services are up.
  \<^verbatim>\<open>handle_rag\<close> has no entry in \<^verbatim>\<open>intent_handlers\<close>, so no turn reaches it.
\<close>

section \<open>The chain\<close>

text \<open>\<^verbatim>\<open>sep.join(xs)\<close>.\<close>

fun py_join :: "string \<Rightarrow> string list \<Rightarrow> string" where
  "py_join sep [] = []"
| "py_join sep [x] = x"
| "py_join sep (x # y # zs) = x @ sep @ py_join sep (y # zs)"

text \<open>\<^verbatim>\<open>format_docs\<close> (lines 22 and 23), a document given by its \<^verbatim>\<open>page_content\<close>.\<close>

definition format_docs :: "string list \<Rightarrow> string" where
  "format_docs documents = py_join [CHR 0x0A, CHR 0x0A] documents"

definition rag_template_error :: exn where
  "rag_template_error = AttributeError (single_quoted ''RagChain'' @ '' object has no attribute '' @ single_quoted ''template'')"

text \<open>\<^verbatim>\<open>RagChain.__init__\<close> (lines 20 to 67).\<close>

definition rag_chain_init :: "exn + unit \<Rightarrow> world \<Rightarrow> (exn + unit) \<times> world" where
  "rag_chain_init setup w =
     (case setup of
        Inl e \<Rightarrow> (Inl e, w)
      | Inr _ \<Rightarrow> (Inl rag_template_error, sql_connect w))"

text \<open>\<^verbatim>\<open>run_chain\<close> (lines 69 and 70): the retrieval chain answers the question.\<close>

definition rag_run_chain :: "(string \<Rightarrow> exn + string) \<Rightarrow> string \<Rightarrow> exn + string" where
  "rag_run_chain rag_chain question = rag_chain question"

text \<open>\<^verbatim>\<open>handle_rag\<close>: it reads \<^verbatim>\<open>self.username\<close>, builds the chain, then asks it.\<close>

definition handle_rag ::
  "exn + unit \<Rightarrow> (string \<Rightarrow> exn + string) \<Rightarrow> pydict \<Rightarrow> bot \<Rightarrow> world \<Rightarrow> pyval turn" where
  "handle_rag setup rag_chain user_input b w =
     (case login b of
        None \<Rightarrow> (Inl no_login_error, b, w)
      | Some _ \<Rightarrow>
          (case rag_chain_init setup w of
             (Inl e, w1) \<Rightarrow> (Inl e, b, w1)
           | (Inr _, w1) \<Rightarrow>
               (case dict_get user_input ''user_input'' of
                  Inl e \<Rightarrow> (Inl e, b, w1)
                | Inr (PStr q) \<Rightarrow> (map_sum id PStr (rag_run_chain rag_chain q), b, w1)
                | Inr _ \<Rightarrow> (Inl (TypeError ''expected str''), b, w1))))"

section \<open>Lemmas\<close>

lemma rag_chain_init_raises: "isl (fst (rag_chain_init setup w))"
  by (simp add: rag_chain_init_def split: sum.splits)

lemma handle_rag_raises:
  "isl (fst (handle_rag setup rag_chain user_input b w)) \<and> fst (snd (handle_rag setup rag_chain user_input b w)) = b \<and>
   db (snd (snd (handle_rag setup rag_chain user_input b w))) = db w"
  by (simp add: handle_rag_def rag_chain_init_def sql_connect_def split: option.splits sum.splits)

end
