(* ===== verification/Prompts.thy ===== *)
theory Prompts
  imports Prelude
begin

text \<open>
  The prompt side of the chains: \<^verbatim>\<open>PromptTemplate\<close> and
  \<^verbatim>\<open>generate_prompt_templates\<close> of \<^verbatim>\<open>Chains/Base.py\<close> (imported by every chain
  file; the module is not in the repository, so it is modelled as its callers use it),
  and the LangChain pieces the chains compose with \<^verbatim>\<open>prompt | llm | parser\<close>:
  Python's f-string template parser, \<^verbatim>\<open>ChatPromptTemplate.invoke\<close> (the check of
  the input variables, the formatting of each message, the chat-history placeholder),
  and the pipeline itself, where the chat model and the output parser are oracles.
  A formatted message keeps the substituted values as values (\<open>seg\<close>), so that no
  rendering of a message list to text has to be fixed.
\<close>

section \<open>Templates\<close>

text \<open>A triple-quoted Python string, given by its lines.\<close>

fun join_nl :: "string list \<Rightarrow> string" where
  "join_nl [] = []"
| "join_nl [x] = x"
| "join_nl (x # y # zs) = x @ [CHR 0x0A] @ join_nl (y # zs)"

text \<open>\<^verbatim>\<open>Base.PromptTemplate(system_template=..., human_template=...)\<close>.\<close>

record prompt_template =
  system_template :: string
  human_template :: string

text \<open>
  A parsed f-string: literal characters and replacement fields.  The field is the whole
  text between the braces; the templates of the repository use no conversion
  (\<^verbatim>\<open>!r\<close>), format spec or nested field.
\<close>

datatype fpart = FLit char | FVar string

definition brace_error :: "char \<Rightarrow> exn" where
  "brace_error c = ValueError (''Single '' @ single_quoted [c] @ '' encountered in format string'')"

text \<open>
  \<^verbatim>\<open>string.Formatter().parse\<close>, which LangChain runs on every template it builds:
  \<^verbatim>\<open>{{\<close> and \<^verbatim>\<open>}}\<close> are literal braces, \<^verbatim>\<open>{name}\<close> a field, and an
  unmatched brace a \<^verbatim>\<open>ValueError\<close>.  The scan after an opening brace jumps to the
  closing one, so the recursion is on a suffix that is shorter, but not structurally.
\<close>

function fstring_parse :: "string \<Rightarrow> exn + fpart list" where
  "fstring_parse [] = Inr []"
| "fstring_parse (c # cs) =
     (if (c = CHR ''{'' \<or> c = CHR ''}'') \<and> cs \<noteq> [] \<and> hd cs = c
      then map_sum id (Cons (FLit c)) (fstring_parse (tl cs))
      else if c = CHR ''}'' then Inl (brace_error c)
      else if c = CHR ''{'' then
        (let rest = dropWhile (\<lambda>x. x \<noteq> CHR ''}'') cs in
         if cs = [] then Inl (brace_error c)
         else if rest = [] then Inl (ValueError (''expected '' @ single_quoted ''}'' @ '' before end of string''))
         else map_sum id (Cons (FVar (takeWhile (\<lambda>x. x \<noteq> CHR ''}'') cs))) (fstring_parse (tl rest)))
      else map_sum id (Cons (FLit c)) (fstring_parse cs))"
  by pat_completeness auto

termination
  by (relation "measure length") (auto intro: le_imp_less_Suc order_trans [OF diff_le_self length_dropWhile_le])

definition fpart_vars :: "fpart list \<Rightarrow> string list" where
  "fpart_vars ps = [v. FVar v \<leftarrow> ps]"

text \<open>
  A message template of a \<^verbatim>\<open>ChatPromptTemplate\<close>: a system or human message
  template, or a \<^verbatim>\<open>MessagesPlaceholder\<close> for a variable.
\<close>

datatype msg_template = SystemTmpl "fpart list" | HumanTmpl "fpart list" | PlaceholderTmpl string

type_synonym chat_prompt = "msg_template list"

text \<open>
  \<^verbatim>\<open>generate_prompt_templates(prompt_template, memory)\<close>: the system message, the
  \<^verbatim>\<open>chat_history\<close> placeholder when \<^verbatim>\<open>memory\<close> is set, and the human message.
  The two \<^verbatim>\<open>from_template\<close> calls parse their templates, so a malformed template
  raises when the chain is built.
\<close>

definition generate_prompt_templates :: "prompt_template \<Rightarrow> bool \<Rightarrow> exn + chat_prompt" where
  "generate_prompt_templates pt memory =
     bind_res (fstring_parse (system_template pt)) (\<lambda>s.
     bind_res (fstring_parse (human_template pt)) (\<lambda>h.
     Inr ([SystemTmpl s] @ (if memory then [PlaceholderTmpl ''chat_history''] else []) @ [HumanTmpl h])))"

fun tmpl_vars :: "msg_template \<Rightarrow> string list" where
  "tmpl_vars (SystemTmpl ps) = fpart_vars ps"
| "tmpl_vars (HumanTmpl ps) = fpart_vars ps"
| "tmpl_vars (PlaceholderTmpl v) = [v]"

text \<open>\<^verbatim>\<open>ChatPromptTemplate.input_variables\<close>, in order of first use.\<close>

definition input_variables :: "chat_prompt \<Rightarrow> string list" where
  "input_variables p = rev (remdups (rev (concat (map tmpl_vars p))))"

section \<open>Formatting\<close>

datatype seg = Chr char | Val pyval

datatype prompt_msg = SystemMessage "seg list" | HumanMessage "seg list" | HistoryMessage message

fun format_parts :: "pydict \<Rightarrow> fpart list \<Rightarrow> exn + seg list" where
  "format_parts d [] = Inr []"
| "format_parts d (FLit c # ps) = map_sum id (Cons (Chr c)) (format_parts d ps)"
| "format_parts d (FVar v # ps) =
     bind_res (dict_get d v) (\<lambda>x. map_sum id (Cons (Val x)) (format_parts d ps))"

text \<open>
  \<^verbatim>\<open>MessagesPlaceholder.format_messages\<close>: the value must be a list, whose strings
  become human messages.
\<close>

definition placeholder_messages :: "string \<Rightarrow> pyval \<Rightarrow> exn + prompt_msg list" where
  "placeholder_messages v x =
     (case x of
        PMessages ms \<Rightarrow> Inr (map HistoryMessage ms)
      | PStrList ss \<Rightarrow> Inr (map (\<lambda>s. HistoryMessage \<lparr>msg_role = Human, msg_content = s\<rparr>) ss)
      | _ \<Rightarrow> Inl (ValueError (''variable '' @ v @ '' should be a list of base messages'')))"

fun format_msg :: "pydict \<Rightarrow> msg_template \<Rightarrow> exn + prompt_msg list" where
  "format_msg d (SystemTmpl ps) = map_sum id (\<lambda>s. [SystemMessage s]) (format_parts d ps)"
| "format_msg d (HumanTmpl ps) = map_sum id (\<lambda>s. [HumanMessage s]) (format_parts d ps)"
| "format_msg d (PlaceholderTmpl v) = bind_res (dict_get d v) (placeholder_messages v)"

fun format_messages :: "pydict \<Rightarrow> chat_prompt \<Rightarrow> exn + prompt_msg list" where
  "format_messages d [] = Inr []"
| "format_messages d (t # ts) =
     bind_res (format_msg d t) (\<lambda>m. map_sum id (\<lambda>ms. m @ ms) (format_messages d ts))"

definition py_set_repr :: "string list \<Rightarrow> string" where
  "py_set_repr xs = ''{'' @ join_comma (map py_repr_str xs) @ ''}''"

text \<open>
  \<^verbatim>\<open>ChatPromptTemplate.invoke\<close>: \<^verbatim>\<open>_validate_input\<close> raises a
  \<^verbatim>\<open>KeyError\<close> naming every missing input variable (the first sentence of
  LangChain's message; the model lists the set in order of first use), then every
  message is formatted.
\<close>

definition chat_prompt_invoke :: "chat_prompt \<Rightarrow> pydict \<Rightarrow> exn + prompt_msg list" where
  "chat_prompt_invoke p d =
     (let missing = filter (\<lambda>v. d v = None) (input_variables p) in
      if missing \<noteq> []
      then Inl (KeyError (''Input to ChatPromptTemplate is missing variables '' @ py_set_repr missing))
      else format_messages d p)"

text \<open>
  \<^verbatim>\<open>prompt | llm | parser\<close>: the formatted messages go to the chat model, whose
  completion the parser turns into the chain's result; both may raise.
\<close>

type_synonym chat_model = "prompt_msg list \<Rightarrow> exn + string"

definition lcel_invoke :: "chat_prompt \<Rightarrow> chat_model \<Rightarrow> (string \<Rightarrow> exn + 'a) \<Rightarrow> pydict \<Rightarrow> exn + 'a" where
  "lcel_invoke p model parser d = bind_res (chat_prompt_invoke p d) (\<lambda>ms. bind_res (model ms) parser)"

section \<open>Lemmas\<close>

text \<open>A value the placeholder accepts.\<close>

definition history_value :: "pyval \<Rightarrow> bool" where
  "history_value x \<longleftrightarrow> (case x of PMessages _ \<Rightarrow> True | PStrList _ \<Rightarrow> True | _ \<Rightarrow> False)"

definition placeholders :: "chat_prompt \<Rightarrow> string list" where
  "placeholders p = [v. PlaceholderTmpl v \<leftarrow> p]"

lemma format_parts_not_isl: "set (fpart_vars ps) \<subseteq> dom d \<Longrightarrow> \<not> isl (format_parts d ps)"
  by (induction d ps rule: format_parts.induct) (auto simp add: fpart_vars_def)

lemma placeholder_messages_not_isl: "history_value x \<Longrightarrow> \<not> isl (placeholder_messages v x)"
  by (simp add: history_value_def placeholder_messages_def split: pyval.splits)

lemma format_messages_not_isl:
  "set (concat (map tmpl_vars p)) \<subseteq> dom d \<Longrightarrow>
   (\<forall>v\<in>set (placeholders p). \<exists>x. d v = Some x \<and> history_value x) \<Longrightarrow> \<not> isl (format_messages d p)"
proof (induction p)
  case (Cons t ts)
  have "\<not> isl (format_msg d t)"
  proof (cases t)
    case (PlaceholderTmpl v)
    with Cons.prems(2) obtain x where "d v = Some x" "history_value x"
      by (auto simp add: placeholders_def)
    with PlaceholderTmpl show ?thesis by (simp add: placeholder_messages_not_isl)
  qed (use Cons.prems(1) format_parts_not_isl in auto)
  moreover have "\<not> isl (format_messages d ts)"
    using Cons by (auto simp add: placeholders_def)
  ultimately show ?case by (cases "format_msg d t") auto
qed simp

lemma chat_prompt_invoke_not_isl:
  assumes "set (input_variables p) \<subseteq> dom d"
    and "\<forall>v\<in>set (placeholders p). \<exists>x. d v = Some x \<and> history_value x"
  shows "\<not> isl (chat_prompt_invoke p d)"
proof -
  have "filter (\<lambda>v. d v = None) (input_variables p) = []"
    using assms(1) by (auto simp add: filter_empty_conv)
  with assms show ?thesis
    by (simp add: chat_prompt_invoke_def format_messages_not_isl input_variables_def)
qed

lemma map_sum_Inr_iff: "map_sum f g r = Inr y \<longleftrightarrow> (\<exists>x. r = Inr x \<and> y = g x)"
  by (cases r) auto

lemma format_parts_Val:
  "format_parts d ps = Inr r \<Longrightarrow> v \<in> set (fpart_vars ps) \<Longrightarrow> d v = Some x \<Longrightarrow> Val x \<in> set r"
  by (induction d ps arbitrary: r rule: format_parts.induct)
     (auto simp add: fpart_vars_def bind_res_eq_Inr map_sum_Inr_iff dict_get_Inr_iff)

lemma format_parts_literal_field:
  "format_parts d (map FLit cs @ [FVar v]) = bind_res (dict_get d v) (\<lambda>x. Inr (map Chr cs @ [Val x]))"
  by (induction cs) (simp_all add: bind_res_def split: sum.splits)

text \<open>
  What \<^verbatim>\<open>generate_prompt_templates\<close> builds from two templates that parse, and
  the variables and placeholders of the prompt.
\<close>

lemma generate_prompt_templates_Inr:
  "fstring_parse (system_template pt) = Inr s \<Longrightarrow> fstring_parse (human_template pt) = Inr h \<Longrightarrow>
   generate_prompt_templates pt m =
     Inr ([SystemTmpl s] @ (if m then [PlaceholderTmpl ''chat_history''] else []) @ [HumanTmpl h])"
  by (simp add: generate_prompt_templates_def)

lemma prompt_vars_placeholders:
  "set (input_variables ([SystemTmpl s] @ (if m then [PlaceholderTmpl v] else []) @ [HumanTmpl h])) =
     set (fpart_vars s) \<union> (if m then {v} else {}) \<union> set (fpart_vars h)"
  "set (placeholders ([SystemTmpl s] @ (if m then [PlaceholderTmpl v] else []) @ [HumanTmpl h])) =
     (if m then {v} else {})"
  by (auto simp add: input_variables_def placeholders_def)

text \<open>
  A prompt built from templates with the fields \<open>vs\<close> and \<open>hs\<close> formats without an
  exception on every dict that has these keys and, with memory, a message list under
  \<^verbatim>\<open>chat_history\<close>.
\<close>

lemma generate_prompt_templates_formats:
  assumes "map_sum id fpart_vars (fstring_parse (system_template pt)) = Inr vs"
    and "map_sum id fpart_vars (fstring_parse (human_template pt)) = Inr hs"
  shows "\<exists>p. generate_prompt_templates pt m = Inr p \<and>
           (\<forall>d. set vs \<union> set hs \<subseteq> dom d \<longrightarrow>
                (m \<longrightarrow> (\<exists>x. d ''chat_history'' = Some x \<and> history_value x)) \<longrightarrow>
                \<not> isl (chat_prompt_invoke p d))"
proof -
  from assms obtain s h where s: "fstring_parse (system_template pt) = Inr s" "fpart_vars s = vs"
    and h: "fstring_parse (human_template pt) = Inr h" "fpart_vars h = hs"
    by (auto simp add: map_sum_Inr_iff)
  let ?p = "[SystemTmpl s] @ (if m then [PlaceholderTmpl ''chat_history''] else []) @ [HumanTmpl h]"
  have "\<not> isl (chat_prompt_invoke ?p d)"
    if "set vs \<union> set hs \<subseteq> dom d" and "m \<longrightarrow> (\<exists>x. d ''chat_history'' = Some x \<and> history_value x)" for d
  proof (rule chat_prompt_invoke_not_isl)
    show "set (input_variables ?p) \<subseteq> dom d"
      using that s(2) h(2) by (auto simp only: prompt_vars_placeholders split: if_splits)
    show "\<forall>v\<in>set (placeholders ?p). \<exists>x. d v = Some x \<and> history_value x"
      using that by (simp only: prompt_vars_placeholders split: if_splits) auto
  qed
  with generate_prompt_templates_Inr [OF s(1) h(1)] show ?thesis by blast
qed

lemma chat_prompt_invoke_two:
  assumes "set (fpart_vars s) \<union> set (fpart_vars h) \<subseteq> dom d"
    and "format_parts d s = Inr rs" and "format_parts d h = Inr rh"
  shows "chat_prompt_invoke [SystemTmpl s, HumanTmpl h] d = Inr [SystemMessage rs, HumanMessage rh]"
proof -
  have "filter (\<lambda>v. d v = None) (input_variables [SystemTmpl s, HumanTmpl h]) = []"
    using assms(1) by (auto simp add: filter_empty_conv input_variables_def)
  with assms(2,3) show ?thesis by (simp add: chat_prompt_invoke_def)
qed

lemma format_parts_Inr:
  assumes "set (fpart_vars ps) \<subseteq> dom d"
  obtains r where "format_parts d ps = Inr r"
  using format_parts_not_isl [OF assms] by (cases "format_parts d ps") auto

lemma generate_prompt_templates_formats_case:
  assumes "map_sum id fpart_vars (fstring_parse (system_template pt)) = Inr vs"
    and "map_sum id fpart_vars (fstring_parse (human_template pt)) = Inr hs"
  shows "case generate_prompt_templates pt m of Inl _ \<Rightarrow> False | Inr p \<Rightarrow>
           (\<forall>d. set vs \<union> set hs \<subseteq> dom d \<longrightarrow>
                (m \<longrightarrow> (\<exists>x. d ''chat_history'' = Some x \<and> history_value x)) \<longrightarrow>
                \<not> isl (chat_prompt_invoke p d))"
  using generate_prompt_templates_formats [OF assms, of m] by auto

lemma chat_prompt_invoke_missing:
  "v \<in> set (input_variables p) \<Longrightarrow> d v = None \<Longrightarrow> \<exists>m. chat_prompt_invoke p d = Inl (KeyError m)"
  by (auto simp add: chat_prompt_invoke_def Let_def filter_empty_conv)

end
