(* ===== verification/ChatPage.thy ===== *)
theory ChatPage
  imports App Bot
begin

text \<open>
  \<^verbatim>\<open>src/SecureShield/app_pages/Chatbot.py\<close>, lines 25 to 62, as the page would run
  once the stray indentation of line 41 is removed (as shipped the module does not
  compile, which \<^verbatim>\<open>App.chatbot_page_run\<close> models).  The session state is the login
  page's \<open>page_state\<close> extended with \<^verbatim>\<open>st.session_state.messages\<close>, which no code
  of the repository initialises; the page's output is the list of elements it draws.
  The bot's constructor and the page's call of \<^verbatim>\<open>user_login\<close> are parameters, so
  that the page can be run with either of them repaired.
\<close>

section \<open>State and output\<close>

record chat_session = page_state +
  cs_messages :: "(string \<times> pyval) list option"

datatype chat_out =
    StWarning string
  | StTitle string
  | StChatMessage string pyval
  | StErrorBox string

text \<open>The dict the page passes to \<^verbatim>\<open>process_user_input\<close> (line 56): only \<^verbatim>\<open>user_input\<close>.\<close>

definition chatbot_page_input :: "string \<Rightarrow> pydict" where
  "chatbot_page_input s = [''user_input'' \<mapsto> PStr s]"

text \<open>Streamlit's errors for a missing key and a missing attribute of \<^verbatim>\<open>st.session_state\<close>.\<close>

definition session_key_error :: "string \<Rightarrow> exn" where
  "session_key_error k = KeyError (''st.session_state has no key '' @ [CHR 0x22] @ k @ [CHR 0x22] @
     ''. Did you forget to initialize it?'')"

definition session_attr_error :: "string \<Rightarrow> exn" where
  "session_attr_error k = AttributeError (''st.session_state has no attribute '' @ [CHR 0x22] @ k @
     [CHR 0x22] @ ''. Did you forget to initialize it?'')"

text \<open>
  \<^verbatim>\<open>bot.user_login(username=username)\<close> (line 51): \<^verbatim>\<open>user_login\<close> takes a
  \<^verbatim>\<open>conversation_id\<close> as well, so the call raises before the method runs.
\<close>

definition page_user_login :: "sqlval option \<Rightarrow> bot \<Rightarrow> exn + bot" where
  "page_user_login username b =
     Inl (TypeError (''MainChatbot.user_login() missing 1 required positional argument: '' @
       single_quoted ''conversation_id''))"

section \<open>The page\<close>

text \<open>
  Lines 53 to 62: the \<^verbatim>\<open>try\<close> block runs the turn on the page's dict; an answer is
  drawn and appended to \<^verbatim>\<open>messages\<close>, any exception is shown as
  \<^verbatim>\<open>st.error(f"Error: {str(e)}")\<close>.
\<close>

definition chatbot_page_respond ::
  "llm \<Rightarrow> bot \<Rightarrow> string \<Rightarrow> chat_session \<Rightarrow> world \<Rightarrow> chat_session \<times> bot \<times> world \<times> chat_out list" where
  "chatbot_page_respond L b u cs w =
     (case process_user_input L (chatbot_page_input u) b w of
        (Inr response, b', w') \<Rightarrow>
          (cs\<lparr>cs_messages := map_option (\<lambda>ms. ms @ [(''assistant'', response)]) (cs_messages cs)\<rparr>,
           b', w', [StChatMessage ''assistant'' response])
      | (Inl e, b', w') \<Rightarrow> (cs, b', w', [StErrorBox (''Error: '' @ exn_str e)]))"

text \<open>
  Lines 25 to 62.  Without a login: the warning, and the switch to the login page when
  its button is clicked.  With one: the title, \<^verbatim>\<open>username\<close>, the history drawn from
  \<^verbatim>\<open>messages\<close>, and, when a message was typed, its append, the bot's construction
  (line 50), the login call and the \<^verbatim>\<open>try\<close> block.  Lines 50 and 51 are outside the
  \<^verbatim>\<open>try\<close>: their exceptions end the run.
\<close>

definition chatbot_page_fixed ::
  "exn + bot \<Rightarrow> (sqlval option \<Rightarrow> bot \<Rightarrow> exn + bot) \<Rightarrow> llm \<Rightarrow> bool \<Rightarrow> string option \<Rightarrow>
   chat_session \<Rightarrow> world \<Rightarrow> (exn + unit) \<times> chat_session \<times> world \<times> chat_out list" where
  "chatbot_page_fixed mk login_call L button inp cs w =
     (if \<not> check_auth (page_state.truncate cs) then
        (Inr (), if button then cs\<lparr>ps_page := Some ''app_pages/Login.py''\<rparr> else cs, w,
         [StWarning ''You need to login to access the chatbot.''])
      else
        (case ps_username cs of
           None \<Rightarrow> (Inl (session_key_error ''username''), cs, w, [StTitle ''Secure Shield Chatbot''])
         | Some username \<Rightarrow>
             (case cs_messages cs of
                None \<Rightarrow> (Inl (session_attr_error ''messages''), cs, w, [StTitle ''Secure Shield Chatbot''])
              | Some ms \<Rightarrow>
                  (let shown = StTitle ''Secure Shield Chatbot'' # map (\<lambda>(r, c). StChatMessage r c) ms in
                   case inp of
                     None \<Rightarrow> (Inr (), cs, w, shown)
                   | Some u \<Rightarrow>
                       (let cs1 = cs\<lparr>cs_messages := Some (ms @ [(''user'', PStr u)])\<rparr>;
                            shown1 = shown @ [StChatMessage ''user'' (PStr u)] in
                        case bind_res mk (login_call username) of
                          Inl e \<Rightarrow> (Inl e, cs1, w, shown1)
                        | Inr b \<Rightarrow>
                            (case chatbot_page_respond L b u cs1 w of
                               (cs2, _, w2, out) \<Rightarrow> (Inr (), cs2, w2, shown1 @ out)))))))"

section \<open>Lemmas\<close>

lemma page_input_turn_key_error:
  "guard_model L (PStr s) = Inr False \<Longrightarrow>
   process_user_input L (chatbot_page_input s) b w = (Inl (KeyError ''customer_input''), b, w)"
  by (simp add: process_user_input_def chatbot_page_input_def is_prompt_injection_invoke_def
                get_user_intent_def)

lemma page_user_login_raises: "bind_res mk (page_user_login u) \<noteq> Inr b"
  by (cases mk) (simp_all add: page_user_login_def)

lemma chatbot_page_fixed_store:
  "fst (snd (snd (chatbot_page_fixed mk page_user_login L button inp cs w))) = w"
  by (simp add: chatbot_page_fixed_def page_user_login_raises Let_def split: option.splits sum.splits)

section \<open>Properties\<close>

text \<open>
  C6.  Even with line 41 repaired, the chat page never runs a turn: a logged-in run raises
  when \<^verbatim>\<open>messages\<close> was never initialised, and a run with a typed message raises at
  the bot's construction or at \<^verbatim>\<open>user_login\<close>, which is called without its
  \<^verbatim>\<open>conversation_id\<close>, whatever constructor is used; the store is never touched.
\<close>

theorem chat_page_never_runs_turn:
  assumes "check_auth (page_state.truncate cs)" and "cs_messages cs = None \<or> inp \<noteq> None"
  shows "isl (fst (chatbot_page_fixed mk page_user_login L button inp cs w)) \<and>
         fst (snd (snd (chatbot_page_fixed mk page_user_login L button inp cs w))) = w"
  using assms chatbot_page_fixed_store [of mk L button inp cs w]
  by (auto simp add: chatbot_page_fixed_def page_user_login_raises Let_def split: option.splits sum.splits)

text \<open>
  C16.  Once the bot is built and logged in, the page's \<^verbatim>\<open>try\<close> block catches the
  turn's failure: for every input the guard lets through, the page shows
  \<^verbatim>\<open>Error: 'customer_input'\<close> (the classifier's missing key), appends no answer
  to \<^verbatim>\<open>messages\<close>, and leaves the bot and the store as they were.
\<close>

theorem chat_page_shows_key_error:
  assumes "guard_model L (PStr u) = Inr False"
  shows "chatbot_page_respond L b u cs w =
           (cs, b, w, [StErrorBox (''Error: '' @ py_repr_str ''customer_input'')])"
  using page_input_turn_key_error [OF assms, of b w]
  by (simp add: chatbot_page_respond_def)

end
